theory Spec2Isabelle
  imports Main "HOL-Library.Word" "HOL-Library.AList"
begin

section \<open>Common vocabulary of the control plane\<close>

text \<open>
  The classes of the repository are embedded as records, their methods as functions that
  take the object's state and return the new state together with the trace of effects the
  method performs, in program order: requests to the engine, notifications on the payload
  channel, events emitted on the object's own emitter or on its observer, log lines.
  A method that throws returns \<open>Inl\<close> of the error.  An \<open>async\<close> method is cut at
  its \<open>await\<close>: one function for the synchronous prefix, which ends by issuing the
  request, and one for the continuation, which runs on the state the object has when the
  response arrives.
\<close>

type_synonym id = string

text \<open>The double quote that the source's messages put around ids.\<close>

definition dq :: string where
  "dq = [char_of (34::nat)]"

datatype error =
    TypeError string
  | Error string

text \<open>The outcome of \<open>await channel.request(...)\<close>: the promise rejects or resolves.\<close>

datatype 'a response =
    Rejected error
  | Resolved 'a

text \<open>
  The first argument of \<open>DataProducer.send\<close> as the runtime check sees it: a string, a
  Buffer, or any other value.
\<close>

datatype message =
    MString string
  | MBuffer "8 word list"
  | MOther

text \<open>
  The second argument of \<open>DataProducer.send\<close>: \<open>typeof ppid !== 'number'\<close> holds for
  \<open>PpidNotNumber\<close>; a number is an integer here.
\<close>

datatype ppid_arg =
    PpidNotNumber
  | PpidNumber int

datatype log_level = Debug | Warn | Err

subsection \<open>RTP and SCTP parameters\<close>

text \<open>
  The parameter types are declared outside the sources at hand; the records keep the
  fields that the code of the transports reads or writes.  An encoding is an object,
  given by its properties; \<open>{}\<close> is the object without any.  The \<open>encodings\<close>
  member is kept as the three tests of \<open>produce()\<close> see it: a falsy value (also a
  missing one), a truthy value that is not an array, or an array.
\<close>

type_synonym rtp_encoding = "(string \<times> string) list"

datatype encodings_value =
    EncodingsFalsy
  | EncodingsNotArray
  | EncodingsArray "rtp_encoding list"

record rtcp_parameters =
  cname :: "string option"
  reducedSize :: "bool option"

record rtp_parameters =
  mid :: "string option"
  codecs :: "string list"
  encodings :: encodings_value
  rtcp :: "rtcp_parameters option"

datatype rtp_capabilities = RtpCapabilities "string list"

datatype rtp_mapping = RtpMapping "(nat \<times> nat) list"

record sctp_stream_parameters =
  streamId :: "nat option"
  ordered :: "bool option"
  maxPacketLifeTime :: "nat option"
  maxRetransmits :: "nat option"

text \<open>\<open>MIS\<close> is \<open>None\<close> when \<open>typeof sctpParameters.MIS !== 'number'\<close>.\<close>

record sctp_parameters =
  MIS :: "nat option"

text \<open>
  \<open>appData\<close> as the argument check sees it: falsy, an object, or a truthy value whose
  \<open>typeof\<close> is not \<open>'object'\<close>.
\<close>

datatype app_data =
    AppDataFalsy
  | AppDataObject
  | AppDataOther

text \<open>
  The \<open>mid\<close> option of \<open>consume()\<close>: missing, a string, or a truthy value that is
  not a string.
\<close>

datatype mid_arg =
    MidMissing
  | MidString string
  | MidOther

subsection \<open>Requests and effects\<close>

record produce_request =
  prq_producerId :: id
  prq_kind :: string
  prq_rtpParameters :: rtp_parameters
  prq_rtpMapping :: rtp_mapping
  prq_keyFrameRequestDelay :: "nat option"
  prq_paused :: bool

record consume_request =
  crq_consumerId :: id
  crq_producerId :: id
  crq_kind :: string
  crq_rtpParameters :: rtp_parameters
  crq_type :: string
  crq_consumableRtpEncodings :: encodings_value
  crq_paused :: bool
  crq_preferredLayers :: "string option"
  crq_ignoreDtx :: bool

record consume_data_request =
  cdrq_dataConsumerId :: id
  cdrq_dataProducerId :: id
  cdrq_type :: string
  cdrq_sctpStreamParameters :: "sctp_stream_parameters option"
  cdrq_label :: string
  cdrq_protocol :: string

datatype request_data =
    NoData
  | TransportIdData id
  | DataProducerIdData id
  | RtpObserverIdData id
  | WebRtcServerIdData id
  | ProduceData produce_request
  | ConsumeData consume_request
  | ConsumeDataData consume_data_request

datatype object_class =
    ProducerClass
  | ConsumerClass
  | DataProducerClass
  | DataConsumerClass
  | WebRtcTransportClass

text \<open>
  One entry of a trace.  \<open>Emit\<close> and \<open>SafeEmit\<close> are events on the object's own
  emitter, \<open>ObserverSafeEmit\<close> on its observer; the optional id is the object passed
  with the event.  \<open>On c i e\<close> is the effect \<open>e\<close> performed by the object of class
  \<open>c\<close> and id \<open>i\<close> on which the running method called a method.
\<close>

datatype effect =
    Log log_level string
  | ChannelRemoveAllListeners id
  | PayloadChannelRemoveAllListeners id
  | ChannelRequest string "id option" request_data
  | PayloadChannelNotify string id string message
  | Emit string "id option"
  | SafeEmit string "id option"
  | ObserverSafeEmit string "id option"
  | On object_class id effect

section \<open>Decimal rendering of numbers\<close>

text \<open>\<open>String(n)\<close> and the template literal on an integer.\<close>

definition digit_char :: "nat \<Rightarrow> char" where
  "digit_char d = ''0123456789'' ! d"

function string_of_nat :: "nat \<Rightarrow> string" where
  "string_of_nat n =
     (if n < 10 then [digit_char n]
      else string_of_nat (n div 10) @ [digit_char (n mod 10)])"
  by pat_completeness auto
termination
  by (relation "measure (\<lambda>n. n)") auto

declare string_of_nat.simps [simp del]

definition string_of_int :: "int \<Rightarrow> string" where
  "string_of_int i = (if i < 0 then CHR ''-'' # string_of_nat (nat (- i)) else string_of_nat (nat i))"

text \<open>Reading a decimal string back, as \<open>Number(s)\<close> does on a string of digits.\<close>

definition digit_value :: "char \<Rightarrow> nat" where
  "digit_value c = of_char c - 48"

definition nat_of_string :: "string \<Rightarrow> nat" where
  "nat_of_string s = foldl (\<lambda>acc c. 10 * acc + digit_value c) 0 s"

section \<open>DataProducer\<close>

record data_producer =
  dp_dataProducerId :: id
  dp_transportId :: id
  dp_closed :: bool
  dp_type :: string
  dp_sctpStreamParameters :: "sctp_stream_parameters option"
  dp_label :: string
  dp_protocol :: string

definition example_dataProducer :: data_producer where
  "example_dataProducer =
     \<lparr>dp_dataProducerId = ''dp1'', dp_transportId = ''t1'', dp_closed = False,
      dp_type = ''direct'', dp_sctpStreamParameters = None, dp_label = ''chat'',
      dp_protocol = []\<rparr>"

text \<open>\<open>DataProducer.close()\<close>\<close>

definition dataProducer_close :: "data_producer \<Rightarrow> data_producer \<times> effect list" where
  "dataProducer_close dp =
     (if dp_closed dp then (dp, [])
      else
        (dp\<lparr>dp_closed := True\<rparr>,
         [Log Debug ''close()'',
          ChannelRemoveAllListeners (dp_dataProducerId dp),
          PayloadChannelRemoveAllListeners (dp_dataProducerId dp),
          ChannelRequest ''transport.closeDataProducer'' (Some (dp_transportId dp))
            (DataProducerIdData (dp_dataProducerId dp)),
          Emit ''@close'' None,
          ObserverSafeEmit ''close'' None]))"

text \<open>\<open>DataProducer.transportClosed()\<close>\<close>

definition dataProducer_transportClosed :: "data_producer \<Rightarrow> data_producer \<times> effect list" where
  "dataProducer_transportClosed dp =
     (if dp_closed dp then (dp, [])
      else
        (dp\<lparr>dp_closed := True\<rparr>,
         [Log Debug ''transportClosed()'',
          ChannelRemoveAllListeners (dp_dataProducerId dp),
          PayloadChannelRemoveAllListeners (dp_dataProducerId dp),
          SafeEmit ''transportclose'' None,
          ObserverSafeEmit ''close'' None]))"

text \<open>
  \<open>DataProducer.send(message, ppid)\<close>.  \<open>default_ppid\<close> is the conditional expression
  that fills a missing ppid, \<open>honor_ppid\<close> the replacement of the message for the two
  "empty" PPIDs; \<open>Buffer.alloc(1)\<close> is one zero byte.
\<close>

definition default_ppid :: "message \<Rightarrow> int" where
  "default_ppid m =
     (case m of
        MString s \<Rightarrow> (if length s > 0 then 51 else 56)
      | MBuffer b \<Rightarrow> (if length b > 0 then 53 else 57)
      | MOther \<Rightarrow> 57)"

definition honor_ppid :: "int \<Rightarrow> message \<Rightarrow> message" where
  "honor_ppid ppid m =
     (if ppid = 56 then MString '' ''
      else if ppid = 57 then MBuffer [0]
      else m)"

definition send :: "data_producer \<Rightarrow> message \<Rightarrow> ppid_arg \<Rightarrow> error + effect list" where
  "send dp m p =
     (if m = MOther then Inl (TypeError ''message must be a string or a Buffer'')
      else
        (let ppid = (case p of PpidNotNumber \<Rightarrow> default_ppid m | PpidNumber n \<Rightarrow> n);
             m' = honor_ppid ppid m;
             notifData = string_of_int ppid
         in Inr [PayloadChannelNotify ''dataProducer.send'' (dp_dataProducerId dp) notifData m']))"

text \<open>The payload of a message is empty: the empty string or the empty Buffer.\<close>

definition empty_payload :: "message \<Rightarrow> bool" where
  "empty_payload m = (m = MString [] \<or> m = MBuffer [])"

section \<open>RtpObserver\<close>

record rtp_observer =
  ro_rtpObserverId :: id
  ro_routerId :: id
  ro_closed :: bool
  ro_paused :: bool

text \<open>\<open>RtpObserver.close()\<close>\<close>

definition rtpObserver_close :: "rtp_observer \<Rightarrow> rtp_observer \<times> effect list" where
  "rtpObserver_close ro =
     (if ro_closed ro then (ro, [])
      else
        (ro\<lparr>ro_closed := True\<rparr>,
         [Log Debug ''close()'',
          ChannelRemoveAllListeners (ro_rtpObserverId ro),
          PayloadChannelRemoveAllListeners (ro_rtpObserverId ro),
          ChannelRequest ''router.closeRtpObserver'' (Some (ro_routerId ro))
            (RtpObserverIdData (ro_rtpObserverId ro)),
          Emit ''@close'' None,
          ObserverSafeEmit ''close'' None]))"

text \<open>\<open>RtpObserver.routerClosed()\<close>\<close>

definition rtpObserver_routerClosed :: "rtp_observer \<Rightarrow> rtp_observer \<times> effect list" where
  "rtpObserver_routerClosed ro =
     (if ro_closed ro then (ro, [])
      else
        (ro\<lparr>ro_closed := True\<rparr>,
         [Log Debug ''routerClosed()'',
          ChannelRemoveAllListeners (ro_rtpObserverId ro),
          PayloadChannelRemoveAllListeners (ro_rtpObserverId ro),
          SafeEmit ''routerclose'' None,
          ObserverSafeEmit ''close'' None]))"

text \<open>
  \<open>RtpObserver.pause()\<close>, cut at its \<open>await\<close>.  The prefix reads \<open>wasPaused\<close> and
  issues the request; it changes nothing.  The continuation gets \<open>wasPaused\<close> and the
  response, and runs on the observer as it is at that moment.
\<close>

definition pause_prefix :: "rtp_observer \<Rightarrow> bool \<times> effect list" where
  "pause_prefix ro =
     (ro_paused ro,
      [Log Debug ''pause()'',
       ChannelRequest ''rtpObserver.pause'' (Some (ro_rtpObserverId ro)) NoData])"

definition pause_continue ::
  "bool \<Rightarrow> unit response \<Rightarrow> rtp_observer \<Rightarrow> (error + unit) \<times> rtp_observer \<times> effect list" where
  "pause_continue wasPaused r ro =
     (case r of
        Rejected e \<Rightarrow> (Inl e, ro, [])
      | Resolved _ \<Rightarrow>
          (Inr (), ro\<lparr>ro_paused := True\<rparr>,
           (if \<not> wasPaused then [ObserverSafeEmit ''pause'' None] else [])))"

text \<open>\<open>RtpObserver.resume()\<close>, cut the same way.\<close>

definition resume_prefix :: "rtp_observer \<Rightarrow> bool \<times> effect list" where
  "resume_prefix ro =
     (ro_paused ro,
      [Log Debug ''resume()'',
       ChannelRequest ''rtpObserver.resume'' (Some (ro_rtpObserverId ro)) NoData])"

definition resume_continue ::
  "bool \<Rightarrow> unit response \<Rightarrow> rtp_observer \<Rightarrow> (error + unit) \<times> rtp_observer \<times> effect list" where
  "resume_continue wasPaused r ro =
     (case r of
        Rejected e \<Rightarrow> (Inl e, ro, [])
      | Resolved _ \<Rightarrow>
          (Inr (), ro\<lparr>ro_paused := False\<rparr>,
           (if wasPaused then [ObserverSafeEmit ''resume'' None] else [])))"

text \<open>A whole call with nothing interleaved between the request and its response.\<close>

definition pause :: "rtp_observer \<Rightarrow> unit response \<Rightarrow> (error + unit) \<times> rtp_observer \<times> effect list" where
  "pause ro r =
     (let (wasPaused, es) = pause_prefix ro;
          (res, ro', es') = pause_continue wasPaused r ro
      in (res, ro', es @ es'))"

definition resume :: "rtp_observer \<Rightarrow> unit response \<Rightarrow> (error + unit) \<times> rtp_observer \<times> effect list" where
  "resume ro r =
     (let (wasPaused, es) = resume_prefix ro;
          (res, ro', es') = resume_continue wasPaused r ro
      in (res, ro', es @ es'))"

section \<open>The children of a Transport\<close>

text \<open>
  Modelled from the spec: the classes Producer, Consumer and DataConsumer, whose files
  are not among the sources.  Section 3 gives their data (a Producer carries its kind,
  its RTP parameters and the derived consumable parameters; a Consumer the id of its
  Producer and its negotiated RTP parameters); the fields below are the ones the
  Transport passes to their constructors.  \<open>dc_sctpStreamId\<close> is the local variable
  \<open>sctpStreamId\<close> of \<open>consumeData()\<close> that the two listeners installed on the
  DataConsumer capture; it is \<open>None\<close> on a DirectTransport, where the variable stays
  unassigned.
\<close>

record producer =
  p_producerId :: id
  p_closed :: bool
  p_kind :: string
  p_rtpParameters :: rtp_parameters
  p_type :: string
  p_consumableRtpParameters :: rtp_parameters
  p_paused :: bool
  p_appData :: app_data

record consumer =
  c_consumerId :: id
  c_closed :: bool
  c_producerId :: id
  c_kind :: string
  c_rtpParameters :: rtp_parameters
  c_type :: string
  c_paused :: bool
  c_producerPaused :: bool
  c_score :: "string option"
  c_preferredLayers :: "string option"
  c_appData :: app_data

record data_consumer =
  dc_dataConsumerId :: id
  dc_closed :: bool
  dc_dataProducerId :: id
  dc_type :: string
  dc_sctpStreamParameters :: "sctp_stream_parameters option"
  dc_label :: string
  dc_protocol :: string
  dc_appData :: app_data
  dc_sctpStreamId :: "nat option"

text \<open>
  Modelled from the spec: \<open>transportClosed()\<close> of Producer, Consumer and DataConsumer.
  Section 4.1, owner-cascade close: the child is torn down, its owner is not notified
  again (no \<open>'@close'\<close>) and no close request goes to the engine; invariant 2 of
  section 3: a closing operation on a closed resource is a silent no-op.  The three
  follow \<open>DataProducer.transportClosed()\<close>, which is among the sources.
\<close>

definition producer_transportClosed :: "producer \<Rightarrow> producer \<times> effect list" where
  "producer_transportClosed p =
     (if p_closed p then (p, [])
      else
        (p\<lparr>p_closed := True\<rparr>,
         [Log Debug ''transportClosed()'',
          ChannelRemoveAllListeners (p_producerId p),
          PayloadChannelRemoveAllListeners (p_producerId p),
          SafeEmit ''transportclose'' None,
          ObserverSafeEmit ''close'' None]))"

definition consumer_transportClosed :: "consumer \<Rightarrow> consumer \<times> effect list" where
  "consumer_transportClosed c =
     (if c_closed c then (c, [])
      else
        (c\<lparr>c_closed := True\<rparr>,
         [Log Debug ''transportClosed()'',
          ChannelRemoveAllListeners (c_consumerId c),
          PayloadChannelRemoveAllListeners (c_consumerId c),
          SafeEmit ''transportclose'' None,
          ObserverSafeEmit ''close'' None]))"

definition dataConsumer_transportClosed :: "data_consumer \<Rightarrow> data_consumer \<times> effect list" where
  "dataConsumer_transportClosed dc =
     (if dc_closed dc then (dc, [])
      else
        (dc\<lparr>dc_closed := True\<rparr>,
         [Log Debug ''transportClosed()'',
          ChannelRemoveAllListeners (dc_dataConsumerId dc),
          PayloadChannelRemoveAllListeners (dc_dataConsumerId dc),
          SafeEmit ''transportclose'' None,
          ObserverSafeEmit ''close'' None]))"

section \<open>Transport\<close>

text \<open>
  The four registries are JavaScript Maps: association lists in insertion order, written
  with \<open>AList.update\<close> (\<open>Map.set\<close>: the value is replaced in place when the key is
  there, appended otherwise) and \<open>AList.delete\<close> (\<open>Map.delete\<close>).
  \<open>t_constructor_name\<close> is \<open>this.constructor.name\<close>, \<open>t_data_sctpParameters\<close> the
  member \<open>sctpParameters\<close> of the data the subclass hands to the constructor, and
  \<open>t_sctpStreamIds\<close> the Buffer of stream ids.
\<close>

record transport =
  t_constructor_name :: string
  t_routerId :: id
  t_transportId :: id
  t_data_sctpParameters :: "sctp_parameters option"
  t_closed :: bool
  t_producers :: "(id \<times> producer) list"
  t_consumers :: "(id \<times> consumer) list"
  t_dataProducers :: "(id \<times> data_producer) list"
  t_dataConsumers :: "(id \<times> data_consumer) list"
  t_cnameForProducers :: "string option"
  t_nextMidForConsumers :: nat
  t_sctpStreamIds :: "8 word list option"
  t_nextSctpStreamId :: nat

text \<open>
  The children a closing method has called \<open>transportClosed()\<close> on, as they are after
  the call, in the order of the loops.  The registries are cleared, so the objects live
  on only in the hands of their other holders.
\<close>

record closed_children =
  cc_producers :: "producer list"
  cc_consumers :: "consumer list"
  cc_dataProducers :: "data_producer list"
  cc_dataConsumers :: "data_consumer list"

text \<open>
  The four loops over the values of a registry.  \<open>tell\<close> says whether the loop body
  goes on to emit the event that tells the Router: it does in \<open>close()\<close> and does not
  in \<open>routerClosed()\<close> and \<open>listenServerClosed()\<close>.
\<close>

fun close_producers :: "bool \<Rightarrow> (id \<times> producer) list \<Rightarrow> producer list \<times> effect list" where
  "close_producers tell [] = ([], [])"
| "close_producers tell ((k, p) # rest) =
     (let (p', es) = producer_transportClosed p;
          (ps, es') = close_producers tell rest
      in (p' # ps,
          map (On ProducerClass (p_producerId p)) es
          @ (if tell then [Emit ''@producerclose'' (Some (p_producerId p))] else [])
          @ es'))"

fun close_consumers :: "(id \<times> consumer) list \<Rightarrow> consumer list \<times> effect list" where
  "close_consumers [] = ([], [])"
| "close_consumers ((k, c) # rest) =
     (let (c', es) = consumer_transportClosed c;
          (cs, es') = close_consumers rest
      in (c' # cs, map (On ConsumerClass (c_consumerId c)) es @ es'))"

fun close_dataProducers ::
  "bool \<Rightarrow> (id \<times> data_producer) list \<Rightarrow> data_producer list \<times> effect list" where
  "close_dataProducers tell [] = ([], [])"
| "close_dataProducers tell ((k, dp) # rest) =
     (let (dp', es) = dataProducer_transportClosed dp;
          (dps, es') = close_dataProducers tell rest
      in (dp' # dps,
          map (On DataProducerClass (dp_dataProducerId dp)) es
          @ (if tell then [Emit ''@dataproducerclose'' (Some (dp_dataProducerId dp))] else [])
          @ es'))"

fun close_dataConsumers :: "(id \<times> data_consumer) list \<Rightarrow> data_consumer list \<times> effect list" where
  "close_dataConsumers [] = ([], [])"
| "close_dataConsumers ((k, dc) # rest) =
     (let (dc', es) = dataConsumer_transportClosed dc;
          (dcs, es') = close_dataConsumers rest
      in (dc' # dcs, map (On DataConsumerClass (dc_dataConsumerId dc)) es @ es'))"

definition no_children :: closed_children where
  "no_children =
     \<lparr>cc_producers = [], cc_consumers = [], cc_dataProducers = [], cc_dataConsumers = []\<rparr>"

text \<open>\<open>Transport.close()\<close>\<close>

definition transport_close ::
  "'a transport_scheme \<Rightarrow> 'a transport_scheme \<times> closed_children \<times> effect list" where
  "transport_close t =
     (if t_closed t then (t, no_children, [])
      else
        (let (ps, eps) = close_producers True (t_producers t);
             (cs, ecs) = close_consumers (t_consumers t);
             (dps, edps) = close_dataProducers True (t_dataProducers t);
             (dcs, edcs) = close_dataConsumers (t_dataConsumers t)
         in (t\<lparr>t_closed := True, t_producers := [], t_consumers := [],
               t_dataProducers := [], t_dataConsumers := []\<rparr>,
             \<lparr>cc_producers = ps, cc_consumers = cs, cc_dataProducers = dps,
              cc_dataConsumers = dcs\<rparr>,
             [Log Debug ''close()'',
              ChannelRemoveAllListeners (t_transportId t),
              PayloadChannelRemoveAllListeners (t_transportId t),
              ChannelRequest ''router.closeTransport'' (Some (t_routerId t))
                (TransportIdData (t_transportId t))]
             @ eps @ ecs @ edps @ edcs
             @ [Emit ''@close'' None, ObserverSafeEmit ''close'' None])))"

text \<open>\<open>Transport.routerClosed()\<close>\<close>

definition transport_routerClosed ::
  "'a transport_scheme \<Rightarrow> 'a transport_scheme \<times> closed_children \<times> effect list" where
  "transport_routerClosed t =
     (if t_closed t then (t, no_children, [])
      else
        (let (ps, eps) = close_producers False (t_producers t);
             (cs, ecs) = close_consumers (t_consumers t);
             (dps, edps) = close_dataProducers False (t_dataProducers t);
             (dcs, edcs) = close_dataConsumers (t_dataConsumers t)
         in (t\<lparr>t_closed := True, t_producers := [], t_consumers := [],
               t_dataProducers := [], t_dataConsumers := []\<rparr>,
             \<lparr>cc_producers = ps, cc_consumers = cs, cc_dataProducers = dps,
              cc_dataConsumers = dcs\<rparr>,
             [Log Debug ''routerClosed()'',
              ChannelRemoveAllListeners (t_transportId t),
              PayloadChannelRemoveAllListeners (t_transportId t)]
             @ eps @ ecs @ edps @ edcs
             @ [SafeEmit ''routerclose'' None, ObserverSafeEmit ''close'' None])))"

text \<open>\<open>Transport.listenServerClosed()\<close>\<close>

definition transport_listenServerClosed ::
  "'a transport_scheme \<Rightarrow> 'a transport_scheme \<times> closed_children \<times> effect list" where
  "transport_listenServerClosed t =
     (if t_closed t then (t, no_children, [])
      else
        (let (ps, eps) = close_producers False (t_producers t);
             (cs, ecs) = close_consumers (t_consumers t);
             (dps, edps) = close_dataProducers False (t_dataProducers t);
             (dcs, edcs) = close_dataConsumers (t_dataConsumers t)
         in (t\<lparr>t_closed := True, t_producers := [], t_consumers := [],
               t_dataProducers := [], t_dataConsumers := []\<rparr>,
             \<lparr>cc_producers = ps, cc_consumers = cs, cc_dataProducers = dps,
              cc_dataConsumers = dcs\<rparr>,
             [Log Debug ''listenServerClosed()'',
              ChannelRemoveAllListeners (t_transportId t),
              PayloadChannelRemoveAllListeners (t_transportId t)]
             @ eps @ ecs @ edps @ edcs
             @ [Emit ''@listenserverclose'' None, SafeEmit ''listenserverclose'' None,
                ObserverSafeEmit ''close'' None])))"

section \<open>WebRtcTransport and PlainTransport\<close>

text \<open>
  The subclasses extend the record of the base class, so a method they inherit is the
  base function applied to the extended record.  The extension holds the mirrors of the
  engine's state machines and what the closing methods write; \<open>wt_sctpState\<close> and
  \<open>pt_sctpState\<close> are \<open>None\<close> when SCTP was not negotiated.
\<close>

datatype ice_state = IceNew | IceConnected | IceCompleted | IceDisconnected | IceClosed

datatype dtls_state = DtlsNew | DtlsConnecting | DtlsConnected | DtlsFailed | DtlsClosed

datatype sctp_state = SctpNew | SctpConnecting | SctpConnected | SctpFailed | SctpClosed

record transport_tuple =
  localIp :: string
  localPort :: nat
  remoteIp :: "string option"
  remotePort :: "nat option"
  protocol :: string

record web_rtc_transport = transport +
  wt_iceState :: ice_state
  wt_iceSelectedTuple :: "transport_tuple option"
  wt_dtlsState :: dtls_state
  wt_dtlsRemoteCert :: "string option"
  wt_sctpState :: "sctp_state option"

record plain_transport = transport +
  pt_tuple :: transport_tuple
  pt_rtcpTuple :: "transport_tuple option"
  pt_sctpState :: "sctp_state option"

text \<open>The assignments that open the three closing methods of WebRtcTransport.\<close>

definition webRtcTransport_mirrors_closed :: "web_rtc_transport \<Rightarrow> web_rtc_transport" where
  "webRtcTransport_mirrors_closed t =
     (let t1 = t\<lparr>wt_iceState := IceClosed, wt_iceSelectedTuple := None,
                 wt_dtlsState := DtlsClosed\<rparr>
      in if wt_sctpState t1 \<noteq> None then t1\<lparr>wt_sctpState := Some SctpClosed\<rparr> else t1)"

text \<open>\<open>WebRtcTransport.close()\<close>\<close>

definition webRtcTransport_close ::
  "web_rtc_transport \<Rightarrow> web_rtc_transport \<times> closed_children \<times> effect list" where
  "webRtcTransport_close t =
     (if t_closed t then (t, no_children, [])
      else transport_close (webRtcTransport_mirrors_closed t))"

text \<open>\<open>WebRtcTransport.routerClosed()\<close>\<close>

definition webRtcTransport_routerClosed ::
  "web_rtc_transport \<Rightarrow> web_rtc_transport \<times> closed_children \<times> effect list" where
  "webRtcTransport_routerClosed t =
     (if t_closed t then (t, no_children, [])
      else transport_routerClosed (webRtcTransport_mirrors_closed t))"

text \<open>\<open>WebRtcTransport.webRtcServerClosed()\<close>\<close>

definition webRtcTransport_webRtcServerClosed ::
  "web_rtc_transport \<Rightarrow> web_rtc_transport \<times> closed_children \<times> effect list" where
  "webRtcTransport_webRtcServerClosed t =
     (if t_closed t then (t, no_children, [])
      else transport_listenServerClosed (webRtcTransport_mirrors_closed t))"

text \<open>
  WebRtcTransport does not override \<open>listenServerClosed()\<close>: the call on a
  WebRtcTransport runs the method of the base class.
\<close>

definition webRtcTransport_listenServerClosed ::
  "web_rtc_transport \<Rightarrow> web_rtc_transport \<times> closed_children \<times> effect list" where
  "webRtcTransport_listenServerClosed t = transport_listenServerClosed t"

text \<open>\<open>PlainTransport.close()\<close> and \<open>PlainTransport.routerClosed()\<close>\<close>

definition plainTransport_close ::
  "plain_transport \<Rightarrow> plain_transport \<times> closed_children \<times> effect list" where
  "plainTransport_close t =
     (if t_closed t then (t, no_children, [])
      else
        transport_close
          (if pt_sctpState t \<noteq> None then t\<lparr>pt_sctpState := Some SctpClosed\<rparr> else t))"

definition plainTransport_routerClosed ::
  "plain_transport \<Rightarrow> plain_transport \<times> closed_children \<times> effect list" where
  "plainTransport_routerClosed t =
     (if t_closed t then (t, no_children, [])
      else
        transport_routerClosed
          (if pt_sctpState t \<noteq> None then t\<lparr>pt_sctpState := Some SctpClosed\<rparr> else t))"

text \<open>PlainTransport inherits \<open>listenServerClosed()\<close> as well.\<close>

definition plainTransport_listenServerClosed ::
  "plain_transport \<Rightarrow> plain_transport \<times> closed_children \<times> effect list" where
  "plainTransport_listenServerClosed t = transport_listenServerClosed t"

section \<open>WebRtcServer\<close>

text \<open>
  The server's Map holds the WebRtcTransports bound to it, objects that their Routers
  own.  \<open>webRtcServer_close\<close> returns, beside the server, these transports as the loop
  leaves them.
\<close>

record web_rtc_server =
  ws_webRtcServerId :: id
  ws_closed :: bool
  ws_webRtcTransports :: "(id \<times> web_rtc_transport) list"

text \<open>The loop of \<open>WebRtcServer.close()\<close> over the values of the Map.\<close>

fun close_webRtcTransports ::
  "(id \<times> web_rtc_transport) list \<Rightarrow> web_rtc_transport list \<times> effect list" where
  "close_webRtcTransports [] = ([], [])"
| "close_webRtcTransports ((k, t) # rest) =
     (let (t', cc, es) = webRtcTransport_listenServerClosed t;
          (ts, es') = close_webRtcTransports rest
      in (t' # ts,
          map (On WebRtcTransportClass (t_transportId t)) es
          @ [ObserverSafeEmit ''webrtctransportunhandled'' (Some (t_transportId t))]
          @ es'))"

text \<open>\<open>WebRtcServer.close()\<close>\<close>

definition webRtcServer_close ::
  "web_rtc_server \<Rightarrow> web_rtc_server \<times> web_rtc_transport list \<times> effect list" where
  "webRtcServer_close ws =
     (if ws_closed ws then (ws, [], [])
      else
        (let (ts, ets) = close_webRtcTransports (ws_webRtcTransports ws)
         in (ws\<lparr>ws_closed := True, ws_webRtcTransports := []\<rparr>,
             ts,
             [Log Debug ''close()'',
              ChannelRequest ''worker.closeWebRtcServer'' None
                (WebRtcServerIdData (ws_webRtcServerId ws))]
             @ ets
             @ [Emit ''@close'' None, ObserverSafeEmit ''close'' None])))"

text \<open>\<open>WebRtcServer.workerClosed()\<close>\<close>

definition webRtcServer_workerClosed :: "web_rtc_server \<Rightarrow> web_rtc_server \<times> effect list" where
  "webRtcServer_workerClosed ws =
     (if ws_closed ws then (ws, [])
      else
        (ws\<lparr>ws_closed := True, ws_webRtcTransports := []\<rparr>,
         [Log Debug ''workerClosed()'',
          SafeEmit ''workerclose'' None,
          ObserverSafeEmit ''close'' None]))"

text \<open>
  \<open>WebRtcServer.handleWebRtcTransport()\<close>, and the listener it installs on the
  transport's \<open>'@close'\<close>.
\<close>

definition handleWebRtcTransport ::
  "web_rtc_server \<Rightarrow> web_rtc_transport \<Rightarrow> web_rtc_server \<times> effect list" where
  "handleWebRtcTransport ws t =
     (ws\<lparr>ws_webRtcTransports := AList.update (t_transportId t) t (ws_webRtcTransports ws)\<rparr>,
      [ObserverSafeEmit ''webrtctransporthandled'' (Some (t_transportId t))])"

definition webRtcServer_on_transport_close ::
  "id \<Rightarrow> web_rtc_server \<Rightarrow> web_rtc_server \<times> effect list" where
  "webRtcServer_on_transport_close tid ws =
     (ws\<lparr>ws_webRtcTransports := AList.delete tid (ws_webRtcTransports ws)\<rparr>,
      [ObserverSafeEmit ''webrtctransportunhandled'' (Some tid)])"

section \<open>What a Transport is given from outside\<close>

text \<open>
  The module \<open>ortc\<close> is not among the sources; its functions are parameters of the
  model.  By section 4.2 of the spec they are pure: a validation throws or returns, the
  others throw or return their result.
\<close>

record ortc =
  validateRtpParameters :: "rtp_parameters \<Rightarrow> error option"
  validateRtpCapabilities :: "rtp_capabilities \<Rightarrow> error option"
  getProducerRtpParametersMapping ::
    "rtp_parameters \<Rightarrow> rtp_capabilities \<Rightarrow> error + rtp_mapping"
  getConsumableRtpParameters ::
    "string \<Rightarrow> rtp_parameters \<Rightarrow> rtp_capabilities \<Rightarrow> rtp_mapping \<Rightarrow> error + rtp_parameters"
  getConsumerRtpParameters ::
    "rtp_parameters \<Rightarrow> rtp_capabilities \<Rightarrow> bool \<Rightarrow> bool \<Rightarrow> error + rtp_parameters"

text \<open>
  The three functions the Router passes to the constructor of a Transport, as they answer
  at the time of a call.
\<close>

record router_view =
  getRouterRtpCapabilities :: rtp_capabilities
  getProducerById :: "id \<Rightarrow> producer option"
  getDataProducerById :: "id \<Rightarrow> data_producer option"

text \<open>A string-valued member is truthy when it is there and not empty.\<close>

definition truthy :: "string option \<Rightarrow> bool" where
  "truthy s = (case s of None \<Rightarrow> False | Some x \<Rightarrow> x \<noteq> [])"

text \<open>
  Modelled from the spec: what the claim about the consumable parameters takes from
  \<open>ortc.getConsumableRtpParameters\<close>, which is not among the sources.  The scenario of
  section 8 (one default encoding in, exactly one consumable encoding out) says that the
  derivation yields one consumable encoding for each encoding of the producer.
\<close>

definition one_consumable_encoding_each :: "ortc \<Rightarrow> bool" where
  "one_consumable_encoding_each oc =
     (\<forall>kind rp caps m rp' es.
        getConsumableRtpParameters oc kind rp caps m = Inr rp' \<and> encodings rp = EncodingsArray es
        \<longrightarrow> (\<exists>es'. encodings rp' = EncodingsArray es' \<and> length es' = length es))"

section \<open>Transport.produce\<close>

record producer_options =
  po_id :: "string option"
  po_kind :: string
  po_rtpParameters :: rtp_parameters
  po_paused :: bool
  po_keyFrameRequestDelay :: "nat option"
  po_appData :: app_data

text \<open>What the continuation of \<open>produce()\<close> keeps from its prefix.\<close>

record produce_pending =
  pp_reqData :: produce_request
  pp_consumableRtpParameters :: rtp_parameters
  pp_appData :: app_data

record produce_status =
  ps_type :: string

text \<open>"If missing or empty encodings, add one."\<close>

definition normalize_encodings :: "rtp_parameters \<Rightarrow> rtp_parameters" where
  "normalize_encodings rp =
     (case encodings rp of
        EncodingsFalsy \<Rightarrow> rp\<lparr>encodings := EncodingsArray [[]]\<rparr>
      | EncodingsNotArray \<Rightarrow> rp\<lparr>encodings := EncodingsArray [[]]\<rparr>
      | EncodingsArray es \<Rightarrow>
          (if length es = 0 then rp\<lparr>encodings := EncodingsArray [[]]\<rparr> else rp))"

text \<open>\<open>rtpParameters.rtcp && rtpParameters.rtcp.cname\<close>\<close>

definition rtcp_cname :: "rtp_parameters \<Rightarrow> string option" where
  "rtcp_cname rp = (case rtcp rp of None \<Rightarrow> None | Some r \<Rightarrow> cname r)"

text \<open>
  The CNAME block of \<open>produce()\<close>; \<open>uuid\<close> is what \<open>uuidv4()\<close> returns if it is
  called.
\<close>

definition assign_cname ::
  "string \<Rightarrow> 'a transport_scheme \<Rightarrow> rtp_parameters \<Rightarrow> 'a transport_scheme \<times> rtp_parameters" where
  "assign_cname uuid t rp =
     (if t_constructor_name t \<noteq> ''PipeTransport'' then
        (let t1 =
               (if \<not> truthy (t_cnameForProducers t) \<and> truthy (rtcp_cname rp)
                then t\<lparr>t_cnameForProducers := rtcp_cname rp\<rparr>
                else if \<not> truthy (t_cnameForProducers t)
                then t\<lparr>t_cnameForProducers := Some (take 8 uuid)\<rparr>
                else t);
             r = (case rtcp rp of None \<Rightarrow> \<lparr>cname = None, reducedSize = None\<rparr> | Some r \<Rightarrow> r)
         in (t1, rp\<lparr>rtcp := Some (r\<lparr>cname := t_cnameForProducers t1\<rparr>)\<rparr>))
      else (t, rp))"

text \<open>\<open>id || uuidv4()\<close>\<close>

definition id_or :: "string option \<Rightarrow> string \<Rightarrow> string" where
  "id_or i uuid = (case i of None \<Rightarrow> uuid | Some x \<Rightarrow> (if x = [] then uuid else x))"

text \<open>\<open>id && this.#producers.has(id)\<close>\<close>

definition has_given_id :: "(id \<times> 'v) list \<Rightarrow> string option \<Rightarrow> bool" where
  "has_given_id m i = (case i of None \<Rightarrow> False | Some x \<Rightarrow> x \<noteq> [] \<and> map_of m x \<noteq> None)"

text \<open>
  \<open>Transport.produce()\<close> up to its \<open>await\<close>.  \<open>uuid_cname\<close> and \<open>uuid_id\<close> are
  the values of the two calls of \<open>uuidv4()\<close>, used where the code makes the call.
\<close>

definition produce_prefix ::
  "ortc \<Rightarrow> router_view \<Rightarrow> string \<Rightarrow> string \<Rightarrow> 'a transport_scheme \<Rightarrow> producer_options
   \<Rightarrow> (error + produce_pending) \<times> 'a transport_scheme \<times> effect list" where
  "produce_prefix oc rv uuid_cname uuid_id t opts =
     (if has_given_id (t_producers t) (po_id opts) then
        (Inl (TypeError (''a Producer with same id '' @ dq @ id_or (po_id opts) [] @ dq
                         @ '' already exists'')),
         t, [Log Debug ''produce()''])
      else if po_kind opts \<notin> set [''audio'', ''video''] then
        (Inl (TypeError (''invalid kind '' @ dq @ po_kind opts @ dq)),
         t, [Log Debug ''produce()''])
      else if po_appData opts = AppDataOther then
        (Inl (TypeError ''if given, appData must be an object''),
         t, [Log Debug ''produce()''])
      else
        (case validateRtpParameters oc (po_rtpParameters opts) of
           Some e \<Rightarrow> (Inl e, t, [Log Debug ''produce()''])
         | None \<Rightarrow>
             (let rp1 = normalize_encodings (po_rtpParameters opts);
                  (t1, rp2) = assign_cname uuid_cname t rp1;
                  routerRtpCapabilities = getRouterRtpCapabilities rv
              in case getProducerRtpParametersMapping oc rp2 routerRtpCapabilities of
                   Inl e \<Rightarrow> (Inl e, t1, [Log Debug ''produce()''])
                 | Inr rtpMapping \<Rightarrow>
                     (case getConsumableRtpParameters oc (po_kind opts) rp2
                             routerRtpCapabilities rtpMapping of
                        Inl e \<Rightarrow> (Inl e, t1, [Log Debug ''produce()''])
                      | Inr consumableRtpParameters \<Rightarrow>
                          (let reqData =
                                 \<lparr>prq_producerId = id_or (po_id opts) uuid_id,
                                  prq_kind = po_kind opts,
                                  prq_rtpParameters = rp2,
                                  prq_rtpMapping = rtpMapping,
                                  prq_keyFrameRequestDelay = po_keyFrameRequestDelay opts,
                                  prq_paused = po_paused opts\<rparr>
                           in (Inr \<lparr>pp_reqData = reqData,
                                    pp_consumableRtpParameters = consumableRtpParameters,
                                    pp_appData = po_appData opts\<rparr>,
                               t1,
                               [Log Debug ''produce()'',
                                ChannelRequest ''transport.produce'' (Some (t_transportId t1))
                                  (ProduceData reqData)]))))))"

text \<open>
  Modelled from the spec: the constructor of Producer, which is not among the sources,
  stores what it is given; a falsy \<open>appData\<close> becomes the empty object, as in the
  constructors at hand.
\<close>

definition new_producer :: "produce_pending \<Rightarrow> produce_status \<Rightarrow> producer" where
  "new_producer pend status =
     \<lparr>p_producerId = prq_producerId (pp_reqData pend),
      p_closed = False,
      p_kind = prq_kind (pp_reqData pend),
      p_rtpParameters = prq_rtpParameters (pp_reqData pend),
      p_type = ps_type status,
      p_consumableRtpParameters = pp_consumableRtpParameters pend,
      p_paused = prq_paused (pp_reqData pend),
      p_appData = (if pp_appData pend = AppDataFalsy then AppDataObject else pp_appData pend)\<rparr>"

text \<open>\<open>Transport.produce()\<close> from the response on.\<close>

definition produce_continue ::
  "produce_pending \<Rightarrow> produce_status response \<Rightarrow> 'a transport_scheme
   \<Rightarrow> (error + producer) \<times> 'a transport_scheme \<times> effect list" where
  "produce_continue pend r t =
     (case r of
        Rejected e \<Rightarrow> (Inl e, t, [])
      | Resolved status \<Rightarrow>
          (let producer = new_producer pend status
           in (Inr producer,
               t\<lparr>t_producers := AList.update (p_producerId producer) producer (t_producers t)\<rparr>,
               [Emit ''@newproducer'' (Some (p_producerId producer)),
                ObserverSafeEmit ''newproducer'' (Some (p_producerId producer))])))"

text \<open>A whole call of \<open>produce()\<close> with nothing interleaved at the \<open>await\<close>.\<close>

definition produce ::
  "ortc \<Rightarrow> router_view \<Rightarrow> string \<Rightarrow> string \<Rightarrow> produce_status response
   \<Rightarrow> 'a transport_scheme \<Rightarrow> producer_options
   \<Rightarrow> (error + producer) \<times> 'a transport_scheme \<times> effect list" where
  "produce oc rv uuid_cname uuid_id r t opts =
     (case produce_prefix oc rv uuid_cname uuid_id t opts of
        (Inl e, t1, es) \<Rightarrow> (Inl e, t1, es)
      | (Inr pend, t1, es) \<Rightarrow>
          (case produce_continue pend r t1 of (res, t2, es') \<Rightarrow> (res, t2, es @ es')))"

text \<open>The listener that \<open>produce()\<close> installs on the Producer's \<open>'@close'\<close>.\<close>

definition transport_on_producer_close ::
  "id \<Rightarrow> 'a transport_scheme \<Rightarrow> 'a transport_scheme \<times> effect list" where
  "transport_on_producer_close pid t =
     (t\<lparr>t_producers := AList.delete pid (t_producers t)\<rparr>,
      [Emit ''@producerclose'' (Some pid)])"

section \<open>Transport.consume\<close>

record consumer_options =
  co_producerId :: "string option"
  co_rtpCapabilities :: rtp_capabilities
  co_paused :: bool
  co_mid :: mid_arg
  co_preferredLayers :: "string option"
  co_ignoreDtx :: bool
  co_enableRtx :: "bool option"
  co_pipe :: bool
  co_appData :: app_data

record consume_pending =
  cp_reqData :: consume_request
  cp_appData :: app_data

record consume_status =
  cs_paused :: bool
  cs_producerPaused :: bool
  cs_score :: "string option"
  cs_preferredLayers :: "string option"

text \<open>
  The test \<open>if (mid)\<close> of the MID block: the string to assign, when the caller gave a
  non-empty one.
\<close>

definition given_mid :: "mid_arg \<Rightarrow> string option" where
  "given_mid m = (case m of MidString s \<Rightarrow> (if s = [] then None else Some s) | _ \<Rightarrow> None)"

text \<open>The block "Set MID" of \<open>consume()\<close>.\<close>

definition assign_mid ::
  "bool \<Rightarrow> mid_arg \<Rightarrow> 'a transport_scheme \<Rightarrow> rtp_parameters
   \<Rightarrow> 'a transport_scheme \<times> rtp_parameters \<times> effect list" where
  "assign_mid pipe m t rp =
     (if \<not> pipe then
        (case given_mid m of
           Some s \<Rightarrow> (t, rp\<lparr>mid := Some s\<rparr>, [])
         | None \<Rightarrow>
             (let rp' = rp\<lparr>mid := Some (string_of_nat (t_nextMidForConsumers t))\<rparr>;
                  n = t_nextMidForConsumers t + 1
              in if n = 100000000 then
                   (t\<lparr>t_nextMidForConsumers := 0\<rparr>, rp',
                    [Log Err (''consume() | reaching max MID value '' @ dq @ string_of_nat n @ dq)])
                 else (t\<lparr>t_nextMidForConsumers := n\<rparr>, rp', [])))
      else (t, rp, []))"

text \<open>\<open>Transport.consume()\<close> up to its \<open>await\<close>; \<open>uuid\<close> is the consumer id.\<close>

definition consume_prefix ::
  "ortc \<Rightarrow> router_view \<Rightarrow> string \<Rightarrow> 'a transport_scheme \<Rightarrow> consumer_options
   \<Rightarrow> (error + consume_pending) \<times> 'a transport_scheme \<times> effect list" where
  "consume_prefix oc rv uuid t opts =
     (if \<not> truthy (co_producerId opts) then
        (Inl (TypeError ''missing producerId''), t, [Log Debug ''consume()''])
      else if co_appData opts = AppDataOther then
        (Inl (TypeError ''if given, appData must be an object''), t, [Log Debug ''consume()''])
      else if co_mid opts = MidOther then
        (Inl (TypeError ''if given, mid must be non empty string''), t, [Log Debug ''consume()''])
      else
        (case validateRtpCapabilities oc (co_rtpCapabilities opts) of
           Some e \<Rightarrow> (Inl e, t, [Log Debug ''consume()''])
         | None \<Rightarrow>
             (let producerId = id_or (co_producerId opts) []
              in case getProducerById rv producerId of
                   None \<Rightarrow>
                     (Inl (Error (''Producer with id '' @ dq @ producerId @ dq @ '' not found'')),
                      t, [Log Debug ''consume()''])
                 | Some producer \<Rightarrow>
                     (let enableRtx =
                            (case co_enableRtx opts of
                               None \<Rightarrow> p_kind producer = ''video''
                             | Some b \<Rightarrow> b)
                      in case getConsumerRtpParameters oc (p_consumableRtpParameters producer)
                                (co_rtpCapabilities opts) (co_pipe opts) enableRtx of
                           Inl e \<Rightarrow> (Inl e, t, [Log Debug ''consume()''])
                         | Inr rtpParameters \<Rightarrow>
                             (case assign_mid (co_pipe opts) (co_mid opts) t rtpParameters of
                                (t1, rp1, logged) \<Rightarrow>
                                  (let reqData =
                                         \<lparr>crq_consumerId = uuid,
                                          crq_producerId = producerId,
                                          crq_kind = p_kind producer,
                                          crq_rtpParameters = rp1,
                                          crq_type =
                                            (if co_pipe opts then ''pipe'' else p_type producer),
                                          crq_consumableRtpEncodings =
                                            encodings (p_consumableRtpParameters producer),
                                          crq_paused = co_paused opts,
                                          crq_preferredLayers = co_preferredLayers opts,
                                          crq_ignoreDtx = co_ignoreDtx opts\<rparr>
                                   in (Inr \<lparr>cp_reqData = reqData, cp_appData = co_appData opts\<rparr>,
                                       t1,
                                       [Log Debug ''consume()''] @ logged
                                       @ [ChannelRequest ''transport.consume''
                                            (Some (t_transportId t1)) (ConsumeData reqData)])))))))"

text \<open>
  Modelled from the spec: the constructor of Consumer, which is not among the sources,
  stores what it is given.
\<close>

definition new_consumer :: "consume_pending \<Rightarrow> consume_status \<Rightarrow> consumer" where
  "new_consumer pend status =
     \<lparr>c_consumerId = crq_consumerId (cp_reqData pend),
      c_closed = False,
      c_producerId = crq_producerId (cp_reqData pend),
      c_kind = crq_kind (cp_reqData pend),
      c_rtpParameters = crq_rtpParameters (cp_reqData pend),
      c_type = crq_type (cp_reqData pend),
      c_paused = cs_paused status,
      c_producerPaused = cs_producerPaused status,
      c_score = cs_score status,
      c_preferredLayers = cs_preferredLayers status,
      c_appData = (if cp_appData pend = AppDataFalsy then AppDataObject else cp_appData pend)\<rparr>"

text \<open>\<open>Transport.consume()\<close> from the response on.\<close>

definition consume_continue ::
  "consume_pending \<Rightarrow> consume_status response \<Rightarrow> 'a transport_scheme
   \<Rightarrow> (error + consumer) \<times> 'a transport_scheme \<times> effect list" where
  "consume_continue pend r t =
     (case r of
        Rejected e \<Rightarrow> (Inl e, t, [])
      | Resolved status \<Rightarrow>
          (let consumer = new_consumer pend status
           in (Inr consumer,
               t\<lparr>t_consumers := AList.update (c_consumerId consumer) consumer (t_consumers t)\<rparr>,
               [ObserverSafeEmit ''newconsumer'' (Some (c_consumerId consumer))])))"

definition consume ::
  "ortc \<Rightarrow> router_view \<Rightarrow> string \<Rightarrow> consume_status response
   \<Rightarrow> 'a transport_scheme \<Rightarrow> consumer_options
   \<Rightarrow> (error + consumer) \<times> 'a transport_scheme \<times> effect list" where
  "consume oc rv uuid r t opts =
     (case consume_prefix oc rv uuid t opts of
        (Inl e, t1, es) \<Rightarrow> (Inl e, t1, es)
      | (Inr pend, t1, es) \<Rightarrow>
          (case consume_continue pend r t1 of (res, t2, es') \<Rightarrow> (res, t2, es @ es')))"

text \<open>
  The listeners that \<open>consume()\<close> installs on the Consumer's \<open>'@close'\<close> and
  \<open>'@producerclose'\<close>: both delete the Consumer from the registry.
\<close>

definition transport_on_consumer_close :: "id \<Rightarrow> 'a transport_scheme \<Rightarrow> 'a transport_scheme" where
  "transport_on_consumer_close cid t = t\<lparr>t_consumers := AList.delete cid (t_consumers t)\<rparr>"

section \<open>The allocator of SCTP stream ids\<close>

text \<open>
  The \<open>for\<close> loop of \<open>getNextSctpStreamId()\<close>, from index \<open>idx\<close> on: the id it
  returns, or \<open>None\<close> when it runs to its end.
\<close>

function scan_sctpStreamIds :: "8 word list \<Rightarrow> nat \<Rightarrow> nat \<Rightarrow> nat option" where
  "scan_sctpStreamIds ids nxt idx =
     (if idx < length ids then
        (let sctpStreamId = (nxt + idx) mod length ids
         in if ids ! sctpStreamId = 0 then Some sctpStreamId
            else scan_sctpStreamIds ids nxt (idx + 1))
      else None)"
  by pat_completeness auto
termination
  by (relation "measure (\<lambda>(ids, nxt, idx). length ids - idx)") auto

declare scan_sctpStreamIds.simps [simp del]

text \<open>\<open>Transport.getNextSctpStreamId()\<close>; \<open>Buffer.alloc(numStreams, 0)\<close> is a list of zeros.\<close>

definition getNextSctpStreamId ::
  "'a transport_scheme \<Rightarrow> (error + nat) \<times> 'a transport_scheme" where
  "getNextSctpStreamId t =
     (case t_data_sctpParameters t of
        None \<Rightarrow> (Inl (TypeError ''missing sctpParameters.MIS''), t)
      | Some sctpParameters \<Rightarrow>
          (case MIS sctpParameters of
             None \<Rightarrow> (Inl (TypeError ''missing sctpParameters.MIS''), t)
           | Some numStreams \<Rightarrow>
               (let ids = (case t_sctpStreamIds t of
                             None \<Rightarrow> replicate numStreams 0
                           | Some b \<Rightarrow> b);
                    t1 = t\<lparr>t_sctpStreamIds := Some ids\<rparr>
                in case scan_sctpStreamIds ids (t_nextSctpStreamId t1) 0 of
                     Some sctpStreamId \<Rightarrow>
                       (Inr sctpStreamId, t1\<lparr>t_nextSctpStreamId := sctpStreamId + 1\<rparr>)
                   | None \<Rightarrow> (Inl (Error ''no sctpStreamId available''), t1))))"

section \<open>Transport.consumeData\<close>

record data_consumer_options =
  dco_dataProducerId :: "string option"
  dco_ordered :: "bool option"
  dco_maxPacketLifeTime :: "nat option"
  dco_maxRetransmits :: "nat option"
  dco_appData :: app_data

record consume_data_pending =
  cdp_reqData :: consume_data_request
  cdp_sctpStreamId :: "nat option"
  cdp_appData :: app_data

text \<open>The data of the DataConsumer, as the engine returns them.\<close>

record consume_data_status =
  cds_type :: string
  cds_sctpStreamParameters :: "sctp_stream_parameters option"
  cds_label :: string
  cds_protocol :: string

text \<open>
  \<open>utils.clone\<close> is not among the sources: it is taken to copy an object, and to give
  the empty object for a missing one.
\<close>

definition clone_sctpStreamParameters ::
  "sctp_stream_parameters option \<Rightarrow> sctp_stream_parameters" where
  "clone_sctpStreamParameters sp =
     (case sp of
        None \<Rightarrow> \<lparr>streamId = None, ordered = None, maxPacketLifeTime = None, maxRetransmits = None\<rparr>
      | Some p \<Rightarrow> p)"

text \<open>The three overrides "if given".\<close>

definition override_sctpStreamParameters ::
  "data_consumer_options \<Rightarrow> sctp_stream_parameters \<Rightarrow> sctp_stream_parameters" where
  "override_sctpStreamParameters opts sp =
     (let sp1 = (case dco_ordered opts of None \<Rightarrow> sp | Some b \<Rightarrow> sp\<lparr>ordered := Some b\<rparr>);
          sp2 = (case dco_maxPacketLifeTime opts of
                   None \<Rightarrow> sp1 | Some n \<Rightarrow> sp1\<lparr>maxPacketLifeTime := Some n\<rparr>);
          sp3 = (case dco_maxRetransmits opts of
                   None \<Rightarrow> sp2 | Some n \<Rightarrow> sp2\<lparr>maxRetransmits := Some n\<rparr>)
      in sp3)"

text \<open>\<open>this.#sctpStreamIds![sctpStreamId] = v\<close>; a write outside the Buffer changes nothing.\<close>

definition set_sctpStreamId :: "nat \<Rightarrow> 8 word \<Rightarrow> 'a transport_scheme \<Rightarrow> 'a transport_scheme" where
  "set_sctpStreamId i v t =
     (case t_sctpStreamIds t of
        None \<Rightarrow> t
      | Some ids \<Rightarrow> t\<lparr>t_sctpStreamIds := Some (ids[i := v])\<rparr>)"

text \<open>\<open>Transport.consumeData()\<close> up to its \<open>await\<close>; \<open>uuid\<close> is the DataConsumer id.\<close>

definition consumeData_prefix ::
  "router_view \<Rightarrow> string \<Rightarrow> 'a transport_scheme \<Rightarrow> data_consumer_options
   \<Rightarrow> (error + consume_data_pending) \<times> 'a transport_scheme \<times> effect list" where
  "consumeData_prefix rv uuid t opts =
     (if \<not> truthy (dco_dataProducerId opts) then
        (Inl (TypeError ''missing dataProducerId''), t, [Log Debug ''consumeData()''])
      else if dco_appData opts = AppDataOther then
        (Inl (TypeError ''if given, appData must be an object''), t,
         [Log Debug ''consumeData()''])
      else
        (let dataProducerId = id_or (dco_dataProducerId opts) []
         in case getDataProducerById rv dataProducerId of
              None \<Rightarrow>
                (Inl (Error (''DataProducer with id '' @ dq @ dataProducerId @ dq
                             @ '' not found'')),
                 t, [Log Debug ''consumeData()''])
            | Some dataProducer \<Rightarrow>
                (if t_constructor_name t \<noteq> ''DirectTransport'' then
                   (let sp = override_sctpStreamParameters opts
                               (clone_sctpStreamParameters (dp_sctpStreamParameters dataProducer))
                    in case getNextSctpStreamId t of
                         (Inl e, t1) \<Rightarrow> (Inl e, t1, [Log Debug ''consumeData()''])
                       | (Inr sctpStreamId, t1) \<Rightarrow>
                           (let t2 = set_sctpStreamId sctpStreamId 1 t1;
                                reqData =
                                  \<lparr>cdrq_dataConsumerId = uuid,
                                   cdrq_dataProducerId = dataProducerId,
                                   cdrq_type = ''sctp'',
                                   cdrq_sctpStreamParameters =
                                     Some (sp\<lparr>streamId := Some sctpStreamId\<rparr>),
                                   cdrq_label = dp_label dataProducer,
                                   cdrq_protocol = dp_protocol dataProducer\<rparr>
                            in (Inr \<lparr>cdp_reqData = reqData,
                                     cdp_sctpStreamId = Some sctpStreamId,
                                     cdp_appData = dco_appData opts\<rparr>,
                                t2,
                                [Log Debug ''consumeData()'',
                                 ChannelRequest ''transport.consumeData''
                                   (Some (t_transportId t2)) (ConsumeDataData reqData)])))
                 else
                   (let reqData =
                          \<lparr>cdrq_dataConsumerId = uuid,
                           cdrq_dataProducerId = dataProducerId,
                           cdrq_type = ''direct'',
                           cdrq_sctpStreamParameters = None,
                           cdrq_label = dp_label dataProducer,
                           cdrq_protocol = dp_protocol dataProducer\<rparr>
                    in (Inr \<lparr>cdp_reqData = reqData,
                             cdp_sctpStreamId = None,
                             cdp_appData = dco_appData opts\<rparr>,
                        t,
                        [Log Debug ''consumeData()'']
                        @ (if dco_ordered opts \<noteq> None \<or> dco_maxPacketLifeTime opts \<noteq> None
                              \<or> dco_maxRetransmits opts \<noteq> None
                           then [Log Warn
                                   (''consumeData() | ordered, maxPacketLifeTime and maxRetransmits ''
                                    @ ''are ignored when consuming data on a DirectTransport'')]
                           else [])
                        @ [ChannelRequest ''transport.consumeData''
                             (Some (t_transportId t)) (ConsumeDataData reqData)])))))"

text \<open>
  Modelled from the spec: the constructor of DataConsumer, which is not among the
  sources, stores what it is given.  \<open>dc_sctpStreamId\<close> records the \<open>sctpStreamId\<close>
  of the call, which the listeners installed right after the construction capture.
\<close>

definition new_dataConsumer :: "consume_data_pending \<Rightarrow> consume_data_status \<Rightarrow> data_consumer" where
  "new_dataConsumer pend status =
     \<lparr>dc_dataConsumerId = cdrq_dataConsumerId (cdp_reqData pend),
      dc_closed = False,
      dc_dataProducerId = cdrq_dataProducerId (cdp_reqData pend),
      dc_type = cds_type status,
      dc_sctpStreamParameters = cds_sctpStreamParameters status,
      dc_label = cds_label status,
      dc_protocol = cds_protocol status,
      dc_appData = (if cdp_appData pend = AppDataFalsy then AppDataObject else cdp_appData pend),
      dc_sctpStreamId = cdp_sctpStreamId pend\<rparr>"

text \<open>\<open>Transport.consumeData()\<close> from the response on.\<close>

definition consumeData_continue ::
  "consume_data_pending \<Rightarrow> consume_data_status response \<Rightarrow> 'a transport_scheme
   \<Rightarrow> (error + data_consumer) \<times> 'a transport_scheme \<times> effect list" where
  "consumeData_continue pend r t =
     (case r of
        Rejected e \<Rightarrow> (Inl e, t, [])
      | Resolved status \<Rightarrow>
          (let dataConsumer = new_dataConsumer pend status
           in (Inr dataConsumer,
               t\<lparr>t_dataConsumers :=
                    AList.update (dc_dataConsumerId dataConsumer) dataConsumer (t_dataConsumers t)\<rparr>,
               [ObserverSafeEmit ''newdataconsumer'' (Some (dc_dataConsumerId dataConsumer))])))"

definition consumeData ::
  "router_view \<Rightarrow> string \<Rightarrow> consume_data_status response
   \<Rightarrow> 'a transport_scheme \<Rightarrow> data_consumer_options
   \<Rightarrow> (error + data_consumer) \<times> 'a transport_scheme \<times> effect list" where
  "consumeData rv uuid r t opts =
     (case consumeData_prefix rv uuid t opts of
        (Inl e, t1, es) \<Rightarrow> (Inl e, t1, es)
      | (Inr pend, t1, es) \<Rightarrow>
          (case consumeData_continue pend r t1 of (res, t2, es') \<Rightarrow> (res, t2, es @ es')))"

text \<open>
  The listeners that \<open>consumeData()\<close> installs on the DataConsumer's \<open>'@close'\<close> and
  \<open>'@dataproducerclose'\<close>; both have the same body.  They run when the DataConsumer
  \<open>dc\<close> closes, or learns that its DataProducer closed.
\<close>

definition transport_on_dataConsumer_close ::
  "data_consumer \<Rightarrow> 'a transport_scheme \<Rightarrow> 'a transport_scheme" where
  "transport_on_dataConsumer_close dc t =
     (let t1 = t\<lparr>t_dataConsumers := AList.delete (dc_dataConsumerId dc) (t_dataConsumers t)\<rparr>
      in case dc_sctpStreamId dc of
           None \<Rightarrow> t1
         | Some sctpStreamId \<Rightarrow> set_sctpStreamId sctpStreamId 0 t1)"

text \<open>
  The allocation in the words of the spec: the ids in the order of the scan, forward from
  the cursor modulo the size of the bitmap, and the first of them whose slot is free.
\<close>

definition scan_order :: "nat \<Rightarrow> nat \<Rightarrow> nat list" where
  "scan_order n nxt = map (\<lambda>idx. (nxt + idx) mod n) [0..<n]"

definition first_free :: "8 word list \<Rightarrow> nat \<Rightarrow> nat option" where
  "first_free ids nxt = find (\<lambda>i. ids ! i = 0) (scan_order (length ids) nxt)"

text \<open>
  The stream ids held by the DataConsumers in the registry, and the invariant of the
  allocator: the ids that are held, and the ids \<open>pending\<close> that calls of
  \<open>consumeData()\<close> waiting for their response have reserved, are pairwise distinct, and
  their slots are set.
\<close>

definition held_sctpStreamIds :: "'a transport_scheme \<Rightarrow> nat list" where
  "held_sctpStreamIds t = List.map_filter (\<lambda>(k, dc). dc_sctpStreamId dc) (t_dataConsumers t)"

definition allocator_inv :: "'a transport_scheme \<Rightarrow> nat list \<Rightarrow> bool" where
  "allocator_inv t pending =
     (distinct (held_sctpStreamIds t @ pending)
      \<and> (case t_sctpStreamIds t of
            None \<Rightarrow> held_sctpStreamIds t @ pending = []
          | Some ids \<Rightarrow>
              list_all (\<lambda>i. i < length ids \<and> ids ! i \<noteq> 0) (held_sctpStreamIds t @ pending)))"

section \<open>Resources and their closing operations\<close>

text \<open>
  The resources whose classes are among the sources, and the closing operations; a class
  offers the methods it defines or inherits.  \<open>apply_closing\<close> is the method call, the
  new state of the resource and the trace of the call; \<open>None\<close> where the class has no
  such method.
\<close>

datatype resource =
    RTransport transport
  | RWebRtcTransport web_rtc_transport
  | RPlainTransport plain_transport
  | RDataProducer data_producer
  | RRtpObserver rtp_observer
  | RWebRtcServer web_rtc_server

datatype closing_op =
    Close
  | TransportClosed
  | RouterClosed
  | ListenServerClosed
  | WebRtcServerClosed
  | WorkerClosed

fun is_closed :: "resource \<Rightarrow> bool" where
  "is_closed (RTransport t) = t_closed t"
| "is_closed (RWebRtcTransport t) = t_closed t"
| "is_closed (RPlainTransport t) = t_closed t"
| "is_closed (RDataProducer dp) = dp_closed dp"
| "is_closed (RRtpObserver ro) = ro_closed ro"
| "is_closed (RWebRtcServer ws) = ws_closed ws"

fun apply_closing :: "closing_op \<Rightarrow> resource \<Rightarrow> (resource \<times> effect list) option" where
  "apply_closing Close (RTransport t) =
     (case transport_close t of (t', cc, es) \<Rightarrow> Some (RTransport t', es))"
| "apply_closing RouterClosed (RTransport t) =
     (case transport_routerClosed t of (t', cc, es) \<Rightarrow> Some (RTransport t', es))"
| "apply_closing ListenServerClosed (RTransport t) =
     (case transport_listenServerClosed t of (t', cc, es) \<Rightarrow> Some (RTransport t', es))"
| "apply_closing Close (RWebRtcTransport t) =
     (case webRtcTransport_close t of (t', cc, es) \<Rightarrow> Some (RWebRtcTransport t', es))"
| "apply_closing RouterClosed (RWebRtcTransport t) =
     (case webRtcTransport_routerClosed t of (t', cc, es) \<Rightarrow> Some (RWebRtcTransport t', es))"
| "apply_closing ListenServerClosed (RWebRtcTransport t) =
     (case webRtcTransport_listenServerClosed t of (t', cc, es) \<Rightarrow> Some (RWebRtcTransport t', es))"
| "apply_closing WebRtcServerClosed (RWebRtcTransport t) =
     (case webRtcTransport_webRtcServerClosed t of (t', cc, es) \<Rightarrow> Some (RWebRtcTransport t', es))"
| "apply_closing Close (RPlainTransport t) =
     (case plainTransport_close t of (t', cc, es) \<Rightarrow> Some (RPlainTransport t', es))"
| "apply_closing RouterClosed (RPlainTransport t) =
     (case plainTransport_routerClosed t of (t', cc, es) \<Rightarrow> Some (RPlainTransport t', es))"
| "apply_closing ListenServerClosed (RPlainTransport t) =
     (case plainTransport_listenServerClosed t of (t', cc, es) \<Rightarrow> Some (RPlainTransport t', es))"
| "apply_closing Close (RDataProducer dp) =
     (case dataProducer_close dp of (dp', es) \<Rightarrow> Some (RDataProducer dp', es))"
| "apply_closing TransportClosed (RDataProducer dp) =
     (case dataProducer_transportClosed dp of (dp', es) \<Rightarrow> Some (RDataProducer dp', es))"
| "apply_closing Close (RRtpObserver ro) =
     (case rtpObserver_close ro of (ro', es) \<Rightarrow> Some (RRtpObserver ro', es))"
| "apply_closing RouterClosed (RRtpObserver ro) =
     (case rtpObserver_routerClosed ro of (ro', es) \<Rightarrow> Some (RRtpObserver ro', es))"
| "apply_closing Close (RWebRtcServer ws) =
     (case webRtcServer_close ws of (ws', ts, es) \<Rightarrow> Some (RWebRtcServer ws', es))"
| "apply_closing WorkerClosed (RWebRtcServer ws) =
     (case webRtcServer_workerClosed ws of (ws', es) \<Rightarrow> Some (RWebRtcServer ws', es))"
| "apply_closing _ _ = None"

section \<open>Parts of a trace\<close>

text \<open>
  The notifications a method sends upward and outward in its own name: the requests to
  the engine and the events on the object's own emitter.
\<close>

fun is_upward :: "effect \<Rightarrow> bool" where
  "is_upward (ChannelRequest m tgt d) = True"
| "is_upward (Emit ev a) = True"
| "is_upward (SafeEmit ev a) = True"
| "is_upward _ = False"

fun is_log :: "effect \<Rightarrow> bool" where
  "is_log (Log l m) = True"
| "is_log _ = False"

definition upward :: "effect list \<Rightarrow> effect list" where
  "upward es = filter is_upward es"

text \<open>What is left of a trace without the upward notifications and the log lines.\<close>

definition teardown :: "effect list \<Rightarrow> effect list" where
  "teardown es = filter (\<lambda>e. \<not> is_upward e \<and> \<not> is_log e) es"

text \<open>
  A registry is well formed when every value sits under its own id; the keys of a Map
  are distinct.
\<close>

definition registry_wf :: "('v \<Rightarrow> id) \<Rightarrow> (id \<times> 'v) list \<Rightarrow> bool" where
  "registry_wf ident m = (distinct (map fst m) \<and> list_all (\<lambda>(k, v). ident v = k) m)"

definition registries_wf :: "'a transport_scheme \<Rightarrow> bool" where
  "registries_wf t =
     (registry_wf p_producerId (t_producers t)
      \<and> registry_wf c_consumerId (t_consumers t)
      \<and> registry_wf dp_dataProducerId (t_dataProducers t)
      \<and> registry_wf dc_dataConsumerId (t_dataConsumers t))"

text \<open>
  The shape of the entries that the loop over one registry adds to a trace: an effect of
  a child of class \<open>c\<close>, or the event \<open>ev\<close> that tells the Router about one child.
\<close>

fun from_loop :: "object_class \<Rightarrow> string \<Rightarrow> effect \<Rightarrow> bool" where
  "from_loop c ev (On c' i e) = (c' = c)"
| "from_loop c ev (Emit ev' (Some i)) = (ev' = ev)"
| "from_loop c ev _ = False"

text \<open>The ids of the children that an entry of the shape above is about.\<close>

fun about :: "effect \<Rightarrow> id" where
  "about (On c i e) = i"
| "about (Emit ev (Some i)) = i"
| "about _ = []"

section \<open>Example objects\<close>

definition example_rtpParameters :: rtp_parameters where
  "example_rtpParameters =
     \<lparr>mid = None, codecs = [''video/VP8''], encodings = EncodingsArray [[]],
      rtcp = Some \<lparr>cname = Some ''cn-1'', reducedSize = None\<rparr>\<rparr>"

definition example_producer :: producer where
  "example_producer =
     \<lparr>p_producerId = ''p1'', p_closed = False, p_kind = ''video'',
      p_rtpParameters = example_rtpParameters, p_type = ''simple'',
      p_consumableRtpParameters = example_rtpParameters, p_paused = False,
      p_appData = AppDataObject\<rparr>"

definition example_consumer :: consumer where
  "example_consumer =
     \<lparr>c_consumerId = ''c1'', c_closed = False, c_producerId = ''p9'', c_kind = ''video'',
      c_rtpParameters = example_rtpParameters, c_type = ''simple'', c_paused = False,
      c_producerPaused = False, c_score = None, c_preferredLayers = None,
      c_appData = AppDataObject\<rparr>"

definition example_dataConsumer :: data_consumer where
  "example_dataConsumer =
     \<lparr>dc_dataConsumerId = ''dc1'', dc_closed = False, dc_dataProducerId = ''dp9'',
      dc_type = ''sctp'', dc_sctpStreamParameters = None, dc_label = ''chat'',
      dc_protocol = [], dc_appData = AppDataObject, dc_sctpStreamId = Some 0\<rparr>"

definition example_transport :: transport where
  "example_transport =
     \<lparr>t_constructor_name = ''WebRtcTransport'', t_routerId = ''r1'', t_transportId = ''t1'',
      t_data_sctpParameters = Some \<lparr>MIS = Some 2\<rparr>, t_closed = False,
      t_producers = [(''p1'', example_producer)],
      t_consumers = [(''c1'', example_consumer)],
      t_dataProducers = [(''dp1'', example_dataProducer)],
      t_dataConsumers = [(''dc1'', example_dataConsumer)],
      t_cnameForProducers = Some ''cn-1'', t_nextMidForConsumers = 1,
      t_sctpStreamIds = Some [1, 0], t_nextSctpStreamId = 1\<rparr>"

text \<open>A fresh transport of the given class with SCTP parameters whose MIS is 2.\<close>

definition fresh_transport :: "string \<Rightarrow> transport" where
  "fresh_transport cls =
     \<lparr>t_constructor_name = cls, t_routerId = ''r1'', t_transportId = ''t1'',
      t_data_sctpParameters = Some \<lparr>MIS = Some 2\<rparr>, t_closed = False,
      t_producers = [], t_consumers = [], t_dataProducers = [], t_dataConsumers = [],
      t_cnameForProducers = None, t_nextMidForConsumers = 0,
      t_sctpStreamIds = None, t_nextSctpStreamId = 0\<rparr>"

text \<open>
  A connected WebRtcTransport with SCTP, and a WebRtcServer that handles nothing yet.
\<close>

definition example_webRtcTransport :: web_rtc_transport where
  "example_webRtcTransport =
     \<lparr>t_constructor_name = ''WebRtcTransport'', t_routerId = ''r1'', t_transportId = ''wt1'',
      t_data_sctpParameters = Some \<lparr>MIS = Some 2\<rparr>, t_closed = False,
      t_producers = [], t_consumers = [], t_dataProducers = [], t_dataConsumers = [],
      t_cnameForProducers = None, t_nextMidForConsumers = 0,
      t_sctpStreamIds = None, t_nextSctpStreamId = 0,
      wt_iceState = IceConnected, wt_iceSelectedTuple = None,
      wt_dtlsState = DtlsConnected, wt_dtlsRemoteCert = None,
      wt_sctpState = Some SctpConnected\<rparr>"

definition example_webRtcServer :: web_rtc_server where
  "example_webRtcServer =
     \<lparr>ws_webRtcServerId = ''ws1'', ws_closed = False, ws_webRtcTransports = []\<rparr>"

text \<open>
  A stand-in for \<open>ortc\<close> that accepts everything, derives the consumable parameters
  by copying the producer's, and the consumer's by copying the consumable ones without a
  MID; and a Router that knows one Producer and one DataProducer.
\<close>

definition example_ortc :: ortc where
  "example_ortc =
     \<lparr>validateRtpParameters = (\<lambda>rp. None),
      validateRtpCapabilities = (\<lambda>caps. None),
      getProducerRtpParametersMapping = (\<lambda>rp caps. Inr (RtpMapping [])),
      getConsumableRtpParameters = (\<lambda>kind rp caps m. Inr rp),
      getConsumerRtpParameters = (\<lambda>rp caps pipe enableRtx. Inr (rp\<lparr>mid := None\<rparr>))\<rparr>"

definition example_router :: router_view where
  "example_router =
     \<lparr>getRouterRtpCapabilities = RtpCapabilities [''video/VP8''],
      getProducerById = map_of [(''p1'', example_producer)],
      getDataProducerById = map_of [(''dp1'', example_dataProducer)]\<rparr>"

definition example_producer_options :: producer_options where
  "example_producer_options =
     \<lparr>po_id = None, po_kind = ''video'',
      po_rtpParameters =
        \<lparr>mid = None, codecs = [''video/VP8''], encodings = EncodingsFalsy,
         rtcp = Some \<lparr>cname = Some ''other'', reducedSize = None\<rparr>\<rparr>,
      po_paused = False, po_keyFrameRequestDelay = None, po_appData = AppDataFalsy\<rparr>"

definition example_consumer_options :: consumer_options where
  "example_consumer_options =
     \<lparr>co_producerId = Some ''p1'', co_rtpCapabilities = RtpCapabilities [''video/VP8''],
      co_paused = False, co_mid = MidMissing, co_preferredLayers = None,
      co_ignoreDtx = False, co_enableRtx = None, co_pipe = False, co_appData = AppDataFalsy\<rparr>"

definition example_consume_status :: consume_status where
  "example_consume_status =
     \<lparr>cs_paused = False, cs_producerPaused = False, cs_score = None,
      cs_preferredLayers = None\<rparr>"

definition example_dataConsumer_options :: data_consumer_options where
  "example_dataConsumer_options =
     \<lparr>dco_dataProducerId = Some ''dp1'', dco_ordered = None, dco_maxPacketLifeTime = None,
      dco_maxRetransmits = None, dco_appData = AppDataFalsy\<rparr>"

definition example_consumeData_status :: consume_data_status where
  "example_consumeData_status =
     \<lparr>cds_type = ''sctp'', cds_sctpStreamParameters = None, cds_label = ''chat'',
      cds_protocol = []\<rparr>"

text \<open>
  The first \<open>produce()\<close> on a fresh WebRtcTransport, with \<open>example_producer_options\<close>
  (no encodings, CNAME "other"): the Producer it creates and the Transport it leaves.
\<close>

definition example_produced_rtpParameters :: rtp_parameters where
  "example_produced_rtpParameters =
     \<lparr>mid = None, codecs = [''video/VP8''], encodings = EncodingsArray [[]],
      rtcp = Some \<lparr>cname = Some ''other'', reducedSize = None\<rparr>\<rparr>"

definition example_produced :: producer where
  "example_produced =
     \<lparr>p_producerId = ''u2'', p_closed = False, p_kind = ''video'',
      p_rtpParameters = example_produced_rtpParameters, p_type = ''simple'',
      p_consumableRtpParameters = example_produced_rtpParameters, p_paused = False,
      p_appData = AppDataObject\<rparr>"

definition example_after_produce :: transport where
  "example_after_produce =
     (fresh_transport ''WebRtcTransport'')
       \<lparr>t_producers := [(''u2'', example_produced)], t_cnameForProducers := Some ''other''\<rparr>"

text \<open>
  States of a WebRtcTransport whose MIS is 2.  \<open>example_in_flight\<close>: a first
  \<open>consumeData()\<close> has run up to its request and waits for the response.
  \<open>example_one_live\<close>: a second call has run to its end meanwhile, and its DataConsumer
  "b" is in the registry.  \<open>example_two_live\<close>: the first call has completed as well.
\<close>

definition example_in_flight :: transport where
  "example_in_flight =
     (fresh_transport ''WebRtcTransport'')
       \<lparr>t_sctpStreamIds := Some [1, 0], t_nextSctpStreamId := 1\<rparr>"

definition example_live :: "id \<Rightarrow> nat \<Rightarrow> data_consumer" where
  "example_live i sid =
     \<lparr>dc_dataConsumerId = i, dc_closed = False, dc_dataProducerId = ''dp1'',
      dc_type = ''sctp'', dc_sctpStreamParameters = None, dc_label = ''chat'',
      dc_protocol = [], dc_appData = AppDataObject, dc_sctpStreamId = Some sid\<rparr>"

definition example_one_live :: transport where
  "example_one_live =
     (fresh_transport ''WebRtcTransport'')
       \<lparr>t_dataConsumers := [(''b'', example_live ''b'' 1)],
         t_sctpStreamIds := Some [1, 1], t_nextSctpStreamId := 2\<rparr>"

definition example_two_live :: transport where
  "example_two_live =
     (fresh_transport ''WebRtcTransport'')
       \<lparr>t_dataConsumers := [(''b'', example_live ''b'' 1), (''a'', example_live ''a'' 0)],
         t_sctpStreamIds := Some [1, 1], t_nextSctpStreamId := 2\<rparr>"

section \<open>Theorems\<close>

subsection \<open>Decimal rendering\<close>

lemma string_of_nat_digit: "n < 10 \<Longrightarrow> string_of_nat n = [digit_char n]"
  by (simp add: string_of_nat.simps [of n])

lemma string_of_nat_step:
  "10 \<le> n \<Longrightarrow> string_of_nat n = string_of_nat (n div 10) @ [digit_char (n mod 10)]"
  by (simp add: string_of_nat.simps [of n])

subsection \<open>Closing operations: helper facts\<close>

lemma transport_close_noop: "t_closed t \<Longrightarrow> transport_close t = (t, no_children, [])"
  by (simp add: transport_close_def)

lemma transport_routerClosed_noop: "t_closed t \<Longrightarrow> transport_routerClosed t = (t, no_children, [])"
  by (simp add: transport_routerClosed_def)

lemma transport_listenServerClosed_noop:
  "t_closed t \<Longrightarrow> transport_listenServerClosed t = (t, no_children, [])"
  by (simp add: transport_listenServerClosed_def)

lemma transport_close_closed: "t_closed (fst (transport_close t))"
  by (simp add: transport_close_def split: prod.splits)

lemma transport_routerClosed_closed: "t_closed (fst (transport_routerClosed t))"
  by (simp add: transport_routerClosed_def split: prod.splits)

lemma transport_listenServerClosed_closed: "t_closed (fst (transport_listenServerClosed t))"
  by (simp add: transport_listenServerClosed_def split: prod.splits)

lemma mirrors_closed_t_closed [simp]: "t_closed (webRtcTransport_mirrors_closed t) = t_closed t"
  by (simp add: webRtcTransport_mirrors_closed_def Let_def)

lemma apply_closing_closes:
  "apply_closing opn r = Some (r', es) \<Longrightarrow> is_closed r'"
proof (cases r)
  case (RTransport t)
  assume a: "apply_closing opn r = Some (r', es)"
  show ?thesis
    using a RTransport transport_close_closed [of t] transport_routerClosed_closed [of t]
      transport_listenServerClosed_closed [of t]
    by (cases opn) (auto split: prod.splits)
next
  case (RWebRtcTransport t)
  assume a: "apply_closing opn r = Some (r', es)"
  show ?thesis
    using a RWebRtcTransport
      transport_close_closed [of "webRtcTransport_mirrors_closed t"]
      transport_routerClosed_closed [of "webRtcTransport_mirrors_closed t"]
      transport_listenServerClosed_closed [of "webRtcTransport_mirrors_closed t"]
      transport_listenServerClosed_closed [of t]
    by (cases opn)
      (auto simp: webRtcTransport_close_def webRtcTransport_routerClosed_def
        webRtcTransport_webRtcServerClosed_def webRtcTransport_listenServerClosed_def
        split: prod.splits if_splits)
next
  case (RPlainTransport t)
  assume a: "apply_closing opn r = Some (r', es)"
  show ?thesis
    using a RPlainTransport
      transport_close_closed [of t]
      transport_close_closed [of "t\<lparr>pt_sctpState := Some SctpClosed\<rparr>"]
      transport_routerClosed_closed [of t]
      transport_routerClosed_closed [of "t\<lparr>pt_sctpState := Some SctpClosed\<rparr>"]
      transport_listenServerClosed_closed [of t]
    by (cases opn)
      (auto simp: plainTransport_close_def plainTransport_routerClosed_def
        plainTransport_listenServerClosed_def
        split: prod.splits if_splits)
next
  case (RDataProducer dp)
  assume a: "apply_closing opn r = Some (r', es)"
  show ?thesis
    using a RDataProducer
    by (cases opn)
      (auto simp: dataProducer_close_def dataProducer_transportClosed_def split: if_splits)
next
  case (RRtpObserver ro)
  assume a: "apply_closing opn r = Some (r', es)"
  show ?thesis
    using a RRtpObserver
    by (cases opn)
      (auto simp: rtpObserver_close_def rtpObserver_routerClosed_def split: if_splits)
next
  case (RWebRtcServer ws)
  assume a: "apply_closing opn r = Some (r', es)"
  show ?thesis
    using a RWebRtcServer
    by (cases opn)
      (auto simp: webRtcServer_close_def webRtcServer_workerClosed_def
        split: if_splits prod.splits)
qed

lemma apply_closing_noop:
  "is_closed r \<Longrightarrow> apply_closing opn r = Some (r', es) \<Longrightarrow> r' = r \<and> es = []"
  by (cases r; cases opn)
    (auto simp: transport_close_noop transport_routerClosed_noop
      transport_listenServerClosed_noop
      webRtcTransport_close_def webRtcTransport_routerClosed_def
      webRtcTransport_webRtcServerClosed_def webRtcTransport_listenServerClosed_def
      plainTransport_close_def plainTransport_routerClosed_def
      plainTransport_listenServerClosed_def
      dataProducer_close_def dataProducer_transportClosed_def
      rtpObserver_close_def rtpObserver_routerClosed_def
      webRtcServer_close_def webRtcServer_workerClosed_def)

lemma assign_cname_closed [simp]: "t_closed (fst (assign_cname u t rp)) = t_closed t"
  by (simp add: assign_cname_def Let_def)

lemma produce_prefix_closed:
  "t_closed (fst (snd (produce_prefix oc rv u1 u2 t opts))) = t_closed t"
proof -
  obtain t1 rp2 where a: "assign_cname u1 t (normalize_encodings (po_rtpParameters opts)) = (t1, rp2)"
    by (cases "assign_cname u1 t (normalize_encodings (po_rtpParameters opts))")
  have c: "t_closed t1 = t_closed t"
    using assign_cname_closed [of u1 t "normalize_encodings (po_rtpParameters opts)"] a by simp
  show ?thesis
    by (simp add: produce_prefix_def Let_def a c split: option.splits sum.splits)
qed

lemma produce_continue_closed:
  "t_closed (fst (snd (produce_continue pend r t))) = t_closed t"
  by (simp add: produce_continue_def Let_def split: response.splits)

lemma assign_mid_closed [simp]: "t_closed (fst (assign_mid pipe m t rp)) = t_closed t"
  by (simp add: assign_mid_def Let_def split: option.splits)

lemma consume_prefix_closed:
  "t_closed (fst (snd (consume_prefix oc rv u t opts))) = t_closed t"
  by (simp add: consume_prefix_def Let_def case_prod_beta split: option.splits sum.splits)

lemma consume_continue_closed:
  "t_closed (fst (snd (consume_continue pend r t))) = t_closed t"
  by (simp add: consume_continue_def Let_def split: response.splits)

lemma getNextSctpStreamId_closed [simp]:
  "t_closed (snd (getNextSctpStreamId t)) = t_closed t"
  by (simp add: getNextSctpStreamId_def Let_def split: option.splits)

lemma set_sctpStreamId_closed [simp]: "t_closed (set_sctpStreamId i v t) = t_closed t"
  by (simp add: set_sctpStreamId_def split: option.splits)

lemma consumeData_prefix_closed:
  "t_closed (fst (snd (consumeData_prefix rv u t opts))) = t_closed t"
proof -
  obtain x t1 where g: "getNextSctpStreamId t = (x, t1)"
    by (cases "getNextSctpStreamId t")
  have c: "t_closed t1 = t_closed t"
    using getNextSctpStreamId_closed [of t] g by simp
  show ?thesis
    by (simp add: consumeData_prefix_def Let_def g c split: option.splits sum.splits)
qed

lemma consumeData_continue_closed:
  "t_closed (fst (snd (consumeData_continue pend r t))) = t_closed t"
  by (simp add: consumeData_continue_def Let_def split: response.splits)

lemma listeners_closed:
  "t_closed (fst (transport_on_producer_close pid t)) = t_closed t"
  "t_closed (transport_on_consumer_close cid t) = t_closed t"
  "t_closed (transport_on_dataConsumer_close dc t) = t_closed t"
  by (simp_all add: transport_on_producer_close_def transport_on_consumer_close_def
      transport_on_dataConsumer_close_def Let_def split: option.splits)

text \<open>
  C2: a closing operation leaves the resource closed; on a resource that is already
  closed, by whichever closing operation, it changes nothing and its trace is empty (no
  event, no request to the engine, no log line), so a second closing operation is a
  silent no-op.  No other operation of a Transport, an RtpObserver or a WebRtcServer
  writes the closed flag, so the flag never reverts.
\<close>

theorem closing_is_one_way_and_idempotent:
  "(apply_closing opn r = Some (r', es) \<longrightarrow>
      is_closed r'
      \<and> (is_closed r \<longrightarrow> r' = r \<and> es = [])
      \<and> (apply_closing opn2 r' = None \<or> apply_closing opn2 r' = Some (r', [])))
   \<and> t_closed (fst (snd (produce_prefix oc rv u1 u2 t opts))) = t_closed t
   \<and> t_closed (fst (snd (produce_continue ppend pr t))) = t_closed t
   \<and> t_closed (fst (snd (consume_prefix oc rv u1 t copts))) = t_closed t
   \<and> t_closed (fst (snd (consume_continue cpend cr t))) = t_closed t
   \<and> t_closed (fst (snd (consumeData_prefix rv u1 t dopts))) = t_closed t
   \<and> t_closed (fst (snd (consumeData_continue dpend dr t))) = t_closed t
   \<and> t_closed (fst (transport_on_producer_close pid t)) = t_closed t
   \<and> t_closed (transport_on_consumer_close cid t) = t_closed t
   \<and> t_closed (transport_on_dataConsumer_close dc t) = t_closed t
   \<and> ro_closed (fst (snd (pause_continue w ur ro))) = ro_closed ro
   \<and> ro_closed (fst (snd (resume_continue w ur ro))) = ro_closed ro
   \<and> ws_closed (fst (handleWebRtcTransport ws wt)) = ws_closed ws
   \<and> ws_closed (fst (webRtcServer_on_transport_close tid ws)) = ws_closed ws"
proof -
  have a: "apply_closing opn r = Some (r', es) \<longrightarrow>
      is_closed r'
      \<and> (is_closed r \<longrightarrow> r' = r \<and> es = [])
      \<and> (apply_closing opn2 r' = None \<or> apply_closing opn2 r' = Some (r', []))"
  proof
    assume h: "apply_closing opn r = Some (r', es)"
    have c: "is_closed r'" using h by (rule apply_closing_closes)
    have n: "is_closed r \<longrightarrow> r' = r \<and> es = []" using h apply_closing_noop by blast
    have i: "apply_closing opn2 r' = None \<or> apply_closing opn2 r' = Some (r', [])"
    proof (cases "apply_closing opn2 r'")
      case None
      then show ?thesis by simp
    next
      case (Some x)
      obtain r'' es2 where x: "x = (r'', es2)" by (cases x)
      from apply_closing_noop [OF c] Some x have "r'' = r' \<and> es2 = []" by blast
      with Some x show ?thesis by simp
    qed
    from c n i show "is_closed r'
      \<and> (is_closed r \<longrightarrow> r' = r \<and> es = [])
      \<and> (apply_closing opn2 r' = None \<or> apply_closing opn2 r' = Some (r', []))" by blast
  qed
  have b: "ro_closed (fst (snd (pause_continue w ur ro))) = ro_closed ro"
    "ro_closed (fst (snd (resume_continue w ur ro))) = ro_closed ro"
    "ws_closed (fst (handleWebRtcTransport ws wt)) = ws_closed ws"
    "ws_closed (fst (webRtcServer_on_transport_close tid ws)) = ws_closed ws"
    by (simp_all add: pause_continue_def resume_continue_def handleWebRtcTransport_def
        webRtcServer_on_transport_close_def split: response.splits)
  show ?thesis
    by (intro conjI a b produce_prefix_closed produce_continue_closed consume_prefix_closed
      consume_continue_closed consumeData_prefix_closed consumeData_continue_closed
      listeners_closed)
qed

theorem closing_is_one_way_and_idempotent_witness:
  "apply_closing Close (RDataProducer example_dataProducer) =
     Some (RDataProducer (example_dataProducer\<lparr>dp_closed := True\<rparr>),
           [Log Debug ''close()'', ChannelRemoveAllListeners ''dp1'',
            PayloadChannelRemoveAllListeners ''dp1'',
            ChannelRequest ''transport.closeDataProducer'' (Some ''t1'') (DataProducerIdData ''dp1''),
            Emit ''@close'' None, ObserverSafeEmit ''close'' None])
   \<and> is_closed (RDataProducer (example_dataProducer\<lparr>dp_closed := True\<rparr>))
   \<and> apply_closing TransportClosed (RDataProducer (example_dataProducer\<lparr>dp_closed := True\<rparr>)) =
     Some (RDataProducer (example_dataProducer\<lparr>dp_closed := True\<rparr>), [])"
  using closing_is_one_way_and_idempotent
    [of Close "RDataProducer example_dataProducer"
        "RDataProducer (example_dataProducer\<lparr>dp_closed := True\<rparr>)"
        "[Log Debug ''close()'', ChannelRemoveAllListeners ''dp1'',
          PayloadChannelRemoveAllListeners ''dp1'',
          ChannelRequest ''transport.closeDataProducer'' (Some ''t1'') (DataProducerIdData ''dp1''),
          Emit ''@close'' None, ObserverSafeEmit ''close'' None]"
        TransportClosed]
  by (simp add: dataProducer_close_def dataProducer_transportClosed_def example_dataProducer_def)

subsection \<open>The three close triggers of a Transport: helper facts\<close>

lemma producer_transportClosed_fst: "fst (producer_transportClosed p) = p\<lparr>p_closed := True\<rparr>"
  by (simp add: producer_transportClosed_def)

lemma consumer_transportClosed_fst: "fst (consumer_transportClosed c) = c\<lparr>c_closed := True\<rparr>"
  by (simp add: consumer_transportClosed_def)

lemma dataProducer_transportClosed_fst:
  "fst (dataProducer_transportClosed dp) = dp\<lparr>dp_closed := True\<rparr>"
  by (simp add: dataProducer_transportClosed_def)

lemma dataConsumer_transportClosed_fst:
  "fst (dataConsumer_transportClosed dc) = dc\<lparr>dc_closed := True\<rparr>"
  by (simp add: dataConsumer_transportClosed_def)

lemma close_producers_fst:
  "fst (close_producers tell ps) = map (\<lambda>(k, p). p\<lparr>p_closed := True\<rparr>) ps"
  by (induction ps)
    (auto simp: case_prod_beta Let_def producer_transportClosed_fst)

lemma close_consumers_fst:
  "fst (close_consumers cs) = map (\<lambda>(k, c). c\<lparr>c_closed := True\<rparr>) cs"
  by (induction cs)
    (auto simp: case_prod_beta Let_def consumer_transportClosed_fst)

lemma close_dataProducers_fst:
  "fst (close_dataProducers tell ps) = map (\<lambda>(k, p). p\<lparr>dp_closed := True\<rparr>) ps"
  by (induction ps)
    (auto simp: case_prod_beta Let_def dataProducer_transportClosed_fst)

lemma close_dataConsumers_fst:
  "fst (close_dataConsumers cs) = map (\<lambda>(k, c). c\<lparr>dc_closed := True\<rparr>) cs"
  by (induction cs)
    (auto simp: case_prod_beta Let_def dataConsumer_transportClosed_fst)

lemma upward_On [simp]: "upward (map (On c i) es) = []"
  by (induction es) (simp_all add: upward_def)

lemma teardown_On [simp]: "teardown (map (On c i) es) = map (On c i) es"
  by (induction es) (simp_all add: teardown_def)

lemma upward_append [simp]: "upward (xs @ ys) = upward xs @ upward ys"
  by (simp add: upward_def)

lemma teardown_append [simp]: "teardown (xs @ ys) = teardown xs @ teardown ys"
  by (simp add: teardown_def)

lemma upward_Cons:
  "upward (e # es) = (if is_upward e then e # upward es else upward es)"
  by (simp add: upward_def)

lemma teardown_Cons:
  "teardown (e # es) = (if \<not> is_upward e \<and> \<not> is_log e then e # teardown es else teardown es)"
  by (simp add: teardown_def)

lemma upward_Nil [simp]: "upward [] = []" by (simp add: upward_def)
lemma teardown_Nil [simp]: "teardown [] = []" by (simp add: teardown_def)

lemma close_producers_upward:
  "upward (snd (close_producers tell ps)) =
     (if tell then map (\<lambda>(k, p). Emit ''@producerclose'' (Some (p_producerId p))) ps else [])"
  by (induction ps) (auto simp: case_prod_beta Let_def upward_Cons)

lemma close_dataProducers_upward:
  "upward (snd (close_dataProducers tell ps)) =
     (if tell then map (\<lambda>(k, p). Emit ''@dataproducerclose'' (Some (dp_dataProducerId p))) ps
      else [])"
  by (induction ps) (auto simp: case_prod_beta Let_def upward_Cons)

lemma close_consumers_upward: "upward (snd (close_consumers cs)) = []"
  by (induction cs) (auto simp: case_prod_beta Let_def)

lemma close_dataConsumers_upward: "upward (snd (close_dataConsumers cs)) = []"
  by (induction cs) (auto simp: case_prod_beta Let_def)

lemma close_producers_teardown:
  "teardown (snd (close_producers tell ps)) = snd (close_producers False ps)"
  by (induction ps) (auto simp: case_prod_beta Let_def teardown_Cons)

lemma close_dataProducers_teardown:
  "teardown (snd (close_dataProducers tell ps)) = snd (close_dataProducers False ps)"
  by (induction ps) (auto simp: case_prod_beta Let_def teardown_Cons)

lemma close_consumers_teardown:
  "teardown (snd (close_consumers cs)) = snd (close_consumers cs)"
  by (induction cs) (auto simp: case_prod_beta Let_def)

lemma close_dataConsumers_teardown:
  "teardown (snd (close_dataConsumers cs)) = snd (close_dataConsumers cs)"
  by (induction cs) (auto simp: case_prod_beta Let_def)

lemma child_traces_distinct:
  "distinct (snd (producer_transportClosed p))"
  "distinct (snd (consumer_transportClosed c))"
  "distinct (snd (dataProducer_transportClosed dp))"
  "distinct (snd (dataConsumer_transportClosed dc))"
  by (simp_all add: producer_transportClosed_def consumer_transportClosed_def
      dataProducer_transportClosed_def dataConsumer_transportClosed_def)

lemma distinct_map_On: "distinct es \<Longrightarrow> distinct (map (On c i) es)"
  by (simp add: distinct_map inj_on_def)

lemma close_producers_shape:
  "e \<in> set (snd (close_producers tell ps)) \<Longrightarrow>
     from_loop ProducerClass ''@producerclose'' e \<and> about e \<in> set (map (\<lambda>(k, p). p_producerId p) ps)"
  by (induction ps) (auto simp: case_prod_beta Let_def split: if_splits)

lemma close_consumers_shape:
  "e \<in> set (snd (close_consumers ps)) \<Longrightarrow>
     from_loop ConsumerClass ''@consumerclose'' e \<and> about e \<in> set (map (\<lambda>(k, p). c_consumerId p) ps)"
  by (induction ps) (auto simp: case_prod_beta Let_def split: if_splits)

lemma close_dataProducers_shape:
  "e \<in> set (snd (close_dataProducers tell ps)) \<Longrightarrow>
     from_loop DataProducerClass ''@dataproducerclose'' e
     \<and> about e \<in> set (map (\<lambda>(k, p). dp_dataProducerId p) ps)"
  by (induction ps) (auto simp: case_prod_beta Let_def split: if_splits)

lemma close_dataConsumers_shape:
  "e \<in> set (snd (close_dataConsumers ps)) \<Longrightarrow>
     from_loop DataConsumerClass ''@dataconsumerclose'' e
     \<and> about e \<in> set (map (\<lambda>(k, p). dc_dataConsumerId p) ps)"
  by (induction ps) (auto simp: case_prod_beta Let_def split: if_splits)

lemma close_producers_distinct:
  "distinct (map (\<lambda>(k, p). p_producerId p) ps) \<Longrightarrow> distinct (snd (close_producers tell ps))"
proof (induction ps)
  case Nil
  then show ?case by simp
next
  case (Cons kp ps)
  obtain k p where kp: "kp = (k, p)" by (cases kp)
  have d: "distinct (snd (close_producers tell ps))" using Cons by simp
  have n: "p_producerId p \<notin> set (map (\<lambda>(k, p). p_producerId p) ps)" using Cons kp by simp
  have r: "about e \<noteq> p_producerId p" if "e \<in> set (snd (close_producers tell ps))" for e
    using close_producers_shape [OF that] n by auto
  have r1: "On c (p_producerId p) x \<notin> set (snd (close_producers tell ps))" for c x
    using r [of "On c (p_producerId p) x"] by auto
  have r2: "Emit ev (Some (p_producerId p)) \<notin> set (snd (close_producers tell ps))" for ev
    using r [of "Emit ev (Some (p_producerId p))"] by auto
  show ?case
    using d r1 r2 child_traces_distinct(1) [of p]
    by (auto simp: kp case_prod_beta Let_def distinct_map_On)
qed

lemma close_consumers_distinct:
  "distinct (map (\<lambda>(k, p). c_consumerId p) ps) \<Longrightarrow> distinct (snd (close_consumers ps))"
proof (induction ps)
  case Nil
  then show ?case by simp
next
  case (Cons kp ps)
  obtain k p where kp: "kp = (k, p)" by (cases kp)
  have d: "distinct (snd (close_consumers ps))" using Cons by simp
  have n: "c_consumerId p \<notin> set (map (\<lambda>(k, p). c_consumerId p) ps)" using Cons kp by simp
  have r: "about e \<noteq> c_consumerId p" if "e \<in> set (snd (close_consumers ps))" for e
    using close_consumers_shape [OF that] n by auto
  have r1: "On c (c_consumerId p) x \<notin> set (snd (close_consumers ps))" for c x
    using r [of "On c (c_consumerId p) x"] by auto
  have r2: "Emit ev (Some (c_consumerId p)) \<notin> set (snd (close_consumers ps))" for ev
    using r [of "Emit ev (Some (c_consumerId p))"] by auto
  show ?case
    using d r1 r2 child_traces_distinct(2) [of p]
    by (auto simp: kp case_prod_beta Let_def distinct_map_On)
qed

lemma close_dataProducers_distinct:
  "distinct (map (\<lambda>(k, p). dp_dataProducerId p) ps) \<Longrightarrow>
     distinct (snd (close_dataProducers tell ps))"
proof (induction ps)
  case Nil
  then show ?case by simp
next
  case (Cons kp ps)
  obtain k p where kp: "kp = (k, p)" by (cases kp)
  have d: "distinct (snd (close_dataProducers tell ps))" using Cons by simp
  have n: "dp_dataProducerId p \<notin> set (map (\<lambda>(k, p). dp_dataProducerId p) ps)"
    using Cons kp by simp
  have r: "about e \<noteq> dp_dataProducerId p" if "e \<in> set (snd (close_dataProducers tell ps))" for e
    using close_dataProducers_shape [OF that] n by auto
  have r1: "On c (dp_dataProducerId p) x \<notin> set (snd (close_dataProducers tell ps))" for c x
    using r [of "On c (dp_dataProducerId p) x"] by auto
  have r2: "Emit ev (Some (dp_dataProducerId p)) \<notin> set (snd (close_dataProducers tell ps))" for ev
    using r [of "Emit ev (Some (dp_dataProducerId p))"] by auto
  show ?case
    using d r1 r2 child_traces_distinct(3) [of p]
    by (auto simp: kp case_prod_beta Let_def distinct_map_On)
qed

lemma close_dataConsumers_distinct:
  "distinct (map (\<lambda>(k, p). dc_dataConsumerId p) ps) \<Longrightarrow> distinct (snd (close_dataConsumers ps))"
proof (induction ps)
  case Nil
  then show ?case by simp
next
  case (Cons kp ps)
  obtain k p where kp: "kp = (k, p)" by (cases kp)
  have d: "distinct (snd (close_dataConsumers ps))" using Cons by simp
  have n: "dc_dataConsumerId p \<notin> set (map (\<lambda>(k, p). dc_dataConsumerId p) ps)"
    using Cons kp by simp
  have r: "about e \<noteq> dc_dataConsumerId p" if "e \<in> set (snd (close_dataConsumers ps))" for e
    using close_dataConsumers_shape [OF that] n by auto
  have r1: "On c (dc_dataConsumerId p) x \<notin> set (snd (close_dataConsumers ps))" for c x
    using r [of "On c (dc_dataConsumerId p) x"] by auto
  have r2: "Emit ev (Some (dc_dataConsumerId p)) \<notin> set (snd (close_dataConsumers ps))" for ev
    using r [of "Emit ev (Some (dc_dataConsumerId p))"] by auto
  show ?case
    using d r1 r2 child_traces_distinct(4) [of p]
    by (auto simp: kp case_prod_beta Let_def distinct_map_On)
qed

lemma registry_wf_ids:
  assumes "registry_wf ident m"
  shows "distinct (map (\<lambda>(k, v). ident v) m)"
proof -
  have h: "list_all (\<lambda>(k, v). ident v = k) xs \<Longrightarrow> map (\<lambda>(k, v). ident v) xs = map fst xs" for xs
    by (induction xs) auto
  from assms have "list_all (\<lambda>(k, v). ident v = k) m" by (simp add: registry_wf_def)
  then have eq: "map (\<lambda>(k, v). ident v) m = map fst m" by (rule h)
  from assms have d: "distinct (map fst m)" by (simp add: registry_wf_def)
  show ?thesis unfolding eq by (rule d)
qed

lemma from_loop_disjoint:
  "from_loop c ev e \<Longrightarrow> from_loop c' ev' e \<Longrightarrow> c \<noteq> c' \<Longrightarrow> ev \<noteq> ev' \<Longrightarrow> False"
  by (cases "(c, ev, e)" rule: from_loop.cases) auto

lemma transport_close_trace:
  "\<not> t_closed t \<Longrightarrow>
   snd (snd (transport_close t)) =
     [Log Debug ''close()'',
      ChannelRemoveAllListeners (t_transportId t),
      PayloadChannelRemoveAllListeners (t_transportId t),
      ChannelRequest ''router.closeTransport'' (Some (t_routerId t))
        (TransportIdData (t_transportId t))]
     @ snd (close_producers True (t_producers t))
     @ snd (close_consumers (t_consumers t))
     @ snd (close_dataProducers True (t_dataProducers t))
     @ snd (close_dataConsumers (t_dataConsumers t))
     @ [Emit ''@close'' None, ObserverSafeEmit ''close'' None]"
  by (simp add: transport_close_def case_prod_beta)

lemma transport_routerClosed_trace:
  "\<not> t_closed t \<Longrightarrow>
   snd (snd (transport_routerClosed t)) =
     [Log Debug ''routerClosed()'',
      ChannelRemoveAllListeners (t_transportId t),
      PayloadChannelRemoveAllListeners (t_transportId t)]
     @ snd (close_producers False (t_producers t))
     @ snd (close_consumers (t_consumers t))
     @ snd (close_dataProducers False (t_dataProducers t))
     @ snd (close_dataConsumers (t_dataConsumers t))
     @ [SafeEmit ''routerclose'' None, ObserverSafeEmit ''close'' None]"
  by (simp add: transport_routerClosed_def case_prod_beta)

lemma transport_listenServerClosed_trace:
  "\<not> t_closed t \<Longrightarrow>
   snd (snd (transport_listenServerClosed t)) =
     [Log Debug ''listenServerClosed()'',
      ChannelRemoveAllListeners (t_transportId t),
      PayloadChannelRemoveAllListeners (t_transportId t)]
     @ snd (close_producers False (t_producers t))
     @ snd (close_consumers (t_consumers t))
     @ snd (close_dataProducers False (t_dataProducers t))
     @ snd (close_dataConsumers (t_dataConsumers t))
     @ [Emit ''@listenserverclose'' None, SafeEmit ''listenserverclose'' None,
        ObserverSafeEmit ''close'' None]"
  by (simp add: transport_listenServerClosed_def case_prod_beta)

lemma sections_distinct:
  assumes "distinct a" and "distinct ps" and "distinct cs" and "distinct dps"
    and "distinct dcs" and "distinct z" and "set a \<inter> set z = {}"
    and "\<And>e c ev. e \<in> set a \<union> set z \<Longrightarrow> \<not> from_loop c ev e"
    and "\<And>e. e \<in> set ps \<Longrightarrow> from_loop ProducerClass ''@producerclose'' e"
    and "\<And>e. e \<in> set cs \<Longrightarrow> from_loop ConsumerClass ''@consumerclose'' e"
    and "\<And>e. e \<in> set dps \<Longrightarrow> from_loop DataProducerClass ''@dataproducerclose'' e"
    and "\<And>e. e \<in> set dcs \<Longrightarrow> from_loop DataConsumerClass ''@dataconsumerclose'' e"
  shows "distinct (a @ ps @ cs @ dps @ dcs @ z)"
proof -
  have d1: "set ps \<inter> set cs = {}" "set ps \<inter> set dps = {}" "set ps \<inter> set dcs = {}"
    "set cs \<inter> set dps = {}" "set cs \<inter> set dcs = {}" "set dps \<inter> set dcs = {}"
    using assms(9-12) from_loop_disjoint by (fastforce)+
  have d2: "set a \<inter> set ps = {}" "set a \<inter> set cs = {}" "set a \<inter> set dps = {}"
    "set a \<inter> set dcs = {}" "set ps \<inter> set z = {}" "set cs \<inter> set z = {}"
    "set dps \<inter> set z = {}" "set dcs \<inter> set z = {}"
    using assms(8-12) by (fastforce)+
  show ?thesis
    using assms(1-7) d1 d2 by (simp add: Int_Un_distrib Int_Un_distrib2)
qed

lemma mirrors_closed_values:
  "wt_iceState (webRtcTransport_mirrors_closed t) = IceClosed"
  "wt_dtlsState (webRtcTransport_mirrors_closed t) = DtlsClosed"
  "wt_sctpState (webRtcTransport_mirrors_closed t) =
     (if wt_sctpState t = None then None else Some SctpClosed)"
  by (simp_all add: webRtcTransport_mirrors_closed_def Let_def)

lemma base_close_keeps_more:
  "transport.more (fst (transport_close t)) = transport.more t"
  "transport.more (fst (transport_routerClosed t)) = transport.more t"
  "transport.more (fst (transport_listenServerClosed t)) = transport.more t"
  by (simp_all add: transport_close_def transport_routerClosed_def
      transport_listenServerClosed_def split: prod.splits)

subsection \<open>The three close triggers of a Transport\<close>

text \<open>
  C1: on an open Transport, \<open>close()\<close>, \<open>routerClosed()\<close> and
  \<open>listenServerClosed()\<close> leave the same Transport (closed, its four registries
  empty) and the same children, every one of them closed; each emits the observer event
  'close'.  Their traces differ in the upward notifications only (and in the log line
  naming the method): \<open>close()\<close> sends the request \<open>router.closeTransport\<close> and
  emits '@producerclose' for every Producer, '@dataproducerclose' for every DataProducer
  and '@close'; \<open>routerClosed()\<close> sends no request and emits neither '@close' nor a
  signal for any producer, only 'routerclose'; \<open>listenServerClosed()\<close> emits
  '@listenserverclose' and 'listenserverclose', no '@close' and no request.  With
  well-formed registries no entry occurs twice in any of the three traces: no party is
  notified twice.
\<close>

theorem close_triggers_same_terminal_state:
  assumes opn: "\<not> t_closed t" and wf: "registries_wf t"
  shows
    "fst (transport_close t) =
       t\<lparr>t_closed := True, t_producers := [], t_consumers := [],
         t_dataProducers := [], t_dataConsumers := []\<rparr>
     \<and> fst (transport_routerClosed t) = fst (transport_close t)
     \<and> fst (transport_listenServerClosed t) = fst (transport_close t)
     \<and> fst (snd (transport_close t)) =
         \<lparr>cc_producers = map (\<lambda>(k, p). p\<lparr>p_closed := True\<rparr>) (t_producers t),
          cc_consumers = map (\<lambda>(k, c). c\<lparr>c_closed := True\<rparr>) (t_consumers t),
          cc_dataProducers = map (\<lambda>(k, dp). dp\<lparr>dp_closed := True\<rparr>) (t_dataProducers t),
          cc_dataConsumers = map (\<lambda>(k, dc). dc\<lparr>dc_closed := True\<rparr>) (t_dataConsumers t)\<rparr>
     \<and> fst (snd (transport_routerClosed t)) = fst (snd (transport_close t))
     \<and> fst (snd (transport_listenServerClosed t)) = fst (snd (transport_close t))
     \<and> upward (snd (snd (transport_close t))) =
         [ChannelRequest ''router.closeTransport'' (Some (t_routerId t))
            (TransportIdData (t_transportId t))]
         @ map (\<lambda>(k, p). Emit ''@producerclose'' (Some (p_producerId p))) (t_producers t)
         @ map (\<lambda>(k, dp). Emit ''@dataproducerclose'' (Some (dp_dataProducerId dp)))
             (t_dataProducers t)
         @ [Emit ''@close'' None]
     \<and> upward (snd (snd (transport_routerClosed t))) = [SafeEmit ''routerclose'' None]
     \<and> upward (snd (snd (transport_listenServerClosed t))) =
         [Emit ''@listenserverclose'' None, SafeEmit ''listenserverclose'' None]
     \<and> teardown (snd (snd (transport_routerClosed t))) = teardown (snd (snd (transport_close t)))
     \<and> teardown (snd (snd (transport_listenServerClosed t))) =
         teardown (snd (snd (transport_close t)))
     \<and> ObserverSafeEmit ''close'' None \<in> set (teardown (snd (snd (transport_close t))))
     \<and> distinct (snd (snd (transport_close t)))
     \<and> distinct (snd (snd (transport_routerClosed t)))
     \<and> distinct (snd (snd (transport_listenServerClosed t)))"
proof -
  note tr = transport_close_trace [OF opn] transport_routerClosed_trace [OF opn]
    transport_listenServerClosed_trace [OF opn]
  note fsts = close_producers_fst close_consumers_fst close_dataProducers_fst
    close_dataConsumers_fst
  have s1: "fst (transport_close t) =
       t\<lparr>t_closed := True, t_producers := [], t_consumers := [],
         t_dataProducers := [], t_dataConsumers := []\<rparr>"
    using opn by (simp add: transport_close_def case_prod_beta)
  have s2: "fst (transport_routerClosed t) = fst (transport_close t)"
    using opn by (simp add: transport_close_def transport_routerClosed_def case_prod_beta)
  have s3: "fst (transport_listenServerClosed t) = fst (transport_close t)"
    using opn by (simp add: transport_close_def transport_listenServerClosed_def case_prod_beta)
  have c1: "fst (snd (transport_close t)) =
         \<lparr>cc_producers = map (\<lambda>(k, p). p\<lparr>p_closed := True\<rparr>) (t_producers t),
          cc_consumers = map (\<lambda>(k, c). c\<lparr>c_closed := True\<rparr>) (t_consumers t),
          cc_dataProducers = map (\<lambda>(k, dp). dp\<lparr>dp_closed := True\<rparr>) (t_dataProducers t),
          cc_dataConsumers = map (\<lambda>(k, dc). dc\<lparr>dc_closed := True\<rparr>) (t_dataConsumers t)\<rparr>"
    using opn by (simp add: transport_close_def case_prod_beta fsts)
  have c2: "fst (snd (transport_routerClosed t)) = fst (snd (transport_close t))"
    using opn
    by (simp add: transport_close_def transport_routerClosed_def case_prod_beta fsts)
  have c3: "fst (snd (transport_listenServerClosed t)) = fst (snd (transport_close t))"
    using opn
    by (simp add: transport_close_def transport_listenServerClosed_def case_prod_beta fsts)
  note ups = upward_Cons close_producers_upward close_consumers_upward
    close_dataProducers_upward close_dataConsumers_upward
  have u1: "upward (snd (snd (transport_close t))) =
         [ChannelRequest ''router.closeTransport'' (Some (t_routerId t))
            (TransportIdData (t_transportId t))]
         @ map (\<lambda>(k, p). Emit ''@producerclose'' (Some (p_producerId p))) (t_producers t)
         @ map (\<lambda>(k, dp). Emit ''@dataproducerclose'' (Some (dp_dataProducerId dp)))
             (t_dataProducers t)
         @ [Emit ''@close'' None]"
    by (simp add: tr(1) ups)
  have u2: "upward (snd (snd (transport_routerClosed t))) = [SafeEmit ''routerclose'' None]"
    by (simp add: tr(2) ups)
  have u3: "upward (snd (snd (transport_listenServerClosed t))) =
         [Emit ''@listenserverclose'' None, SafeEmit ''listenserverclose'' None]"
    by (simp add: tr(3) ups)
  note tds = teardown_Cons close_producers_teardown close_consumers_teardown
    close_dataProducers_teardown close_dataConsumers_teardown
  have t2: "teardown (snd (snd (transport_routerClosed t))) =
      teardown (snd (snd (transport_close t)))"
    by (simp add: tr(1,2) tds)
  have t3: "teardown (snd (snd (transport_listenServerClosed t))) =
      teardown (snd (snd (transport_close t)))"
    by (simp add: tr(1,3) tds)
  have ob: "ObserverSafeEmit ''close'' None \<in> set (teardown (snd (snd (transport_close t))))"
    by (simp add: tr(1) tds)
  have w: "distinct (map (\<lambda>(k, p). p_producerId p) (t_producers t))"
    "distinct (map (\<lambda>(k, p). c_consumerId p) (t_consumers t))"
    "distinct (map (\<lambda>(k, p). dp_dataProducerId p) (t_dataProducers t))"
    "distinct (map (\<lambda>(k, p). dc_dataConsumerId p) (t_dataConsumers t))"
    using wf registry_wf_ids by (auto simp: registries_wf_def)
  have d1: "distinct (snd (snd (transport_close t)))"
    unfolding tr(1)
    by (rule sections_distinct)
      (use w close_producers_distinct close_consumers_distinct close_dataProducers_distinct
        close_dataConsumers_distinct close_producers_shape close_consumers_shape
        close_dataProducers_shape close_dataConsumers_shape in auto)
  have d2: "distinct (snd (snd (transport_routerClosed t)))"
    unfolding tr(2)
    by (rule sections_distinct)
      (use w close_producers_distinct close_consumers_distinct close_dataProducers_distinct
        close_dataConsumers_distinct close_producers_shape close_consumers_shape
        close_dataProducers_shape close_dataConsumers_shape in auto)
  have d3: "distinct (snd (snd (transport_listenServerClosed t)))"
    unfolding tr(3)
    by (rule sections_distinct)
      (use w close_producers_distinct close_consumers_distinct close_dataProducers_distinct
        close_dataConsumers_distinct close_producers_shape close_consumers_shape
        close_dataProducers_shape close_dataConsumers_shape in auto)
  show ?thesis
    by (intro conjI s1 s2 s3 c1 c2 c3 u1 u2 u3 t2 t3 ob d1 d2 d3)
qed

theorem close_triggers_same_terminal_state_witness:
  "\<not> t_closed example_transport \<and> registries_wf example_transport
   \<and> upward (snd (snd (transport_close example_transport))) =
       [ChannelRequest ''router.closeTransport'' (Some ''r1'') (TransportIdData ''t1''),
        Emit ''@producerclose'' (Some ''p1''),
        Emit ''@dataproducerclose'' (Some ''dp1''),
        Emit ''@close'' None]
   \<and> upward (snd (snd (transport_routerClosed example_transport))) =
       [SafeEmit ''routerclose'' None]
   \<and> fst (transport_listenServerClosed example_transport) =
       example_transport\<lparr>t_closed := True, t_producers := [], t_consumers := [],
         t_dataProducers := [], t_dataConsumers := []\<rparr>
   \<and> cc_consumers (fst (snd (transport_routerClosed example_transport))) =
       [example_consumer\<lparr>c_closed := True\<rparr>]"
proof -
  have a: "\<not> t_closed example_transport"
    by (simp add: example_transport_def)
  have b: "registries_wf example_transport"
    by (simp add: registries_wf_def registry_wf_def example_transport_def
        example_producer_def example_consumer_def example_dataProducer_def
        example_dataConsumer_def)
  have c: "t_producers example_transport = [(''p1'', example_producer)]"
    "t_consumers example_transport = [(''c1'', example_consumer)]"
    "t_dataProducers example_transport = [(''dp1'', example_dataProducer)]"
    "t_routerId example_transport = ''r1''" "t_transportId example_transport = ''t1''"
    "p_producerId example_producer = ''p1''"
    "dp_dataProducerId example_dataProducer = ''dp1''"
    by (simp_all add: example_transport_def example_producer_def example_dataProducer_def)
  show ?thesis
    using a b close_triggers_same_terminal_state [OF a b] by (simp add: c)
qed

subsection \<open>The state mirrors at a close\<close>

lemma webRtcTransport_mirrors_after_close:
  "\<not> t_closed t \<Longrightarrow>
     wt_iceState (fst (webRtcTransport_close t)) = IceClosed
     \<and> wt_dtlsState (fst (webRtcTransport_close t)) = DtlsClosed
     \<and> wt_sctpState (fst (webRtcTransport_close t)) =
         (if wt_sctpState t = None then None else Some SctpClosed)
     \<and> wt_iceState (fst (webRtcTransport_routerClosed t)) = IceClosed
     \<and> wt_dtlsState (fst (webRtcTransport_routerClosed t)) = DtlsClosed
     \<and> wt_sctpState (fst (webRtcTransport_routerClosed t)) =
         (if wt_sctpState t = None then None else Some SctpClosed)
     \<and> wt_iceState (fst (webRtcTransport_webRtcServerClosed t)) = IceClosed
     \<and> wt_dtlsState (fst (webRtcTransport_webRtcServerClosed t)) = DtlsClosed
     \<and> wt_sctpState (fst (webRtcTransport_webRtcServerClosed t)) =
         (if wt_sctpState t = None then None else Some SctpClosed)"
  by (simp add: webRtcTransport_close_def webRtcTransport_routerClosed_def
      webRtcTransport_webRtcServerClosed_def transport_close_def transport_routerClosed_def
      transport_listenServerClosed_def case_prod_beta mirrors_closed_values)

lemma plainTransport_mirror_after_close:
  "\<not> t_closed t \<Longrightarrow>
     pt_sctpState (fst (plainTransport_close t)) =
       (if pt_sctpState t = None then None else Some SctpClosed)
     \<and> pt_sctpState (fst (plainTransport_routerClosed t)) =
       (if pt_sctpState t = None then None else Some SctpClosed)"
  by (simp add: plainTransport_close_def plainTransport_routerClosed_def transport_close_def
      transport_routerClosed_def case_prod_beta)

lemma listenServerClosed_keeps_mirrors:
  "wt_iceState (fst (webRtcTransport_listenServerClosed t)) = wt_iceState t
   \<and> wt_dtlsState (fst (webRtcTransport_listenServerClosed t)) = wt_dtlsState t
   \<and> wt_sctpState (fst (webRtcTransport_listenServerClosed t)) = wt_sctpState t
   \<and> pt_sctpState (fst (plainTransport_listenServerClosed p)) = pt_sctpState p"
  by (simp add: webRtcTransport_listenServerClosed_def plainTransport_listenServerClosed_def
      transport_listenServerClosed_def case_prod_beta)

text \<open>
  C8 says that each of the three close triggers sets the mirrors to closed.
  \<open>close()\<close>, \<open>routerClosed()\<close> and \<open>webRtcServerClosed()\<close> do.  But
  \<open>WebRtcServer.close()\<close> calls \<open>listenServerClosed()\<close> on its transports, which
  WebRtcTransport inherits unchanged: a connected WebRtcTransport that the server handles
  comes out of the server's close with \<open>closed = true\<close> and its ICE, DTLS and SCTP
  mirrors still connected.
\<close>

theorem webRtcServer_close_leaves_mirrors:
  "map (\<lambda>t. (t_closed t, wt_iceState t, wt_dtlsState t, wt_sctpState t))
     (fst (snd (webRtcServer_close
        (fst (handleWebRtcTransport example_webRtcServer example_webRtcTransport)))))
   = [(True, IceConnected, DtlsConnected, Some SctpConnected)]"
  by (simp add: webRtcServer_close_def handleWebRtcTransport_def example_webRtcServer_def
      example_webRtcTransport_def webRtcTransport_listenServerClosed_def
      transport_listenServerClosed_def)

subsection \<open>produce() and consume() that fail before any request\<close>

lemma produce_duplicate_id:
  "has_given_id (t_producers t) (po_id opts) \<Longrightarrow>
   produce oc rv u1 u2 r t opts =
     (Inl (TypeError (''a Producer with same id '' @ dq @ id_or (po_id opts) [] @ dq
                      @ '' already exists'')),
      t, [Log Debug ''produce()''])"
  by (simp add: produce_def produce_prefix_def)

lemma consume_unresolved_fails:
  "getProducerById rv (id_or (co_producerId copts) []) = None \<Longrightarrow>
   \<exists>e. consume oc rv u r t copts = (Inl e, t, [Log Debug ''consume()''])"
  by (simp add: consume_def consume_prefix_def Let_def split: option.splits)

lemma consume_unresolved_not_found:
  "getProducerById rv (id_or (co_producerId copts) []) = None \<Longrightarrow>
   truthy (co_producerId copts) \<Longrightarrow> co_appData copts \<noteq> AppDataOther \<Longrightarrow>
   co_mid copts \<noteq> MidOther \<Longrightarrow> validateRtpCapabilities oc (co_rtpCapabilities copts) = None \<Longrightarrow>
   consume oc rv u r t copts =
     (Inl (Error (''Producer with id '' @ dq @ id_or (co_producerId copts) [] @ dq
                  @ '' not found'')),
      t, [Log Debug ''consume()''])"
  by (simp add: consume_def consume_prefix_def Let_def)

text \<open>
  C4: \<open>produce()\<close> given an explicit (non-empty) id under which the Transport
  already holds a Producer throws the TypeError of the duplicate id; \<open>consume()\<close>
  given a \<open>producerId\<close> that the Router's lookup does not resolve throws, and what it
  throws is the "not found" Error whenever the arguments pass the checks made before the
  lookup (a non-empty producerId, a well-formed appData and mid, valid capabilities).  In
  both cases the Transport is returned as it was, registries and allocators included, and
  the trace holds the debug line only: no request has been issued.
\<close>

theorem produce_consume_fail_before_request:
  "(po_id opts = Some i \<and> i \<noteq> [] \<and> map_of (t_producers t) i \<noteq> None \<longrightarrow>
      produce oc rv u1 u2 r t opts =
        (Inl (TypeError (''a Producer with same id '' @ dq @ i @ dq @ '' already exists'')),
         t, [Log Debug ''produce()'']))
   \<and> (co_producerId copts = Some pid \<and> getProducerById rv pid = None \<longrightarrow>
        (\<exists>e. consume oc rv u r' t copts = (Inl e, t, [Log Debug ''consume()'']))
        \<and> (pid \<noteq> [] \<and> co_appData copts \<noteq> AppDataOther \<and> co_mid copts \<noteq> MidOther
             \<and> validateRtpCapabilities oc (co_rtpCapabilities copts) = None \<longrightarrow>
           consume oc rv u r' t copts =
             (Inl (Error (''Producer with id '' @ dq @ pid @ dq @ '' not found'')),
              t, [Log Debug ''consume()''])))"
proof (intro conjI impI)
  assume a: "po_id opts = Some i \<and> i \<noteq> [] \<and> map_of (t_producers t) i \<noteq> None"
  then have "has_given_id (t_producers t) (po_id opts)" by (simp add: has_given_id_def)
  from produce_duplicate_id [OF this] a
  show "produce oc rv u1 u2 r t opts =
        (Inl (TypeError (''a Producer with same id '' @ dq @ i @ dq @ '' already exists'')),
         t, [Log Debug ''produce()''])"
    by (simp add: id_or_def)
next
  assume b: "co_producerId copts = Some pid \<and> getProducerById rv pid = None"
  show "\<exists>e. consume oc rv u r' t copts = (Inl e, t, [Log Debug ''consume()''])"
  proof (cases "pid = []")
    case True
    with b show ?thesis by (simp add: consume_def consume_prefix_def truthy_def)
  next
    case False
    with b have "getProducerById rv (id_or (co_producerId copts) []) = None"
      by (simp add: id_or_def)
    then show ?thesis by (rule consume_unresolved_fails)
  qed
next
  assume b: "co_producerId copts = Some pid \<and> getProducerById rv pid = None"
    and c: "pid \<noteq> [] \<and> co_appData copts \<noteq> AppDataOther \<and> co_mid copts \<noteq> MidOther
             \<and> validateRtpCapabilities oc (co_rtpCapabilities copts) = None"
  from b c have i: "id_or (co_producerId copts) [] = pid" by (simp add: id_or_def)
  from b c have t: "truthy (co_producerId copts)" by (simp add: truthy_def)
  from consume_unresolved_not_found [of rv copts oc u r' t] b c i t
  show "consume oc rv u r' t copts =
             (Inl (Error (''Producer with id '' @ dq @ pid @ dq @ '' not found'')),
              t, [Log Debug ''consume()''])"
    by simp
qed

theorem produce_consume_fail_before_request_witness:
  "produce example_ortc example_router ''u1'' ''u2'' (Resolved \<lparr>ps_type = ''simple''\<rparr>)
     example_transport (example_producer_options\<lparr>po_id := Some ''p1''\<rparr>)
   = (Inl (TypeError (''a Producer with same id '' @ dq @ ''p1'' @ dq @ '' already exists'')),
      example_transport, [Log Debug ''produce()''])
   \<and> consume example_ortc example_router ''u3'' (Resolved example_consume_status)
     example_transport (example_consumer_options\<lparr>co_producerId := Some ''p2''\<rparr>)
   = (Inl (Error (''Producer with id '' @ dq @ ''p2'' @ dq @ '' not found'')),
      example_transport, [Log Debug ''consume()''])"
  using produce_consume_fail_before_request
    [of "example_producer_options\<lparr>po_id := Some ''p1''\<rparr>" "''p1''" example_transport
        example_ortc example_router "''u1''" "''u2''" "Resolved \<lparr>ps_type = ''simple''\<rparr>"
        "example_consumer_options\<lparr>co_producerId := Some ''p2''\<rparr>" "''p2''"
        "''u3''" "Resolved example_consume_status"]
  by (simp add: example_producer_options_def example_transport_def example_router_def
      example_consumer_options_def example_ortc_def)

subsection \<open>Encodings and CNAME in produce()\<close>

lemma produce_success_shape:
  assumes "produce oc rv u1 u2 r t opts = (Inr p, t', es)"
  shows "p_rtpParameters p = snd (assign_cname u1 t (normalize_encodings (po_rtpParameters opts)))
    \<and> t_cnameForProducers t' =
        t_cnameForProducers (fst (assign_cname u1 t (normalize_encodings (po_rtpParameters opts))))
    \<and> t_constructor_name t' = t_constructor_name t
    \<and> (\<exists>m. getProducerRtpParametersMapping oc (p_rtpParameters p) (getRouterRtpCapabilities rv)
               = Inr m
           \<and> getConsumableRtpParameters oc (po_kind opts) (p_rtpParameters p)
               (getRouterRtpCapabilities rv) m = Inr (p_consumableRtpParameters p))"
proof -
  obtain t1 rp2 where a:
    "assign_cname u1 t (normalize_encodings (po_rtpParameters opts)) = (t1, rp2)"
    by (cases "assign_cname u1 t (normalize_encodings (po_rtpParameters opts))")
  have n: "t_constructor_name t1 = t_constructor_name t"
    using a by (auto simp: assign_cname_def Let_def split: if_splits)
  show ?thesis
    using assms n
    by (auto simp: produce_def produce_prefix_def produce_continue_def new_producer_def a Let_def
        split: if_splits option.splits sum.splits response.splits)
qed

lemma assign_cname_first:
  "t_constructor_name t \<noteq> ''PipeTransport'' \<Longrightarrow> \<not> truthy (t_cnameForProducers t) \<Longrightarrow>
   t_cnameForProducers (fst (assign_cname u t rp)) =
     (if truthy (rtcp_cname rp) then rtcp_cname rp else Some (take 8 u))"
  by (simp add: assign_cname_def Let_def)

lemma assign_cname_later:
  "truthy (t_cnameForProducers t) \<Longrightarrow>
   t_cnameForProducers (fst (assign_cname u t rp)) = t_cnameForProducers t"
  by (simp add: assign_cname_def Let_def)

lemma assign_cname_overwrites:
  "t_constructor_name t \<noteq> ''PipeTransport'' \<Longrightarrow>
   rtcp_cname (snd (assign_cname u t rp)) = t_cnameForProducers (fst (assign_cname u t rp))"
  by (simp add: assign_cname_def Let_def rtcp_cname_def)

lemma assign_cname_pipe:
  "t_constructor_name t = ''PipeTransport'' \<Longrightarrow> assign_cname u t rp = (t, rp)"
  by (simp add: assign_cname_def)

lemma assign_cname_truthy:
  "t_constructor_name t \<noteq> ''PipeTransport'' \<Longrightarrow> u \<noteq> [] \<Longrightarrow>
   truthy (t_cnameForProducers (fst (assign_cname u t rp)))"
  by (auto simp: assign_cname_def Let_def truthy_def split: option.splits)

lemma normalize_encodings_rtcp [simp]: "rtcp (normalize_encodings rp) = rtcp rp"
  by (simp add: normalize_encodings_def split: encodings_value.splits)

lemma assign_cname_encodings [simp]: "encodings (snd (assign_cname u t rp)) = encodings rp"
  by (simp add: assign_cname_def Let_def)

lemma normalize_encodings_default:
  "encodings rp = EncodingsFalsy \<or> encodings rp = EncodingsNotArray
     \<or> encodings rp = EncodingsArray [] \<Longrightarrow>
   encodings (normalize_encodings rp) = EncodingsArray [[]]"
  by (auto simp: normalize_encodings_def)

lemma normalize_encodings_keeps:
  "encodings rp = EncodingsArray (e # es) \<Longrightarrow> normalize_encodings rp = rp"
  by (simp add: normalize_encodings_def)

text \<open>
  C7: when the \<open>encodings\<close> of the RTP parameters are missing (falsy), not an array
  or an empty array, the normalisation leaves exactly one encoding, the empty object.
  A Producer that \<open>produce()\<close> creates from such parameters carries them with that
  single encoding, and its consumable parameters are what the negotiation
  (\<open>getProducerRtpParametersMapping\<close>, then \<open>getConsumableRtpParameters\<close>) derives
  from the normalised parameters.  Given that the derivation yields one consumable
  encoding for each encoding, the consumable parameters hold exactly one.
\<close>

theorem produce_normalizes_encodings:
  "(encodings rp = EncodingsFalsy \<or> encodings rp = EncodingsNotArray
      \<or> encodings rp = EncodingsArray [] \<longrightarrow>
      encodings (normalize_encodings rp) = EncodingsArray [[]])
   \<and> (produce oc rv u1 u2 r t opts = (Inr p, t', es)
        \<and> (encodings (po_rtpParameters opts) = EncodingsFalsy
             \<or> encodings (po_rtpParameters opts) = EncodingsNotArray
             \<or> encodings (po_rtpParameters opts) = EncodingsArray [])
        \<longrightarrow>
        encodings (p_rtpParameters p) = EncodingsArray [[]]
        \<and> (\<exists>m. getProducerRtpParametersMapping oc (p_rtpParameters p)
                  (getRouterRtpCapabilities rv) = Inr m
              \<and> getConsumableRtpParameters oc (po_kind opts) (p_rtpParameters p)
                  (getRouterRtpCapabilities rv) m = Inr (p_consumableRtpParameters p))
        \<and> (one_consumable_encoding_each oc \<longrightarrow>
             (\<exists>e. encodings (p_consumableRtpParameters p) = EncodingsArray [e])))"
proof (intro conjI impI)
  assume "encodings rp = EncodingsFalsy \<or> encodings rp = EncodingsNotArray
      \<or> encodings rp = EncodingsArray []"
  then show "encodings (normalize_encodings rp) = EncodingsArray [[]]"
    by (rule normalize_encodings_default)
next
  assume a: "produce oc rv u1 u2 r t opts = (Inr p, t', es)
        \<and> (encodings (po_rtpParameters opts) = EncodingsFalsy
             \<or> encodings (po_rtpParameters opts) = EncodingsNotArray
             \<or> encodings (po_rtpParameters opts) = EncodingsArray [])"
  from a produce_success_shape [of oc rv u1 u2 r t opts p t' es]
  have sh: "p_rtpParameters p =
      snd (assign_cname u1 t (normalize_encodings (po_rtpParameters opts)))"
    by blast
  from a have "encodings (normalize_encodings (po_rtpParameters opts)) = EncodingsArray [[]]"
    using normalize_encodings_default by blast
  with sh show e: "encodings (p_rtpParameters p) = EncodingsArray [[]]" by simp
  from a produce_success_shape [of oc rv u1 u2 r t opts p t' es]
  show n: "\<exists>m. getProducerRtpParametersMapping oc (p_rtpParameters p)
                  (getRouterRtpCapabilities rv) = Inr m
              \<and> getConsumableRtpParameters oc (po_kind opts) (p_rtpParameters p)
                  (getRouterRtpCapabilities rv) m = Inr (p_consumableRtpParameters p)"
    by blast
  assume o: "one_consumable_encoding_each oc"
  from n obtain m where
    g: "getConsumableRtpParameters oc (po_kind opts) (p_rtpParameters p)
          (getRouterRtpCapabilities rv) m = Inr (p_consumableRtpParameters p)"
    by blast
  from o g e obtain es' where
    l: "encodings (p_consumableRtpParameters p) = EncodingsArray es'" "length es' = length [[]::rtp_encoding]"
    unfolding one_consumable_encoding_each_def by blast
  from l(2) obtain e' where "es' = [e']" by (cases es') auto
  with l(1) show "\<exists>e. encodings (p_consumableRtpParameters p) = EncodingsArray [e]" by blast
qed

lemma example_first_produce:
  "produce example_ortc example_router ''u1'' ''u2'' (Resolved \<lparr>ps_type = ''simple''\<rparr>)
     (fresh_transport ''WebRtcTransport'') example_producer_options =
   (Inr example_produced, example_after_produce,
    [Log Debug ''produce()'',
     ChannelRequest ''transport.produce'' (Some ''t1'')
       (ProduceData \<lparr>prq_producerId = ''u2'', prq_kind = ''video'',
                      prq_rtpParameters = example_produced_rtpParameters,
                      prq_rtpMapping = RtpMapping [], prq_keyFrameRequestDelay = None,
                      prq_paused = False\<rparr>),
     Emit ''@newproducer'' (Some ''u2''),
     ObserverSafeEmit ''newproducer'' (Some ''u2'')])"
  by (simp add: produce_def produce_prefix_def produce_continue_def new_producer_def
      has_given_id_def normalize_encodings_def assign_cname_def truthy_def rtcp_cname_def
      id_or_def example_ortc_def example_router_def example_producer_options_def
      fresh_transport_def example_produced_def example_produced_rtpParameters_def
      example_after_produce_def Let_def)

theorem produce_normalizes_encodings_witness:
  "encodings (po_rtpParameters example_producer_options) = EncodingsFalsy
   \<and> one_consumable_encoding_each example_ortc
   \<and> fst (produce example_ortc example_router ''u1'' ''u2'' (Resolved \<lparr>ps_type = ''simple''\<rparr>)
            (fresh_transport ''WebRtcTransport'') example_producer_options) = Inr example_produced
   \<and> encodings (p_rtpParameters example_produced) = EncodingsArray [[]]
   \<and> (\<exists>e. encodings (p_consumableRtpParameters example_produced) = EncodingsArray [e])"
proof -
  have e: "encodings (po_rtpParameters example_producer_options) = EncodingsFalsy"
    by (simp add: example_producer_options_def)
  have o: "one_consumable_encoding_each example_ortc"
    by (simp add: one_consumable_encoding_each_def example_ortc_def)
  from produce_normalizes_encodings
    [where oc = example_ortc and rv = example_router and ?u1.0 = "''u1''" and ?u2.0 = "''u2''"
       and r = "Resolved \<lparr>ps_type = ''simple''\<rparr>" and t = "fresh_transport ''WebRtcTransport''"
       and opts = example_producer_options and p = example_produced
       and t' = example_after_produce]
    example_first_produce e o
  have "encodings (p_rtpParameters example_produced) = EncodingsArray [[]]
      \<and> (\<exists>e. encodings (p_consumableRtpParameters example_produced) = EncodingsArray [e])"
    by blast
  with e o example_first_produce show ?thesis by simp
qed

text \<open>
  C5: on a Transport that is not a PipeTransport, a \<open>produce()\<close> that finds no CNAME
  for Producers yet fixes it: the producer's \<open>rtcp.cname\<close> when that is a non-empty
  string, otherwise the first eight characters of a fresh UUID; a \<open>produce()\<close> that
  finds one keeps it.  Every such call writes the transport's CNAME into the producer's
  \<open>rtcp.cname\<close>, whatever the caller supplied, so two Producers created on the
  Transport carry the same CNAME.  On a PipeTransport the producer's RTCP parameters and
  the transport's CNAME are left as they are.
\<close>

theorem produce_fixes_cname:
  "(t_constructor_name t \<noteq> ''PipeTransport'' \<longrightarrow>
      (\<not> truthy (t_cnameForProducers t) \<longrightarrow>
         t_cnameForProducers (fst (assign_cname u t rp)) =
           (if truthy (rtcp_cname rp) then rtcp_cname rp else Some (take 8 u)))
      \<and> (truthy (t_cnameForProducers t) \<longrightarrow>
           t_cnameForProducers (fst (assign_cname u t rp)) = t_cnameForProducers t)
      \<and> rtcp_cname (snd (assign_cname u t rp)) = t_cnameForProducers (fst (assign_cname u t rp)))
   \<and> (t_constructor_name t = ''PipeTransport'' \<longrightarrow> assign_cname u t rp = (t, rp))
   \<and> (produce oc rv u1 u2 r t opts = (Inr p, t', es) \<longrightarrow>
        p_rtpParameters p = snd (assign_cname u1 t (normalize_encodings (po_rtpParameters opts)))
        \<and> t_cnameForProducers t' =
            t_cnameForProducers (fst (assign_cname u1 t (normalize_encodings (po_rtpParameters opts))))
        \<and> (t_constructor_name t \<noteq> ''PipeTransport'' \<longrightarrow>
             rtcp_cname (p_rtpParameters p) = t_cnameForProducers t')
        \<and> (t_constructor_name t = ''PipeTransport'' \<longrightarrow>
             rtcp (p_rtpParameters p) = rtcp (po_rtpParameters opts)
             \<and> t_cnameForProducers t' = t_cnameForProducers t))
   \<and> (t_constructor_name t \<noteq> ''PipeTransport'' \<and> u1 \<noteq> []
        \<and> produce oc rv u1 u2 r t opts = (Inr p, t', es)
        \<and> t_constructor_name t2 = t_constructor_name t
        \<and> t_cnameForProducers t2 = t_cnameForProducers t'
        \<and> produce oc2 rv2 v1 v2 r2 t2 opts2 = (Inr p2, t2', es2)
        \<longrightarrow> truthy (rtcp_cname (p_rtpParameters p))
            \<and> rtcp_cname (p_rtpParameters p2) = rtcp_cname (p_rtpParameters p)
            \<and> t_cnameForProducers t2' = t_cnameForProducers t')"
proof -
  have a: "t_constructor_name t \<noteq> ''PipeTransport'' \<longrightarrow>
      (\<not> truthy (t_cnameForProducers t) \<longrightarrow>
         t_cnameForProducers (fst (assign_cname u t rp)) =
           (if truthy (rtcp_cname rp) then rtcp_cname rp else Some (take 8 u)))
      \<and> (truthy (t_cnameForProducers t) \<longrightarrow>
           t_cnameForProducers (fst (assign_cname u t rp)) = t_cnameForProducers t)
      \<and> rtcp_cname (snd (assign_cname u t rp)) = t_cnameForProducers (fst (assign_cname u t rp))"
    using assign_cname_first [of t u rp] assign_cname_later [of t u rp]
      assign_cname_overwrites [of t u rp]
    by blast
  have b: "t_constructor_name t = ''PipeTransport'' \<longrightarrow> assign_cname u t rp = (t, rp)"
    using assign_cname_pipe by blast
  have c: "produce oc rv u1 u2 r t opts = (Inr p, t', es) \<longrightarrow>
        p_rtpParameters p = snd (assign_cname u1 t (normalize_encodings (po_rtpParameters opts)))
        \<and> t_cnameForProducers t' =
            t_cnameForProducers (fst (assign_cname u1 t (normalize_encodings (po_rtpParameters opts))))
        \<and> (t_constructor_name t \<noteq> ''PipeTransport'' \<longrightarrow>
             rtcp_cname (p_rtpParameters p) = t_cnameForProducers t')
        \<and> (t_constructor_name t = ''PipeTransport'' \<longrightarrow>
             rtcp (p_rtpParameters p) = rtcp (po_rtpParameters opts)
             \<and> t_cnameForProducers t' = t_cnameForProducers t)"
  proof
    assume h: "produce oc rv u1 u2 r t opts = (Inr p, t', es)"
    note sh = produce_success_shape [OF h]
    from sh have s1: "p_rtpParameters p =
        snd (assign_cname u1 t (normalize_encodings (po_rtpParameters opts)))" by blast
    from sh have s2: "t_cnameForProducers t' =
        t_cnameForProducers (fst (assign_cname u1 t (normalize_encodings (po_rtpParameters opts))))"
      by blast
    have s3: "t_constructor_name t \<noteq> ''PipeTransport'' \<longrightarrow>
             rtcp_cname (p_rtpParameters p) = t_cnameForProducers t'"
      by (simp add: s1 s2 assign_cname_overwrites)
    have s4: "t_constructor_name t = ''PipeTransport'' \<longrightarrow>
             rtcp (p_rtpParameters p) = rtcp (po_rtpParameters opts)
             \<and> t_cnameForProducers t' = t_cnameForProducers t"
      using s1 s2 by (simp add: assign_cname_pipe)
    from s1 s2 s3 s4 show "p_rtpParameters p =
          snd (assign_cname u1 t (normalize_encodings (po_rtpParameters opts)))
        \<and> t_cnameForProducers t' =
            t_cnameForProducers (fst (assign_cname u1 t (normalize_encodings (po_rtpParameters opts))))
        \<and> (t_constructor_name t \<noteq> ''PipeTransport'' \<longrightarrow>
             rtcp_cname (p_rtpParameters p) = t_cnameForProducers t')
        \<and> (t_constructor_name t = ''PipeTransport'' \<longrightarrow>
             rtcp (p_rtpParameters p) = rtcp (po_rtpParameters opts)
             \<and> t_cnameForProducers t' = t_cnameForProducers t)"
      by blast
  qed
  have d: "t_constructor_name t \<noteq> ''PipeTransport'' \<and> u1 \<noteq> []
        \<and> produce oc rv u1 u2 r t opts = (Inr p, t', es)
        \<and> t_constructor_name t2 = t_constructor_name t
        \<and> t_cnameForProducers t2 = t_cnameForProducers t'
        \<and> produce oc2 rv2 v1 v2 r2 t2 opts2 = (Inr p2, t2', es2)
        \<longrightarrow> truthy (rtcp_cname (p_rtpParameters p))
            \<and> rtcp_cname (p_rtpParameters p2) = rtcp_cname (p_rtpParameters p)
            \<and> t_cnameForProducers t2' = t_cnameForProducers t'"
  proof
    assume h: "t_constructor_name t \<noteq> ''PipeTransport'' \<and> u1 \<noteq> []
        \<and> produce oc rv u1 u2 r t opts = (Inr p, t', es)
        \<and> t_constructor_name t2 = t_constructor_name t
        \<and> t_cnameForProducers t2 = t_cnameForProducers t'
        \<and> produce oc2 rv2 v1 v2 r2 t2 opts2 = (Inr p2, t2', es2)"
    then have h1: "produce oc rv u1 u2 r t opts = (Inr p, t', es)"
      and h2: "produce oc2 rv2 v1 v2 r2 t2 opts2 = (Inr p2, t2', es2)"
      and np: "t_constructor_name t \<noteq> ''PipeTransport''"
      and np2: "t_constructor_name t2 \<noteq> ''PipeTransport''"
      and u: "u1 \<noteq> []"
      and eq: "t_cnameForProducers t2 = t_cnameForProducers t'"
      by simp_all
    note sh1 = produce_success_shape [OF h1]
    note sh2 = produce_success_shape [OF h2]
    have c1: "t_cnameForProducers t' =
        t_cnameForProducers (fst (assign_cname u1 t (normalize_encodings (po_rtpParameters opts))))"
      using sh1 by blast
    have tr: "truthy (t_cnameForProducers t')"
      unfolding c1 using np u by (rule assign_cname_truthy)
    have p1: "rtcp_cname (p_rtpParameters p) = t_cnameForProducers t'"
      using sh1 np by (simp add: assign_cname_overwrites)
    have tr2: "truthy (t_cnameForProducers t2)" using tr eq by simp
    have c2: "t_cnameForProducers t2' = t_cnameForProducers t2"
      using sh2 by (simp add: assign_cname_later [OF tr2])
    have p2: "rtcp_cname (p_rtpParameters p2) = t_cnameForProducers t2'"
      using sh2 np2 by (simp add: assign_cname_overwrites)
    from tr p1 c2 p2 eq
    show "truthy (rtcp_cname (p_rtpParameters p))
            \<and> rtcp_cname (p_rtpParameters p2) = rtcp_cname (p_rtpParameters p)
            \<and> t_cnameForProducers t2' = t_cnameForProducers t'"
      by simp
  qed
  show ?thesis by (intro conjI a b c d)
qed

theorem produce_fixes_cname_witness:
  "t_constructor_name (fresh_transport ''WebRtcTransport'') \<noteq> ''PipeTransport''
   \<and> fst (produce example_ortc example_router ''u1'' ''u2'' (Resolved \<lparr>ps_type = ''simple''\<rparr>)
            (fresh_transport ''WebRtcTransport'') example_producer_options) = Inr example_produced
   \<and> rtcp_cname (p_rtpParameters example_produced) = Some ''other''
   \<and> map_sum id (\<lambda>p. rtcp_cname (p_rtpParameters p))
       (fst (produce example_ortc example_router ''u3'' ''u4'' (Resolved \<lparr>ps_type = ''simple''\<rparr>)
               example_after_produce
               (example_producer_options
                  \<lparr>po_rtpParameters := example_rtpParameters\<rparr>))) = Inr (Some ''other'')
   \<and> rtcp_cname example_rtpParameters = Some ''cn-1''"
proof -
  let ?second = "produce example_ortc example_router ''u3'' ''u4''
      (Resolved \<lparr>ps_type = ''simple''\<rparr>) example_after_produce
      (example_producer_options\<lparr>po_rtpParameters := example_rtpParameters\<rparr>)"
  have n: "t_constructor_name (fresh_transport ''WebRtcTransport'') \<noteq> ''PipeTransport''"
    by (simp add: fresh_transport_def)
  have k: "t_constructor_name example_after_produce =
      t_constructor_name (fresh_transport ''WebRtcTransport'')"
    by (simp add: example_after_produce_def)
  have c: "rtcp_cname (p_rtpParameters example_produced) = Some ''other''"
    "rtcp_cname example_rtpParameters = Some ''cn-1''"
    by (simp_all add: example_produced_def example_produced_rtpParameters_def rtcp_cname_def
        example_rtpParameters_def)
  define p2 where "p2 =
     \<lparr>p_producerId = ''u4'', p_closed = False, p_kind = ''video'',
      p_rtpParameters =
        example_rtpParameters\<lparr>rtcp := Some \<lparr>cname = Some ''other'', reducedSize = None\<rparr>\<rparr>,
      p_type = ''simple'',
      p_consumableRtpParameters =
        example_rtpParameters\<lparr>rtcp := Some \<lparr>cname = Some ''other'', reducedSize = None\<rparr>\<rparr>,
      p_paused = False, p_appData = AppDataObject\<rparr>"
  have f: "fst ?second = Inr p2"
    by (simp add: produce_def produce_prefix_def produce_continue_def new_producer_def
        has_given_id_def normalize_encodings_def assign_cname_def truthy_def rtcp_cname_def
        id_or_def example_ortc_def example_router_def example_producer_options_def
        fresh_transport_def example_after_produce_def example_rtpParameters_def p2_def Let_def)
  then have s: "?second = (Inr p2, fst (snd ?second), snd (snd ?second))"
    by (simp add: prod_eq_iff)
  from produce_fixes_cname
    [where t = "fresh_transport ''WebRtcTransport''" and oc = example_ortc
       and rv = example_router and ?u1.0 = "''u1''" and ?u2.0 = "''u2''"
       and r = "Resolved \<lparr>ps_type = ''simple''\<rparr>" and opts = example_producer_options
       and p = example_produced and t' = example_after_produce
       and ?t2.0 = example_after_produce and ?p2.0 = p2
       and ?oc2.0 = example_ortc and ?rv2.0 = example_router and ?v1.0 = "''u3''"
       and ?v2.0 = "''u4''" and ?r2.0 = "Resolved \<lparr>ps_type = ''simple''\<rparr>"
       and ?opts2.0 = "example_producer_options\<lparr>po_rtpParameters := example_rtpParameters\<rparr>"
       and ?t2' = "fst (snd ?second)" and ?es2.0 = "snd (snd ?second)"]
    n k example_first_produce s
  have "rtcp_cname (p_rtpParameters p2) = rtcp_cname (p_rtpParameters example_produced)"
    by simp
  with f c n example_first_produce show ?thesis by simp
qed

subsection \<open>MID allocation\<close>

lemma digit_value_digit_char: "d < 10 \<Longrightarrow> digit_value (digit_char d) = d"
proof -
  assume "d < 10"
  then have "d \<in> {0, 1, 2, 3, 4, 5, 6, 7, 8, 9}" by auto
  then show ?thesis
    by (auto simp: digit_value_def digit_char_def)
qed

lemma nat_of_string_snoc: "nat_of_string (s @ [c]) = 10 * nat_of_string s + digit_value c"
  by (simp add: nat_of_string_def)

lemma nat_of_string_of_nat: "nat_of_string (string_of_nat n) = n"
proof (induction n rule: string_of_nat.induct)
  case (1 n)
  show ?case
  proof (cases "n < 10")
    case True
    then show ?thesis
      by (simp add: string_of_nat_digit nat_of_string_def digit_value_digit_char)
  next
    case False
    then have "nat_of_string (string_of_nat (n div 10)) = n div 10" using 1 by simp
    with False show ?thesis
      by (simp add: string_of_nat_step nat_of_string_snoc digit_value_digit_char)
  qed
qed

lemma assign_mid_given:
  "given_mid m = Some s \<Longrightarrow> assign_mid False m t rp = (t, rp\<lparr>mid := Some s\<rparr>, [])"
  by (simp add: assign_mid_def)

lemma assign_mid_counter:
  "given_mid m = None \<Longrightarrow>
   assign_mid False m t rp =
     (t\<lparr>t_nextMidForConsumers :=
          (if t_nextMidForConsumers t + 1 = 100000000 then 0 else t_nextMidForConsumers t + 1)\<rparr>,
      rp\<lparr>mid := Some (string_of_nat (t_nextMidForConsumers t))\<rparr>,
      (if t_nextMidForConsumers t + 1 = 100000000
       then [Log Err (''consume() | reaching max MID value '' @ dq
                      @ string_of_nat (t_nextMidForConsumers t + 1) @ dq)]
       else []))"
  by (simp add: assign_mid_def Let_def)

lemma assign_mid_pipe: "assign_mid True m t rp = (t, rp, [])"
  by (simp add: assign_mid_def)

lemma consume_resolved:
  assumes "co_producerId copts = Some pid" and "pid \<noteq> []"
    and "co_appData copts \<noteq> AppDataOther" and "co_mid copts \<noteq> MidOther"
    and "validateRtpCapabilities oc (co_rtpCapabilities copts) = None"
    and "getProducerById rv pid = Some producer"
    and "getConsumerRtpParameters oc (p_consumableRtpParameters producer)
           (co_rtpCapabilities copts) (co_pipe copts)
           (case co_enableRtx copts of None \<Rightarrow> p_kind producer = ''video'' | Some b \<Rightarrow> b) = Inr rp"
  shows "\<exists>c es. consume oc rv u (Resolved st) t copts =
           (Inr c,
            (fst (assign_mid (co_pipe copts) (co_mid copts) t rp))
              \<lparr>t_consumers := AList.update u c (t_consumers t)\<rparr>,
            es)
         \<and> c_consumerId c = u
         \<and> c_rtpParameters c = fst (snd (assign_mid (co_pipe copts) (co_mid copts) t rp))
         \<and> filter is_log es =
             Log Debug ''consume()'' # snd (snd (assign_mid (co_pipe copts) (co_mid copts) t rp))"
proof -
  have l: "filter is_log (snd (snd (assign_mid (co_pipe copts) (co_mid copts) t rp))) =
      snd (snd (assign_mid (co_pipe copts) (co_mid copts) t rp))"
    by (simp add: assign_mid_def Let_def split: option.splits)
  have k: "t_consumers (fst (assign_mid (co_pipe copts) (co_mid copts) t rp)) = t_consumers t"
    by (simp add: assign_mid_def Let_def split: option.splits)
  show ?thesis
    using assms
    by (simp add: consume_def consume_prefix_def consume_continue_def new_consumer_def
        truthy_def id_or_def Let_def case_prod_beta l k)
qed

lemma given_mid_cases:
  "given_mid (MidString (c # s)) = Some (c # s)"
  "given_mid (MidString []) = None"
  "given_mid MidMissing = None"
  by (simp_all add: given_mid_def)

text \<open>
  C6: a \<open>consume()\<close> that gets past its checks and the negotiation builds the
  Consumer from the RTP parameters that the MID block leaves.  For a non-pipe Consumer
  the block assigns the caller's mid when it is a non-empty string, and otherwise the
  decimal string of the transport's counter, which it then increments; when the
  increment reaches 100000000 it logs (through \<open>logger.error\<close>) and sets the counter
  to 0.  So the next MID issued by the counter is the next integer, and after
  "99999999" it is "0".  For a pipe Consumer the block does nothing.
\<close>

theorem consume_assigns_mid:
  "(co_producerId copts = Some pid \<and> pid \<noteq> [] \<and> co_appData copts \<noteq> AppDataOther
      \<and> co_mid copts \<noteq> MidOther
      \<and> validateRtpCapabilities oc (co_rtpCapabilities copts) = None
      \<and> getProducerById rv pid = Some producer
      \<and> getConsumerRtpParameters oc (p_consumableRtpParameters producer)
           (co_rtpCapabilities copts) (co_pipe copts)
           (case co_enableRtx copts of None \<Rightarrow> p_kind producer = ''video'' | Some b \<Rightarrow> b) = Inr rp
      \<longrightarrow>
      (\<exists>c es. consume oc rv u (Resolved st) t copts =
           (Inr c,
            (fst (assign_mid (co_pipe copts) (co_mid copts) t rp))
              \<lparr>t_consumers := AList.update u c (t_consumers t)\<rparr>,
            es)
         \<and> c_consumerId c = u
         \<and> c_rtpParameters c = fst (snd (assign_mid (co_pipe copts) (co_mid copts) t rp))
         \<and> filter is_log es =
             Log Debug ''consume()'' # snd (snd (assign_mid (co_pipe copts) (co_mid copts) t rp))))
   \<and> given_mid (MidString (ch # s)) = Some (ch # s)
   \<and> given_mid (MidString []) = None
   \<and> given_mid MidMissing = None
   \<and> (given_mid m = Some s' \<longrightarrow> assign_mid False m t rp = (t, rp\<lparr>mid := Some s'\<rparr>, []))
   \<and> (given_mid m = None \<longrightarrow>
        assign_mid False m t rp =
          (t\<lparr>t_nextMidForConsumers :=
               (if t_nextMidForConsumers t + 1 = 100000000 then 0
                else t_nextMidForConsumers t + 1)\<rparr>,
           rp\<lparr>mid := Some (string_of_nat (t_nextMidForConsumers t))\<rparr>,
           (if t_nextMidForConsumers t + 1 = 100000000
            then [Log Err (''consume() | reaching max MID value '' @ dq
                           @ string_of_nat (t_nextMidForConsumers t + 1) @ dq)]
            else [])))
   \<and> assign_mid True m t rp = (t, rp, [])
   \<and> nat_of_string (string_of_nat n) = n
   \<and> (given_mid m = None \<and> given_mid m' = None
        \<and> t_nextMidForConsumers t' = t_nextMidForConsumers (fst (assign_mid False m t rp))
        \<and> t_nextMidForConsumers t + 1 \<noteq> 100000000
        \<longrightarrow> mid (fst (snd (assign_mid False m' t' rp'))) =
              Some (string_of_nat (t_nextMidForConsumers t + 1)))
   \<and> (given_mid m = None \<and> given_mid m' = None
        \<and> t_nextMidForConsumers t' = t_nextMidForConsumers (fst (assign_mid False m t rp))
        \<and> t_nextMidForConsumers t + 1 = 100000000
        \<longrightarrow> mid (fst (snd (assign_mid False m t rp))) = Some ''99999999''
            \<and> mid (fst (snd (assign_mid False m' t' rp'))) = Some ''0'')"
proof -
  have a: "co_producerId copts = Some pid \<and> pid \<noteq> [] \<and> co_appData copts \<noteq> AppDataOther
      \<and> co_mid copts \<noteq> MidOther
      \<and> validateRtpCapabilities oc (co_rtpCapabilities copts) = None
      \<and> getProducerById rv pid = Some producer
      \<and> getConsumerRtpParameters oc (p_consumableRtpParameters producer)
           (co_rtpCapabilities copts) (co_pipe copts)
           (case co_enableRtx copts of None \<Rightarrow> p_kind producer = ''video'' | Some b \<Rightarrow> b) = Inr rp
      \<longrightarrow>
      (\<exists>c es. consume oc rv u (Resolved st) t copts =
           (Inr c,
            (fst (assign_mid (co_pipe copts) (co_mid copts) t rp))
              \<lparr>t_consumers := AList.update u c (t_consumers t)\<rparr>,
            es)
         \<and> c_consumerId c = u
         \<and> c_rtpParameters c = fst (snd (assign_mid (co_pipe copts) (co_mid copts) t rp))
         \<and> filter is_log es =
             Log Debug ''consume()'' # snd (snd (assign_mid (co_pipe copts) (co_mid copts) t rp)))"
    using consume_resolved [of copts pid oc rv producer rp u st t] by blast
  have b: "given_mid m = Some s' \<longrightarrow> assign_mid False m t rp = (t, rp\<lparr>mid := Some s'\<rparr>, [])"
    by (simp add: assign_mid_given)
  have c: "given_mid m = None \<longrightarrow>
        assign_mid False m t rp =
          (t\<lparr>t_nextMidForConsumers :=
               (if t_nextMidForConsumers t + 1 = 100000000 then 0
                else t_nextMidForConsumers t + 1)\<rparr>,
           rp\<lparr>mid := Some (string_of_nat (t_nextMidForConsumers t))\<rparr>,
           (if t_nextMidForConsumers t + 1 = 100000000
            then [Log Err (''consume() | reaching max MID value '' @ dq
                           @ string_of_nat (t_nextMidForConsumers t + 1) @ dq)]
            else []))"
    using assign_mid_counter [of m t rp] by blast
  have d: "given_mid m = None \<and> given_mid m' = None
        \<and> t_nextMidForConsumers t' = t_nextMidForConsumers (fst (assign_mid False m t rp))
        \<and> t_nextMidForConsumers t + 1 \<noteq> 100000000
        \<longrightarrow> mid (fst (snd (assign_mid False m' t' rp'))) =
              Some (string_of_nat (t_nextMidForConsumers t + 1))"
    by (simp add: assign_mid_counter)
  have s9: "string_of_nat 99999999 = ''99999999''" "string_of_nat 0 = ''0''"
    by (simp_all add: string_of_nat_step string_of_nat_digit digit_char_def)
  have e: "given_mid m = None \<and> given_mid m' = None
        \<and> t_nextMidForConsumers t' = t_nextMidForConsumers (fst (assign_mid False m t rp))
        \<and> t_nextMidForConsumers t + 1 = 100000000
        \<longrightarrow> mid (fst (snd (assign_mid False m t rp))) = Some ''99999999''
            \<and> mid (fst (snd (assign_mid False m' t' rp'))) = Some ''0''"
  proof
    assume h: "given_mid m = None \<and> given_mid m' = None
        \<and> t_nextMidForConsumers t' = t_nextMidForConsumers (fst (assign_mid False m t rp))
        \<and> t_nextMidForConsumers t + 1 = 100000000"
    then have n: "t_nextMidForConsumers t = 99999999" by simp
    from h have n': "t_nextMidForConsumers t' = 0" by (simp add: assign_mid_counter)
    from h n n' show "mid (fst (snd (assign_mid False m t rp))) = Some ''99999999''
            \<and> mid (fst (snd (assign_mid False m' t' rp'))) = Some ''0''"
      by (simp add: assign_mid_counter s9)
  qed
  show ?thesis
    by (intro conjI a given_mid_cases b c assign_mid_pipe nat_of_string_of_nat d e)
qed

theorem consume_assigns_mid_witness:
  "map_sum id (\<lambda>c. mid (c_rtpParameters c))
     (fst (consume example_ortc example_router ''c2'' (Resolved example_consume_status)
             example_transport example_consumer_options)) = Inr (Some ''1'')
   \<and> t_nextMidForConsumers
       (fst (snd (consume example_ortc example_router ''c2'' (Resolved example_consume_status)
                    example_transport example_consumer_options))) = 2
   \<and> assign_mid False MidMissing (example_transport\<lparr>t_nextMidForConsumers := 99999999\<rparr>)
       example_rtpParameters =
       (example_transport\<lparr>t_nextMidForConsumers := 0\<rparr>,
        example_rtpParameters\<lparr>mid := Some ''99999999''\<rparr>,
        [Log Err (''consume() | reaching max MID value '' @ dq @ ''100000000'' @ dq)])"
proof -
  have s: "string_of_nat (Suc 0) = ''1''" "string_of_nat 99999999 = ''99999999''"
    "string_of_nat 100000000 = ''100000000''"
    by (simp_all add: string_of_nat_step string_of_nat_digit digit_char_def)
  have g: "given_mid MidMissing = None" by (simp add: given_mid_def)
  have h: "co_producerId example_consumer_options = Some ''p1'' \<and> ''p1'' \<noteq> []
      \<and> co_appData example_consumer_options \<noteq> AppDataOther
      \<and> co_mid example_consumer_options \<noteq> MidOther
      \<and> validateRtpCapabilities example_ortc (co_rtpCapabilities example_consumer_options) = None
      \<and> getProducerById example_router ''p1'' = Some example_producer
      \<and> getConsumerRtpParameters example_ortc (p_consumableRtpParameters example_producer)
           (co_rtpCapabilities example_consumer_options) (co_pipe example_consumer_options)
           (case co_enableRtx example_consumer_options of
              None \<Rightarrow> p_kind example_producer = ''video'' | Some b \<Rightarrow> b)
          = Inr (example_rtpParameters\<lparr>mid := None\<rparr>)"
    by (simp add: example_consumer_options_def example_ortc_def example_router_def
        example_producer_def)
  have m: "co_pipe example_consumer_options = False" "co_mid example_consumer_options = MidMissing"
    by (simp_all add: example_consumer_options_def)
  have n: "t_nextMidForConsumers example_transport = Suc 0"
    by (simp add: example_transport_def)
  from h consume_assigns_mid
      [where copts = example_consumer_options and pid = "''p1''" and oc = example_ortc
         and rv = example_router and producer = example_producer
         and rp = "example_rtpParameters\<lparr>mid := None\<rparr>" and u = "''c2''"
         and st = example_consume_status and t = example_transport]
  obtain c es where r:
    "consume example_ortc example_router ''c2'' (Resolved example_consume_status)
       example_transport example_consumer_options =
     (Inr c,
      (fst (assign_mid False MidMissing example_transport (example_rtpParameters\<lparr>mid := None\<rparr>)))
         \<lparr>t_consumers := AList.update ''c2'' c (t_consumers example_transport)\<rparr>,
      es)"
    "c_rtpParameters c =
       fst (snd (assign_mid False MidMissing example_transport
                   (example_rtpParameters\<lparr>mid := None\<rparr>)))"
    unfolding m by blast
  have a: "assign_mid False MidMissing example_transport (example_rtpParameters\<lparr>mid := None\<rparr>) =
     (example_transport\<lparr>t_nextMidForConsumers := 2\<rparr>,
      example_rtpParameters\<lparr>mid := Some ''1''\<rparr>, [])"
    by (simp add: assign_mid_counter [OF g] n s)
  have w: "assign_mid False MidMissing (example_transport\<lparr>t_nextMidForConsumers := 99999999\<rparr>)
       example_rtpParameters =
       (example_transport\<lparr>t_nextMidForConsumers := 0\<rparr>,
        example_rtpParameters\<lparr>mid := Some ''99999999''\<rparr>,
        [Log Err (''consume() | reaching max MID value '' @ dq @ ''100000000'' @ dq)])"
    by (simp add: assign_mid_counter [OF g] s)
  show ?thesis
    by (simp add: r a w)
qed

subsection \<open>The allocator of SCTP stream ids\<close>

lemma scan_from:
  "idx \<le> length ids \<Longrightarrow>
   scan_sctpStreamIds ids nxt idx =
     find (\<lambda>i. ids ! i = 0) (map (\<lambda>k. (nxt + k) mod length ids) [idx..<length ids])"
proof (induction ids nxt idx rule: scan_sctpStreamIds.induct)
  case (1 ids nxt idx)
  show ?case
  proof (cases "idx < length ids")
    case True
    then have u: "[idx..<length ids] = idx # [idx + 1..<length ids]"
      by (simp add: upt_conv_Cons)
    show ?thesis
    proof (cases "ids ! ((nxt + idx) mod length ids) = 0")
      case z: True
      with True u show ?thesis
        by (simp add: scan_sctpStreamIds.simps [of ids nxt idx])
    next
      case nz: False
      from True have "idx + 1 \<le> length ids" by simp
      with 1 True nz have
        "scan_sctpStreamIds ids nxt (idx + 1) =
           find (\<lambda>i. ids ! i = 0) (map (\<lambda>k. (nxt + k) mod length ids) [idx + 1..<length ids])"
        by simp
      with True nz u show ?thesis
        by (simp add: scan_sctpStreamIds.simps [of ids nxt idx])
    qed
  next
    case False
    then have "scan_sctpStreamIds ids nxt idx = None"
      by (simp add: scan_sctpStreamIds.simps [of ids nxt idx])
    with False show ?thesis by simp
  qed
qed

lemma scan_is_first_free: "scan_sctpStreamIds ids nxt 0 = first_free ids nxt"
  by (simp add: scan_from first_free_def scan_order_def)

lemma scan_order_set: "set (scan_order n nxt) = {i. i < n}"
proof (cases "n = 0")
  case True
  then show ?thesis by (simp add: scan_order_def)
next
  case False
  then have n: "0 < n" by simp
  show ?thesis
  proof (intro set_eqI iffI)
    fix i assume "i \<in> set (scan_order n nxt)"
    then show "i \<in> {i. i < n}" using n by (auto simp: scan_order_def)
  next
    fix i assume "i \<in> {i. i < n}"
    then have i: "i < n" by simp
    define k where "k = (i + (n - nxt mod n)) mod n"
    have kn: "k < n" using n by (simp add: k_def)
    have m: "nxt mod n < n" using n by simp
    have "(nxt + k) mod n = (nxt mod n + (i + (n - nxt mod n))) mod n"
      unfolding k_def by (metis mod_add_eq mod_mod_trivial)
    also have "nxt mod n + (i + (n - nxt mod n)) = i + n" using m by simp
    also have "(i + n) mod n = i" using i by simp
    finally have "(nxt + k) mod n = i" .
    with kn show "i \<in> set (scan_order n nxt)"
      by (auto simp: scan_order_def image_iff intro!: bexI [of _ k])
  qed
qed

lemma first_free_None: "first_free ids nxt = None \<longleftrightarrow> (\<forall>i<length ids. ids ! i \<noteq> 0)"
  by (auto simp: first_free_def find_None_iff scan_order_set)

lemma first_free_Some:
  "first_free ids nxt = Some i \<Longrightarrow>
   i < length ids \<and> ids ! i = 0
   \<and> (\<exists>k<length ids. i = (nxt + k) mod length ids
         \<and> (\<forall>j<k. ids ! ((nxt + j) mod length ids) \<noteq> 0))"
proof -
  assume a: "first_free ids nxt = Some i"
  then obtain k where k: "k < length (scan_order (length ids) nxt)"
    "ids ! (scan_order (length ids) nxt ! k) = 0" "i = scan_order (length ids) nxt ! k"
    "\<forall>j<k. ids ! (scan_order (length ids) nxt ! j) \<noteq> 0"
    unfolding first_free_def find_Some_iff by blast
  have l: "length (scan_order (length ids) nxt) = length ids" by (simp add: scan_order_def)
  have nth: "\<And>j. j < length ids \<Longrightarrow> scan_order (length ids) nxt ! j = (nxt + j) mod length ids"
    by (simp add: scan_order_def)
  from a have "i \<in> set (scan_order (length ids) nxt)"
    unfolding first_free_def by (metis find_Some_iff nth_mem)
  then have b: "i < length ids" by (simp add: scan_order_set)
  from k l nth have "\<exists>k<length ids. i = (nxt + k) mod length ids
         \<and> (\<forall>j<k. ids ! ((nxt + j) mod length ids) \<noteq> 0)"
    by (metis less_trans)
  with b k show ?thesis by simp
qed

lemma first_free_only:
  "i < length ids \<Longrightarrow> ids ! i = 0 \<Longrightarrow> (\<forall>j<length ids. j \<noteq> i \<longrightarrow> ids ! j \<noteq> 0) \<Longrightarrow>
   first_free ids nxt = Some i"
proof -
  assume a: "i < length ids" "ids ! i = 0" "\<forall>j<length ids. j \<noteq> i \<longrightarrow> ids ! j \<noteq> 0"
  then have "first_free ids nxt \<noteq> None" by (auto simp: first_free_None)
  then obtain r where r: "first_free ids nxt = Some r" by blast
  from first_free_Some [OF r] a have "r = i" by blast
  with r show ?thesis by simp
qed

lemma getNextSctpStreamId_eq:
  assumes "t_data_sctpParameters t = Some sp" and "MIS sp = Some n"
  shows "getNextSctpStreamId t =
     (let ids = (case t_sctpStreamIds t of None \<Rightarrow> replicate n 0 | Some b \<Rightarrow> b)
      in case first_free ids (t_nextSctpStreamId t) of
           Some i \<Rightarrow> (Inr i, t\<lparr>t_sctpStreamIds := Some ids, t_nextSctpStreamId := i + 1\<rparr>)
         | None \<Rightarrow> (Inl (Error ''no sctpStreamId available''), t\<lparr>t_sctpStreamIds := Some ids\<rparr>))"
  using assms
  by (simp add: getNextSctpStreamId_def Let_def scan_is_first_free split: option.splits)

lemma getNextSctpStreamId_buffer:
  assumes "t_data_sctpParameters t = Some sp" and "MIS sp = Some n"
  shows "t_sctpStreamIds (snd (getNextSctpStreamId t)) =
     Some (case t_sctpStreamIds t of None \<Rightarrow> replicate n 0 | Some b \<Rightarrow> b)"
  by (simp add: getNextSctpStreamId_eq [OF assms] Let_def split: option.splits)

lemma getNextSctpStreamId_missing:
  "t_data_sctpParameters t = None \<or> (\<exists>sp. t_data_sctpParameters t = Some sp \<and> MIS sp = None) \<Longrightarrow>
   getNextSctpStreamId t = (Inl (TypeError ''missing sctpParameters.MIS''), t)"
  by (auto simp: getNextSctpStreamId_def)

lemma getNextSctpStreamId_Inr:
  assumes "fst (getNextSctpStreamId t) = Inr i"
  shows "\<exists>ids. t_sctpStreamIds (snd (getNextSctpStreamId t)) = Some ids
           \<and> first_free ids (t_nextSctpStreamId t) = Some i
           \<and> (t_sctpStreamIds t = None \<or> t_sctpStreamIds t = Some ids)
           \<and> snd (getNextSctpStreamId t) =
               t\<lparr>t_sctpStreamIds := Some ids, t_nextSctpStreamId := i + 1\<rparr>"
proof -
  have m: "\<not> (t_data_sctpParameters t = None
           \<or> (\<exists>sp. t_data_sctpParameters t = Some sp \<and> MIS sp = None))"
  proof
    assume "t_data_sctpParameters t = None
           \<or> (\<exists>sp. t_data_sctpParameters t = Some sp \<and> MIS sp = None)"
    then have "getNextSctpStreamId t = (Inl (TypeError ''missing sctpParameters.MIS''), t)"
      by (rule getNextSctpStreamId_missing)
    with assms show False by simp
  qed
  then obtain sp where a1: "t_data_sctpParameters t = Some sp"
    by (cases "t_data_sctpParameters t") auto
  with m obtain n where a2: "MIS sp = Some n"
    by (cases "MIS sp") auto
  note a = a1 a2
  define ids where "ids = (case t_sctpStreamIds t of None \<Rightarrow> replicate n 0 | Some b \<Rightarrow> b)"
  have e: "getNextSctpStreamId t =
     (case first_free ids (t_nextSctpStreamId t) of
        Some i \<Rightarrow> (Inr i, t\<lparr>t_sctpStreamIds := Some ids, t_nextSctpStreamId := i + 1\<rparr>)
      | None \<Rightarrow> (Inl (Error ''no sctpStreamId available''), t\<lparr>t_sctpStreamIds := Some ids\<rparr>))"
    unfolding ids_def using getNextSctpStreamId_eq [OF a] by (simp add: Let_def)
  have c: "t_sctpStreamIds t = None \<or> t_sctpStreamIds t = Some ids"
    by (cases "t_sctpStreamIds t") (simp_all add: ids_def)
  show ?thesis
  proof (cases "first_free ids (t_nextSctpStreamId t)")
    case None
    with e assms show ?thesis by simp
  next
    case (Some j)
    with e assms have "j = i" by simp
    with Some e c show ?thesis by simp
  qed
qed

lemma held_keeps:
  "held_sctpStreamIds (t\<lparr>t_sctpStreamIds := x\<rparr>) = held_sctpStreamIds t"
  "held_sctpStreamIds (t\<lparr>t_nextSctpStreamId := y\<rparr>) = held_sctpStreamIds t"
  by (simp_all add: held_sctpStreamIds_def)

lemma allocation_is_fresh:
  assumes inv: "allocator_inv t pending" and r: "fst (getNextSctpStreamId t) = Inr i"
  shows "i \<notin> set (held_sctpStreamIds t) \<and> i \<notin> set pending"
proof -
  from getNextSctpStreamId_Inr [OF r] obtain ids where
    f: "first_free ids (t_nextSctpStreamId t) = Some i"
    and c: "t_sctpStreamIds t = None \<or> t_sctpStreamIds t = Some ids"
    by blast
  from first_free_Some [OF f] have z: "ids ! i = 0" by blast
  from c show ?thesis
  proof
    assume "t_sctpStreamIds t = None"
    with inv show ?thesis by (simp add: allocator_inv_def)
  next
    assume "t_sctpStreamIds t = Some ids"
    with inv have "list_all (\<lambda>i. i < length ids \<and> ids ! i \<noteq> 0) (held_sctpStreamIds t @ pending)"
      by (simp add: allocator_inv_def)
    with z show ?thesis by (auto simp: list_all_iff)
  qed
qed

lemma allocator_inv_reserve:
  assumes inv: "allocator_inv t pending" and r: "fst (getNextSctpStreamId t) = Inr i"
  shows "allocator_inv (set_sctpStreamId i 1 (snd (getNextSctpStreamId t))) (pending @ [i])"
proof -
  from getNextSctpStreamId_Inr [OF r] obtain ids where
    f: "first_free ids (t_nextSctpStreamId t) = Some i"
    and c: "t_sctpStreamIds t = None \<or> t_sctpStreamIds t = Some ids"
    and s: "snd (getNextSctpStreamId t) = t\<lparr>t_sctpStreamIds := Some ids, t_nextSctpStreamId := i + 1\<rparr>"
    by blast
  from first_free_Some [OF f] have b: "i < length ids" by blast
  note fresh = allocation_is_fresh [OF inv r]
  have t': "set_sctpStreamId i 1 (snd (getNextSctpStreamId t)) =
      t\<lparr>t_sctpStreamIds := Some (ids[i := 1]), t_nextSctpStreamId := i + 1\<rparr>"
    by (simp add: s set_sctpStreamId_def)
  have old: "list_all (\<lambda>j. j < length ids \<and> ids ! j \<noteq> 0) (held_sctpStreamIds t @ pending)"
    using c inv by (auto simp: allocator_inv_def)
  have new: "list_all (\<lambda>j. j < length (ids[i := 1]) \<and> ids[i := 1] ! j \<noteq> 0)
      (held_sctpStreamIds t @ pending @ [i])"
    using old b by (auto simp: list_all_iff nth_list_update)
  have d: "distinct (held_sctpStreamIds t @ pending @ [i])"
    using inv fresh by (auto simp: allocator_inv_def)
  show ?thesis
    unfolding t' using new d by (simp add: allocator_inv_def held_keeps)
qed

lemma update_fresh: "map_of m k = None \<Longrightarrow> AList.update k v m = m @ [(k, v)]"
  by (induction m) (auto split: if_splits)

lemma map_filter_snoc:
  "List.map_filter f (xs @ [x]) =
     List.map_filter f xs @ (case f x of None \<Rightarrow> [] | Some y \<Rightarrow> [y])"
  by (simp add: map_filter_def split: option.splits)

lemma map_filter_filter_subset:
  "set (List.map_filter f (filter P xs)) \<subseteq> set (List.map_filter f xs)"
  by (auto simp: map_filter_def)

lemma map_filter_filter_distinct:
  "distinct (List.map_filter f xs) \<Longrightarrow> distinct (List.map_filter f (filter P xs))"
proof (induction xs)
  case Nil
  then show ?case by (simp add: map_filter_def)
next
  case (Cons x xs)
  have s: "set (List.map_filter f (filter P xs)) \<subseteq> set (List.map_filter f xs)"
    by (rule map_filter_filter_subset)
  from Cons have d: "distinct (List.map_filter f (filter P xs))"
    by (cases "f x") (simp_all add: map_filter_simps)
  show ?case
  proof (cases "f x")
    case None
    with d show ?thesis by (simp add: map_filter_simps)
  next
    case (Some y)
    with Cons.prems have "y \<notin> set (List.map_filter f xs)" by (simp add: map_filter_simps)
    with s have "y \<notin> set (List.map_filter f (filter P xs))" by blast
    with d Some show ?thesis by (simp add: map_filter_simps)
  qed
qed

lemma deleted_not_held:
  "distinct (map fst m) \<Longrightarrow> map_of m k = Some v \<Longrightarrow> f (k, v) = Some i \<Longrightarrow>
   distinct (List.map_filter f m) \<Longrightarrow> i \<notin> set (List.map_filter f (AList.delete k m))"
proof (induction m)
  case Nil
  then show ?case by simp
next
  case (Cons x m)
  obtain k' v' where x: "x = (k', v')" by (cases x)
  show ?case
  proof (cases "k' = k")
    case True
    with Cons.prems x have v: "v' = v" by simp
    from Cons.prems x True v have "i \<notin> set (List.map_filter f m)"
      by (simp add: map_filter_simps)
    moreover have "set (List.map_filter f (AList.delete k m)) \<subseteq> set (List.map_filter f m)"
      unfolding AList.delete_eq by (rule map_filter_filter_subset)
    ultimately show ?thesis using x True by (auto simp: map_filter_simps)
  next
    case False
    with Cons.prems x have mo: "map_of m k = Some v" by simp
    then have "(k, v) \<in> set m" by (rule map_of_SomeD)
    with Cons.prems(3) have h: "i \<in> set (List.map_filter f m)"
      by (force simp: map_filter_def)
    from Cons.prems x have dm: "distinct (List.map_filter f m)"
      by (cases "f (k', v')") (simp_all add: map_filter_simps)
    from Cons.prems x h have ne: "f (k', v') \<noteq> Some i"
      by (cases "f (k', v')") (auto simp: map_filter_simps)
    from Cons.prems x have "distinct (map fst m)" by simp
    from Cons.IH [OF this mo Cons.prems(3) dm]
    have "i \<notin> set (List.map_filter f (AList.delete k m))" .
    with ne x False show ?thesis
      by (cases "f (k', v')") (auto simp: map_filter_simps)
  qed
qed

lemma allocator_inv_initial:
  "t_sctpStreamIds t = None \<Longrightarrow> t_dataConsumers t = [] \<Longrightarrow> allocator_inv t []"
  by (simp add: allocator_inv_def held_sctpStreamIds_def map_filter_simps)

lemma allocator_inv_register:
  assumes inv: "allocator_inv t pending" and i: "i \<in> set pending"
    and p: "cdp_sctpStreamId pend = Some i"
    and k: "map_of (t_dataConsumers t) (cdrq_dataConsumerId (cdp_reqData pend)) = None"
  shows "allocator_inv (fst (snd (consumeData_continue pend (Resolved st) t))) (remove1 i pending)
    \<and> held_sctpStreamIds (fst (snd (consumeData_continue pend (Resolved st) t))) =
        held_sctpStreamIds t @ [i]"
proof -
  let ?t' = "fst (snd (consumeData_continue pend (Resolved st) t))"
  have t': "?t' = t\<lparr>t_dataConsumers := t_dataConsumers t
      @ [(cdrq_dataConsumerId (cdp_reqData pend), new_dataConsumer pend st)]\<rparr>"
    using k by (simp add: consumeData_continue_def Let_def new_dataConsumer_def update_fresh)
  have h: "held_sctpStreamIds ?t' = held_sctpStreamIds t @ [i]"
    unfolding t' using p
    by (simp add: held_sctpStreamIds_def map_filter_snoc new_dataConsumer_def)
  have b: "t_sctpStreamIds ?t' = t_sctpStreamIds t" unfolding t' by simp
  from inv have d: "distinct (held_sctpStreamIds t @ pending)" by (simp add: allocator_inv_def)
  with i have d': "distinct ((held_sctpStreamIds t @ [i]) @ remove1 i pending)"
    by (auto simp: distinct_remove1 set_remove1_eq)
  from d i have s: "set ((held_sctpStreamIds t @ [i]) @ remove1 i pending)
      = set (held_sctpStreamIds t @ pending)"
    by (auto simp: set_remove1_eq)
  show ?thesis
  proof (cases "t_sctpStreamIds t")
    case None
    with inv i show ?thesis by (simp add: allocator_inv_def)
  next
    case (Some ids)
    with inv have "list_all (\<lambda>i. i < length ids \<and> ids ! i \<noteq> 0) (held_sctpStreamIds t @ pending)"
      by (simp add: allocator_inv_def)
    then have "list_all (\<lambda>i. i < length ids \<and> ids ! i \<noteq> 0)
        ((held_sctpStreamIds t @ [i]) @ remove1 i pending)"
      unfolding list_all_iff s .
    with d' Some show ?thesis by (simp add: allocator_inv_def h b)
  qed
qed

text \<open>
  When the request rejects, the continuation changes nothing: no DataConsumer is
  registered, no listener is installed, and the slot reserved by the prefix stays set.
\<close>

lemma consumeData_rejected_keeps_state:
  "consumeData_continue pend (Rejected e) t = (Inl e, t, [])"
  by (simp add: consumeData_continue_def)

lemma on_close_frees:
  assumes inv: "allocator_inv t pending" and w: "distinct (map fst (t_dataConsumers t))"
    and r: "map_of (t_dataConsumers t) (dc_dataConsumerId dc) = Some dc"
    and s: "dc_sctpStreamId dc = Some i"
  shows "allocator_inv (transport_on_dataConsumer_close dc t) pending
    \<and> i \<notin> set (held_sctpStreamIds (transport_on_dataConsumer_close dc t))
    \<and> i \<notin> set pending
    \<and> (\<exists>ids. t_sctpStreamIds t = Some ids \<and> i < length ids
          \<and> t_sctpStreamIds (transport_on_dataConsumer_close dc t) = Some (ids[i := 0]))
    \<and> map_of (t_dataConsumers (transport_on_dataConsumer_close dc t)) (dc_dataConsumerId dc) = None"
proof -
  let ?t' = "transport_on_dataConsumer_close dc t"
  let ?f = "\<lambda>(k, dc). dc_sctpStreamId dc"
  let ?m = "t_dataConsumers t"
  let ?m' = "AList.delete (dc_dataConsumerId dc) ?m"
  from r have mem: "(dc_dataConsumerId dc, dc) \<in> set ?m" by (rule map_of_SomeD)
  with s have ih: "i \<in> set (held_sctpStreamIds t)"
    by (force simp: held_sctpStreamIds_def map_filter_def)
  from inv have d: "distinct (held_sctpStreamIds t @ pending)" by (simp add: allocator_inv_def)
  with ih have ip: "i \<notin> set pending" by auto
  from inv ih obtain ids where b: "t_sctpStreamIds t = Some ids"
    by (cases "t_sctpStreamIds t") (auto simp: allocator_inv_def)
  with inv have marks: "list_all (\<lambda>i. i < length ids \<and> ids ! i \<noteq> 0) (held_sctpStreamIds t @ pending)"
    by (simp add: allocator_inv_def)
  with ih have il: "i < length ids" by (auto simp: list_all_iff)
  have t': "?t' = t\<lparr>t_dataConsumers := ?m', t_sctpStreamIds := Some (ids[i := 0])\<rparr>"
    using s b by (simp add: transport_on_dataConsumer_close_def set_sctpStreamId_def Let_def)
  have h': "held_sctpStreamIds ?t' = List.map_filter ?f ?m'"
    unfolding t' by (simp add: held_sctpStreamIds_def)
  have sub: "set (List.map_filter ?f ?m') \<subseteq> set (held_sctpStreamIds t)"
    unfolding AList.delete_eq held_sctpStreamIds_def by (rule map_filter_filter_subset)
  from d have dh: "distinct (List.map_filter ?f ?m)" by (simp add: held_sctpStreamIds_def)
  then have dist: "distinct (List.map_filter ?f ?m')"
    unfolding AList.delete_eq by (rule map_filter_filter_distinct)
  have "?f (dc_dataConsumerId dc, dc) = Some i" using s by simp
  from deleted_not_held [OF w r this dh]
  have nh: "i \<notin> set (List.map_filter ?f ?m')" .
  from d sub dist have d': "distinct (List.map_filter ?f ?m' @ pending)" by auto
  have marks': "list_all (\<lambda>j. j < length (ids[i := 0]) \<and> ids[i := 0] ! j \<noteq> 0)
      (List.map_filter ?f ?m' @ pending)"
    unfolding list_all_iff
  proof
    fix j assume j: "j \<in> set (List.map_filter ?f ?m' @ pending)"
    with nh ip have ne: "j \<noteq> i" by auto
    from j sub have "j \<in> set (held_sctpStreamIds t @ pending)" by auto
    with marks have "j < length ids \<and> ids ! j \<noteq> 0" by (simp add: list_all_iff)
    with ne show "j < length (ids[i := 0]) \<and> ids[i := 0] ! j \<noteq> 0" by simp
  qed
  have inv': "allocator_inv ?t' pending"
    unfolding t' allocator_inv_def using d' marks' by (simp add: held_sctpStreamIds_def)
  have gone: "map_of (t_dataConsumers ?t') (dc_dataConsumerId dc) = None"
    unfolding t' by (simp add: AList.delete_conv')
  have nh': "i \<notin> set (held_sctpStreamIds ?t')" unfolding h' by (rule nh)
  have bx: "t_sctpStreamIds ?t' = Some (ids[i := 0])" unfolding t' by simp
  from b il bx have ex: "\<exists>ids. t_sctpStreamIds t = Some ids \<and> i < length ids
          \<and> t_sctpStreamIds ?t' = Some (ids[i := 0])" by blast
  from inv' nh' ip ex gone show ?thesis by blast
qed

lemma free_then_reuse:
  assumes a: "t_data_sctpParameters t = Some sp" "MIS sp = Some n"
    and b: "t_sctpStreamIds t = Some ids" and i: "i < length ids" "ids ! i = 0"
    and o: "\<forall>j<length ids. j \<noteq> i \<longrightarrow> ids ! j \<noteq> 0"
  shows "getNextSctpStreamId t = (Inr i, t\<lparr>t_nextSctpStreamId := i + 1\<rparr>)"
proof -
  from first_free_only [OF i o] have "first_free ids (t_nextSctpStreamId t) = Some i" .
  moreover have "t\<lparr>t_sctpStreamIds := Some ids\<rparr> = t" using b by simp
  ultimately show ?thesis
    using getNextSctpStreamId_eq [OF a] b by (simp add: Let_def)
qed

lemma exhausted_throws:
  assumes a: "t_data_sctpParameters t = Some sp" "MIS sp = Some n"
    and b: "t_sctpStreamIds t = Some ids" and f: "\<forall>j<length ids. ids ! j \<noteq> 0"
  shows "getNextSctpStreamId t = (Inl (Error ''no sctpStreamId available''), t)"
proof -
  from f have "first_free ids (t_nextSctpStreamId t) = None" by (simp add: first_free_None)
  moreover have "t\<lparr>t_sctpStreamIds := Some ids\<rparr> = t" using b by simp
  ultimately show ?thesis
    using getNextSctpStreamId_eq [OF a] b by (simp add: Let_def)
qed

lemma consumeData_prefix_sctp:
  assumes nd: "t_constructor_name t \<noteq> ''DirectTransport''"
    and r: "consumeData_prefix rv u t opts = (Inr pend, t', es)"
  shows "\<exists>i. cdp_sctpStreamId pend = Some i
           \<and> fst (getNextSctpStreamId t) = Inr i
           \<and> t' = set_sctpStreamId i 1 (snd (getNextSctpStreamId t))
           \<and> cdrq_dataConsumerId (cdp_reqData pend) = u
           \<and> es = [Log Debug ''consumeData()'',
                   ChannelRequest ''transport.consumeData'' (Some (t_transportId t))
                     (ConsumeDataData (cdp_reqData pend))]"
proof -
  obtain x t1 where g: "getNextSctpStreamId t = (x, t1)"
    by (cases "getNextSctpStreamId t")
  have tid: "t_transportId t1 = t_transportId t"
    using g by (auto simp: getNextSctpStreamId_def Let_def split: option.splits)
  have tid2: "\<And>i. t_transportId (set_sctpStreamId i 1 t1) = t_transportId t"
    using tid by (simp add: set_sctpStreamId_def split: option.splits)
  show ?thesis
  proof (cases x)
    case (Inl e)
    with r nd g show ?thesis
      by (simp add: consumeData_prefix_def Let_def split: if_splits option.splits)
  next
    case (Inr i)
    with r nd g tid2 show ?thesis
      by (auto simp: consumeData_prefix_def Let_def split: if_splits option.splits)
  qed
qed

lemma consumeData_exhausted:
  assumes nd: "t_constructor_name t \<noteq> ''DirectTransport''"
    and a: "t_data_sctpParameters t = Some sp" "MIS sp = Some n"
    and v: "dco_dataProducerId opts = Some dpid" "dpid \<noteq> []" "dco_appData opts \<noteq> AppDataOther"
      "getDataProducerById rv dpid = Some dp"
    and b: "t_sctpStreamIds t = Some ids" and f: "\<forall>j<length ids. ids ! j \<noteq> 0"
  shows "consumeData rv u r t opts =
      (Inl (Error ''no sctpStreamId available''), t, [Log Debug ''consumeData()''])"
  using nd v exhausted_throws [OF a b f]
  by (simp add: consumeData_def consumeData_prefix_def truthy_def id_or_def Let_def)

lemma consumeData_reserves:
  assumes nd: "t_constructor_name t \<noteq> ''DirectTransport''"
    and v: "dco_dataProducerId opts = Some dpid" "dpid \<noteq> []" "dco_appData opts \<noteq> AppDataOther"
      "getDataProducerById rv dpid = Some dp"
    and g: "fst (getNextSctpStreamId t) = Inr i"
  shows "\<exists>pend. consumeData_prefix rv u t opts =
      (Inr pend, set_sctpStreamId i 1 (snd (getNextSctpStreamId t)),
       [Log Debug ''consumeData()'',
        ChannelRequest ''transport.consumeData'' (Some (t_transportId t))
          (ConsumeDataData (cdp_reqData pend))])
      \<and> cdp_sctpStreamId pend = Some i
      \<and> cdrq_dataConsumerId (cdp_reqData pend) = u"
proof -
  obtain x t1 where p: "getNextSctpStreamId t = (x, t1)"
    by (cases "getNextSctpStreamId t")
  with g have x: "x = Inr i" by simp
  have tid: "t_transportId t1 = t_transportId t"
    using p by (auto simp: getNextSctpStreamId_def Let_def split: option.splits)
  have tid2: "t_transportId (set_sctpStreamId i 1 t1) = t_transportId t"
    using tid by (simp add: set_sctpStreamId_def split: option.splits)
  show ?thesis
    using nd v p x tid2
    by (simp add: consumeData_prefix_def truthy_def id_or_def Let_def)
qed

lemma buffer_untouched:
  "t_sctpStreamIds (fst (snd (produce_prefix oc rv u1 u2 t opts))) = t_sctpStreamIds t"
  "t_sctpStreamIds (fst (snd (produce_continue ppend pr t))) = t_sctpStreamIds t"
  "t_sctpStreamIds (fst (snd (consume_prefix oc rv u1 t copts))) = t_sctpStreamIds t"
  "t_sctpStreamIds (fst (snd (consume_continue cpend cr t))) = t_sctpStreamIds t"
  "t_sctpStreamIds (fst (snd (consumeData_continue dpend dr t))) = t_sctpStreamIds t"
proof -
  have a: "t_sctpStreamIds (fst (assign_cname u t rp)) = t_sctpStreamIds t" for u rp
    by (simp add: assign_cname_def Let_def)
  have b: "t_sctpStreamIds (fst (assign_mid p m t rp)) = t_sctpStreamIds t" for p m rp
    by (simp add: assign_mid_def Let_def split: option.splits)
  show "t_sctpStreamIds (fst (snd (produce_prefix oc rv u1 u2 t opts))) = t_sctpStreamIds t"
    by (simp add: produce_prefix_def Let_def case_prod_beta a split: option.splits sum.splits)
  show "t_sctpStreamIds (fst (snd (produce_continue ppend pr t))) = t_sctpStreamIds t"
    by (simp add: produce_continue_def Let_def split: response.splits)
  show "t_sctpStreamIds (fst (snd (consume_prefix oc rv u1 t copts))) = t_sctpStreamIds t"
    by (simp add: consume_prefix_def Let_def case_prod_beta b split: option.splits sum.splits)
  show "t_sctpStreamIds (fst (snd (consume_continue cpend cr t))) = t_sctpStreamIds t"
    by (simp add: consume_continue_def Let_def split: response.splits)
  show "t_sctpStreamIds (fst (snd (consumeData_continue dpend dr t))) = t_sctpStreamIds t"
    by (simp add: consumeData_continue_def Let_def split: response.splits)
qed

lemma first_free_eval:
  "first_free [0, 0] 0 = Some 0"
  "first_free [1, 0] 1 = Some 1"
  "first_free [1, 0] (Suc 0) = Some (Suc 0)"
  "first_free [1, 1] 2 = None"
  "first_free [1, 1] (Suc (Suc 0)) = None"
  "first_free [0, 1] 2 = Some 0"
  "first_free [0, 1] (Suc (Suc 0)) = Some 0"
  by code_simp+

lemma example_getNext:
  "getNextSctpStreamId (fresh_transport ''WebRtcTransport'') =
     (Inr 0, (fresh_transport ''WebRtcTransport'')
                \<lparr>t_sctpStreamIds := Some [0, 0], t_nextSctpStreamId := 1\<rparr>)"
  "getNextSctpStreamId example_in_flight =
     (Inr 1, example_in_flight\<lparr>t_nextSctpStreamId := 2\<rparr>)"
  by (simp_all add: getNextSctpStreamId_def scan_is_first_free first_free_eval
      fresh_transport_def example_in_flight_def Let_def numeral_2_eq_2)

text \<open>
  C3 says that the allocation returns the first id not held by a live DataConsumer and
  throws when all ids are taken.  The slot of an id is set when \<open>consumeData()\<close>
  allocates it, before the request to the engine, and the DataConsumer exists only after
  the response.  On a fresh transport with MIS 2: a first \<open>consumeData()\<close> reserves
  id 0 and waits; a second one completes and its DataConsumer holds id 1; a third one
  throws "no sctpStreamId available" although no DataConsumer holds id 0.
\<close>

theorem allocation_passes_over_unheld_id_counterexample:
  "fst (snd (consumeData_prefix example_router ''a'' (fresh_transport ''WebRtcTransport'')
               example_dataConsumer_options)) = example_in_flight
   \<and> held_sctpStreamIds example_in_flight = []
   \<and> fst (snd (consumeData example_router ''b'' (Resolved example_consumeData_status)
                  example_in_flight example_dataConsumer_options)) = example_one_live
   \<and> held_sctpStreamIds example_one_live = [1]
   \<and> consumeData example_router ''c'' (Resolved example_consumeData_status)
        example_one_live example_dataConsumer_options =
       (Inl (Error ''no sctpStreamId available''), example_one_live,
        [Log Debug ''consumeData()''])"
proof -
  have v: "truthy (dco_dataProducerId example_dataConsumer_options)"
    "dco_appData example_dataConsumer_options \<noteq> AppDataOther"
    "getDataProducerById example_router
       (id_or (dco_dataProducerId example_dataConsumer_options) []) = Some example_dataProducer"
    by (simp_all add: example_dataConsumer_options_def truthy_def id_or_def example_router_def)
  have n: "t_constructor_name (fresh_transport ''WebRtcTransport'') \<noteq> ''DirectTransport''"
    "t_constructor_name example_in_flight \<noteq> ''DirectTransport''"
    "t_constructor_name example_one_live \<noteq> ''DirectTransport''"
    by (simp_all add: fresh_transport_def example_in_flight_def example_one_live_def)
  have a: "fst (snd (consumeData_prefix example_router ''a'' (fresh_transport ''WebRtcTransport'')
               example_dataConsumer_options)) = example_in_flight"
    using v n
    by (simp add: consumeData_prefix_def Let_def example_getNext set_sctpStreamId_def)
      (simp add: example_in_flight_def fresh_transport_def)
  have b: "held_sctpStreamIds example_in_flight = []"
    by (simp add: held_sctpStreamIds_def example_in_flight_def fresh_transport_def
        map_filter_simps)
  have c: "fst (snd (consumeData example_router ''b'' (Resolved example_consumeData_status)
                  example_in_flight example_dataConsumer_options)) = example_one_live"
    using v n
    by (simp add: consumeData_def consumeData_prefix_def consumeData_continue_def Let_def
        example_getNext set_sctpStreamId_def new_dataConsumer_def)
      (simp add: example_in_flight_def fresh_transport_def example_one_live_def
        example_live_def example_consumeData_status_def example_dataConsumer_options_def
        id_or_def)
  have d: "held_sctpStreamIds example_one_live = [1]"
    by (simp add: held_sctpStreamIds_def example_one_live_def fresh_transport_def
        map_filter_simps example_live_def)
  have g: "getNextSctpStreamId example_one_live =
      (Inl (Error ''no sctpStreamId available''), example_one_live)"
    by (simp add: getNextSctpStreamId_def scan_is_first_free first_free_eval
        fresh_transport_def example_one_live_def Let_def)
  have e: "consumeData example_router ''c'' (Resolved example_consumeData_status)
        example_one_live example_dataConsumer_options =
       (Inl (Error ''no sctpStreamId available''), example_one_live,
        [Log Debug ''consumeData()''])"
    using v n by (simp add: consumeData_def consumeData_prefix_def Let_def g)
  from a b c d e show ?thesis by blast
qed

text \<open>
  C3, amended.  On a Transport that is not a DirectTransport and whose SCTP parameters
  carry a numeric MIS: the bitmap is created, with MIS slots all free, by the first
  allocation; the loop of the allocation is the scan forward from the cursor modulo the
  size of the bitmap; it returns the first id whose slot is free and moves the cursor to
  that id plus one, and it throws exactly when every slot is set, so that a
  \<open>consumeData()\<close> then fails.  \<open>consumeData()\<close> sets the slot of the id it got
  before it issues its request.  As long as the ids held by the DataConsumers of the
  registry and the ids reserved by calls still waiting have their slots set and are
  distinct, the allocation returns none of them, and this is kept by the allocation, by
  the registration of the DataConsumer when the response arrives, and by the listener
  that runs when a DataConsumer closes or its DataProducer closes; that listener clears
  the slot of the DataConsumer's id, and the id is returned again by an allocation that
  finds it the only free one.
\<close>

theorem sctp_stream_id_allocation:
  assumes nd: "t_constructor_name t \<noteq> ''DirectTransport''"
    and sp: "t_data_sctpParameters t = Some sp" and mis: "MIS sp = Some n"
  shows
    "t_sctpStreamIds (snd (getNextSctpStreamId t)) =
       Some (case t_sctpStreamIds t of None \<Rightarrow> replicate n 0 | Some b \<Rightarrow> b)
     \<and> scan_sctpStreamIds ids nxt 0 = first_free ids nxt
     \<and> getNextSctpStreamId t =
         (let ids = (case t_sctpStreamIds t of None \<Rightarrow> replicate n 0 | Some b \<Rightarrow> b)
          in case first_free ids (t_nextSctpStreamId t) of
               Some i \<Rightarrow> (Inr i, t\<lparr>t_sctpStreamIds := Some ids, t_nextSctpStreamId := i + 1\<rparr>)
             | None \<Rightarrow> (Inl (Error ''no sctpStreamId available''),
                        t\<lparr>t_sctpStreamIds := Some ids\<rparr>))
     \<and> (first_free ids nxt = None \<longleftrightarrow> (\<forall>j<length ids. ids ! j \<noteq> 0))
     \<and> (first_free ids nxt = Some i \<longrightarrow>
          i < length ids \<and> ids ! i = 0
          \<and> (\<exists>k<length ids. i = (nxt + k) mod length ids
                \<and> (\<forall>j<k. ids ! ((nxt + j) mod length ids) \<noteq> 0)))
     \<and> (consumeData_prefix rv u t opts = (Inr pend, t', es) \<longrightarrow>
          (\<exists>i. cdp_sctpStreamId pend = Some i
             \<and> fst (getNextSctpStreamId t) = Inr i
             \<and> t' = set_sctpStreamId i 1 (snd (getNextSctpStreamId t))
             \<and> cdrq_dataConsumerId (cdp_reqData pend) = u
             \<and> es = [Log Debug ''consumeData()'',
                     ChannelRequest ''transport.consumeData'' (Some (t_transportId t))
                       (ConsumeDataData (cdp_reqData pend))]))
     \<and> (allocator_inv t pending \<and> fst (getNextSctpStreamId t) = Inr i \<longrightarrow>
          i \<notin> set (held_sctpStreamIds t) \<and> i \<notin> set pending
          \<and> allocator_inv (set_sctpStreamId i 1 (snd (getNextSctpStreamId t))) (pending @ [i]))
     \<and> (allocator_inv t pending \<and> i \<in> set pending \<and> cdp_sctpStreamId pend = Some i
          \<and> map_of (t_dataConsumers t) (cdrq_dataConsumerId (cdp_reqData pend)) = None \<longrightarrow>
          allocator_inv (fst (snd (consumeData_continue pend (Resolved st) t))) (remove1 i pending)
          \<and> held_sctpStreamIds (fst (snd (consumeData_continue pend (Resolved st) t))) =
              held_sctpStreamIds t @ [i])
     \<and> (allocator_inv t pending \<and> distinct (map fst (t_dataConsumers t))
          \<and> map_of (t_dataConsumers t) (dc_dataConsumerId dc) = Some dc
          \<and> dc_sctpStreamId dc = Some i \<longrightarrow>
          allocator_inv (transport_on_dataConsumer_close dc t) pending
          \<and> i \<notin> set (held_sctpStreamIds (transport_on_dataConsumer_close dc t))
          \<and> i \<notin> set pending
          \<and> (\<exists>ids. t_sctpStreamIds t = Some ids \<and> i < length ids
                \<and> t_sctpStreamIds (transport_on_dataConsumer_close dc t) = Some (ids[i := 0]))
          \<and> map_of (t_dataConsumers (transport_on_dataConsumer_close dc t))
               (dc_dataConsumerId dc) = None)
     \<and> (t_sctpStreamIds t = Some ids \<and> i < length ids \<and> ids ! i = 0
          \<and> (\<forall>j<length ids. j \<noteq> i \<longrightarrow> ids ! j \<noteq> 0) \<longrightarrow>
          getNextSctpStreamId t = (Inr i, t\<lparr>t_nextSctpStreamId := i + 1\<rparr>))
     \<and> (dco_dataProducerId opts = Some dpid \<and> dpid \<noteq> [] \<and> dco_appData opts \<noteq> AppDataOther
          \<and> getDataProducerById rv dpid = Some dp
          \<and> t_sctpStreamIds t = Some ids \<and> (\<forall>j<length ids. ids ! j \<noteq> 0) \<longrightarrow>
          consumeData rv u r t opts =
            (Inl (Error ''no sctpStreamId available''), t, [Log Debug ''consumeData()'']))
     \<and> (t_sctpStreamIds t = None \<and> t_dataConsumers t = [] \<longrightarrow> allocator_inv t [])"
proof -
  have c1: "t_sctpStreamIds (snd (getNextSctpStreamId t)) =
       Some (case t_sctpStreamIds t of None \<Rightarrow> replicate n 0 | Some b \<Rightarrow> b)"
    by (rule getNextSctpStreamId_buffer [OF sp mis])
  have c2: "scan_sctpStreamIds ids nxt 0 = first_free ids nxt"
    by (rule scan_is_first_free)
  have c3: "getNextSctpStreamId t =
         (let ids = (case t_sctpStreamIds t of None \<Rightarrow> replicate n 0 | Some b \<Rightarrow> b)
          in case first_free ids (t_nextSctpStreamId t) of
               Some i \<Rightarrow> (Inr i, t\<lparr>t_sctpStreamIds := Some ids, t_nextSctpStreamId := i + 1\<rparr>)
             | None \<Rightarrow> (Inl (Error ''no sctpStreamId available''),
                        t\<lparr>t_sctpStreamIds := Some ids\<rparr>))"
    by (rule getNextSctpStreamId_eq [OF sp mis])
  have c4: "first_free ids nxt = None \<longleftrightarrow> (\<forall>j<length ids. ids ! j \<noteq> 0)"
    by (rule first_free_None)
  have c5: "first_free ids nxt = Some i \<longrightarrow>
          i < length ids \<and> ids ! i = 0
          \<and> (\<exists>k<length ids. i = (nxt + k) mod length ids
                \<and> (\<forall>j<k. ids ! ((nxt + j) mod length ids) \<noteq> 0))"
    using first_free_Some [of ids nxt i] by blast
  have c6: "consumeData_prefix rv u t opts = (Inr pend, t', es) \<longrightarrow>
          (\<exists>i. cdp_sctpStreamId pend = Some i
             \<and> fst (getNextSctpStreamId t) = Inr i
             \<and> t' = set_sctpStreamId i 1 (snd (getNextSctpStreamId t))
             \<and> cdrq_dataConsumerId (cdp_reqData pend) = u
             \<and> es = [Log Debug ''consumeData()'',
                     ChannelRequest ''transport.consumeData'' (Some (t_transportId t))
                       (ConsumeDataData (cdp_reqData pend))])"
    using consumeData_prefix_sctp [OF nd, of rv u opts pend t' es] by blast
  have c7: "allocator_inv t pending \<and> fst (getNextSctpStreamId t) = Inr i \<longrightarrow>
          i \<notin> set (held_sctpStreamIds t) \<and> i \<notin> set pending
          \<and> allocator_inv (set_sctpStreamId i 1 (snd (getNextSctpStreamId t))) (pending @ [i])"
    using allocation_is_fresh [of t pending i] allocator_inv_reserve [of t pending i] by blast
  have c8: "allocator_inv t pending \<and> i \<in> set pending \<and> cdp_sctpStreamId pend = Some i
          \<and> map_of (t_dataConsumers t) (cdrq_dataConsumerId (cdp_reqData pend)) = None \<longrightarrow>
          allocator_inv (fst (snd (consumeData_continue pend (Resolved st) t))) (remove1 i pending)
          \<and> held_sctpStreamIds (fst (snd (consumeData_continue pend (Resolved st) t))) =
              held_sctpStreamIds t @ [i]"
    using allocator_inv_register [of t pending i pend st] by blast
  have c9: "allocator_inv t pending \<and> distinct (map fst (t_dataConsumers t))
          \<and> map_of (t_dataConsumers t) (dc_dataConsumerId dc) = Some dc
          \<and> dc_sctpStreamId dc = Some i \<longrightarrow>
          allocator_inv (transport_on_dataConsumer_close dc t) pending
          \<and> i \<notin> set (held_sctpStreamIds (transport_on_dataConsumer_close dc t))
          \<and> i \<notin> set pending
          \<and> (\<exists>ids. t_sctpStreamIds t = Some ids \<and> i < length ids
                \<and> t_sctpStreamIds (transport_on_dataConsumer_close dc t) = Some (ids[i := 0]))
          \<and> map_of (t_dataConsumers (transport_on_dataConsumer_close dc t))
               (dc_dataConsumerId dc) = None"
    using on_close_frees [of t pending dc i] by blast
  have c10: "t_sctpStreamIds t = Some ids \<and> i < length ids \<and> ids ! i = 0
          \<and> (\<forall>j<length ids. j \<noteq> i \<longrightarrow> ids ! j \<noteq> 0) \<longrightarrow>
          getNextSctpStreamId t = (Inr i, t\<lparr>t_nextSctpStreamId := i + 1\<rparr>)"
    using free_then_reuse [OF sp mis, of ids i] by blast
  have c11: "dco_dataProducerId opts = Some dpid \<and> dpid \<noteq> [] \<and> dco_appData opts \<noteq> AppDataOther
          \<and> getDataProducerById rv dpid = Some dp
          \<and> t_sctpStreamIds t = Some ids \<and> (\<forall>j<length ids. ids ! j \<noteq> 0) \<longrightarrow>
          consumeData rv u r t opts =
            (Inl (Error ''no sctpStreamId available''), t, [Log Debug ''consumeData()''])"
    using consumeData_exhausted [OF nd sp mis, of opts dpid rv dp ids u r] by blast
  have c12: "t_sctpStreamIds t = None \<and> t_dataConsumers t = [] \<longrightarrow> allocator_inv t []"
    using allocator_inv_initial [of t] by blast
  show ?thesis
    by (intro conjI c1 c2 c3 c4 c5 c6 c7 c8 c9 c10 c11 c12)
qed

theorem sctp_stream_id_allocation_witness:
  "t_constructor_name example_two_live \<noteq> ''DirectTransport''
   \<and> t_data_sctpParameters example_two_live = Some \<lparr>MIS = Some 2\<rparr>
   \<and> allocator_inv example_two_live []
   \<and> consumeData example_router ''c'' (Resolved example_consumeData_status)
        example_two_live example_dataConsumer_options =
       (Inl (Error ''no sctpStreamId available''), example_two_live,
        [Log Debug ''consumeData()''])
   \<and> t_sctpStreamIds (transport_on_dataConsumer_close (example_live ''a'' 0) example_two_live)
       = Some [0, 1]
   \<and> fst (getNextSctpStreamId
            (transport_on_dataConsumer_close (example_live ''a'' 0) example_two_live)) = Inr 0"
proof -
  let ?t' = "transport_on_dataConsumer_close (example_live ''a'' 0) example_two_live"
  have nd: "t_constructor_name example_two_live \<noteq> ''DirectTransport''"
    by (simp add: example_two_live_def fresh_transport_def)
  have sp: "t_data_sctpParameters example_two_live = Some \<lparr>MIS = Some 2\<rparr>"
    by (simp add: example_two_live_def fresh_transport_def)
  have mis: "MIS \<lparr>MIS = Some 2\<rparr> = Some 2" by simp
  have b: "t_sctpStreamIds example_two_live = Some [1, 1]"
    by (simp add: example_two_live_def)
  have full: "\<forall>j<length [1, 1::8 word]. [1, 1::8 word] ! j \<noteq> 0"
    by (auto simp: less_Suc_eq)
  have inv: "allocator_inv example_two_live []"
    by (simp add: allocator_inv_def held_sctpStreamIds_def example_two_live_def
        fresh_transport_def example_live_def map_filter_simps)
  have v: "dco_dataProducerId example_dataConsumer_options = Some ''dp1''" "''dp1'' \<noteq> []"
    "dco_appData example_dataConsumer_options \<noteq> AppDataOther"
    "getDataProducerById example_router ''dp1'' = Some example_dataProducer"
    by (simp_all add: example_dataConsumer_options_def example_router_def)
  have k: "distinct (map fst (t_dataConsumers example_two_live))"
    "map_of (t_dataConsumers example_two_live) (dc_dataConsumerId (example_live ''a'' 0))
       = Some (example_live ''a'' 0)"
    "dc_sctpStreamId (example_live ''a'' 0) = Some 0"
    by (simp_all add: example_two_live_def example_live_def)
  note T = sctp_stream_id_allocation [OF nd sp mis]
  from T [where opts = example_dataConsumer_options and dpid = "''dp1''"
      and rv = example_router and dp = example_dataProducer and ids = "[1, 1]"
      and u = "''c''" and r = "Resolved example_consumeData_status"] v b full
  have e: "consumeData example_router ''c'' (Resolved example_consumeData_status)
        example_two_live example_dataConsumer_options =
       (Inl (Error ''no sctpStreamId available''), example_two_live,
        [Log Debug ''consumeData()''])"
    by blast
  from T [where pending = "[]" and dc = "example_live ''a'' 0" and i = 0] inv k
  have "\<exists>ids. t_sctpStreamIds example_two_live = Some ids \<and> 0 < length ids
          \<and> t_sctpStreamIds ?t' = Some (ids[0 := 0])"
    by blast
  with b have f: "t_sctpStreamIds ?t' = Some [0, 1]" by auto
  have nd': "t_constructor_name ?t' \<noteq> ''DirectTransport''"
    and sp': "t_data_sctpParameters ?t' = Some \<lparr>MIS = Some 2\<rparr>"
    by (simp_all add: transport_on_dataConsumer_close_def set_sctpStreamId_def
        example_two_live_def fresh_transport_def example_live_def)
  have only: "0 < length [0, 1::8 word]" "[0, 1::8 word] ! 0 = 0"
    "\<forall>j<length [0, 1::8 word]. j \<noteq> 0 \<longrightarrow> [0, 1::8 word] ! j \<noteq> 0"
    by (auto simp: less_Suc_eq)
  from sctp_stream_id_allocation [OF nd' sp' mis, where ids = "[0, 1]" and i = 0] f only
  have "getNextSctpStreamId ?t' = (Inr 0, ?t'\<lparr>t_nextSctpStreamId := 0 + 1\<rparr>)"
    by blast
  then have g: "fst (getNextSctpStreamId ?t') = Inr 0" by simp
  from nd sp inv e f g show ?thesis by blast
qed

subsection \<open>DataProducer.send\<close>

text \<open>
  C10, as stated, ends with "so an empty payload is never sent on the wire".  With an
  explicit numeric ppid other than 56 and 57 the message is passed on as it is: the empty
  string sent with ppid 51 reaches the payload channel empty.
\<close>

theorem send_empty_payload_counterexample:
  "send example_dataProducer
        (MString []) (PpidNumber 51)
     = Inr [PayloadChannelNotify ''dataProducer.send'' ''dp1'' ''51'' (MString [])]
   \<and> empty_payload (MString [])"
  by (simp add: send_def honor_ppid_def string_of_int_def string_of_nat_step
      string_of_nat_digit digit_char_def empty_payload_def example_dataProducer_def)

text \<open>
  C10, amended: \<open>send\<close> throws a TypeError when the message is neither a string nor a
  Buffer; a ppid that is not a number defaults to 51 for a non-empty string, 56 for the
  empty string, 53 for a non-empty Buffer and 57 for the empty Buffer; the one
  notification issued carries the ppid rendered as a string and the message, replaced by
  the single-space string when the ppid is 56 and by a one-byte Buffer when it is 57, and
  left as it is for every other ppid.  Hence no empty payload is sent when the ppid is
  defaulted or is 56 or 57.
\<close>

theorem send_honors_ppid:
  "send dp MOther p = Inl (TypeError ''message must be a string or a Buffer'')
   \<and> default_ppid (MString (c # s)) = 51
   \<and> default_ppid (MString []) = 56
   \<and> default_ppid (MBuffer (b # bs)) = 53
   \<and> default_ppid (MBuffer []) = 57
   \<and> (m \<noteq> MOther \<longrightarrow>
        send dp m PpidNotNumber =
          Inr [PayloadChannelNotify ''dataProducer.send'' (dp_dataProducerId dp)
                 (string_of_int (default_ppid m)) (honor_ppid (default_ppid m) m)])
   \<and> (m \<noteq> MOther \<longrightarrow>
        send dp m (PpidNumber n) =
          Inr [PayloadChannelNotify ''dataProducer.send'' (dp_dataProducerId dp)
                 (string_of_int n) (honor_ppid n m)])
   \<and> honor_ppid 56 m = MString '' ''
   \<and> honor_ppid 57 m = MBuffer [0]
   \<and> (n \<noteq> 56 \<and> n \<noteq> 57 \<longrightarrow> honor_ppid n m = m)
   \<and> (m \<noteq> MOther \<longrightarrow> \<not> empty_payload (honor_ppid (default_ppid m) m))
   \<and> \<not> empty_payload (honor_ppid 56 m) \<and> \<not> empty_payload (honor_ppid 57 m)"
  by (cases m) (simp_all add: send_def default_ppid_def honor_ppid_def empty_payload_def)

theorem send_honors_ppid_witness:
  "send example_dataProducer
        (MString []) PpidNotNumber
     = Inr [PayloadChannelNotify ''dataProducer.send'' ''dp1'' ''56'' (MString '' '')]
   \<and> send example_dataProducer
        (MString []) (PpidNumber 53)
     = Inr [PayloadChannelNotify ''dataProducer.send'' ''dp1'' ''53'' (MString [])]"
  using send_honors_ppid
    [of "example_dataProducer"
        PpidNotNumber "CHR ''a''" "[]" 0 "[]" "MString []" 53]
  by (simp add: default_ppid_def honor_ppid_def string_of_int_def string_of_nat_step
      string_of_nat_digit digit_char_def example_dataProducer_def)

subsection \<open>RtpObserver.pause and resume\<close>

text \<open>
  C9: the synchronous prefix of \<open>pause()\<close> only reads the paused flag and issues the
  request.  When the request rejects, the continuation leaves the observer as it is and
  emits nothing; when it resolves, it sets \<open>paused\<close> to true and emits the observer
  event 'pause' exactly when the observer was not paused at the call.  \<open>resume()\<close>
  is symmetric.  So, no matter what ran between the request and the response, pausing an
  observer that was paused at the call (resuming one that was not) emits no observer
  event.
\<close>

theorem pause_resume_after_response:
  "pause_prefix ro =
     (ro_paused ro,
      [Log Debug ''pause()'',
       ChannelRequest ''rtpObserver.pause'' (Some (ro_rtpObserverId ro)) NoData])
   \<and> pause_continue w (Rejected e) ro' = (Inl e, ro', [])
   \<and> pause_continue w (Resolved ()) ro' =
       (Inr (), ro'\<lparr>ro_paused := True\<rparr>, if w then [] else [ObserverSafeEmit ''pause'' None])
   \<and> pause ro (Rejected e) = (Inl e, ro, snd (pause_prefix ro))
   \<and> pause ro (Resolved ()) =
       (Inr (), ro\<lparr>ro_paused := True\<rparr>,
        snd (pause_prefix ro) @ (if ro_paused ro then [] else [ObserverSafeEmit ''pause'' None]))
   \<and> resume_prefix ro =
     (ro_paused ro,
      [Log Debug ''resume()'',
       ChannelRequest ''rtpObserver.resume'' (Some (ro_rtpObserverId ro)) NoData])
   \<and> resume_continue w (Rejected e) ro' = (Inl e, ro', [])
   \<and> resume_continue w (Resolved ()) ro' =
       (Inr (), ro'\<lparr>ro_paused := False\<rparr>, if w then [ObserverSafeEmit ''resume'' None] else [])
   \<and> resume ro (Rejected e) = (Inl e, ro, snd (resume_prefix ro))
   \<and> resume ro (Resolved ()) =
       (Inr (), ro\<lparr>ro_paused := False\<rparr>,
        snd (resume_prefix ro) @ (if ro_paused ro then [ObserverSafeEmit ''resume'' None] else []))"
  by (simp add: pause_prefix_def pause_continue_def pause_def
      resume_prefix_def resume_continue_def resume_def)

theorem pause_resume_after_response_witness:
  "pause \<lparr>ro_rtpObserverId = ''o1'', ro_routerId = ''r1'', ro_closed = False, ro_paused = True\<rparr>
     (Resolved ())
   = (Inr (),
      \<lparr>ro_rtpObserverId = ''o1'', ro_routerId = ''r1'', ro_closed = False, ro_paused = True\<rparr>,
      [Log Debug ''pause()'', ChannelRequest ''rtpObserver.pause'' (Some ''o1'') NoData])
   \<and> resume \<lparr>ro_rtpObserverId = ''o1'', ro_routerId = ''r1'', ro_closed = False, ro_paused = True\<rparr>
     (Rejected (Error ''x''))
   = (Inl (Error ''x''),
      \<lparr>ro_rtpObserverId = ''o1'', ro_routerId = ''r1'', ro_closed = False, ro_paused = True\<rparr>,
      [Log Debug ''resume()'', ChannelRequest ''rtpObserver.resume'' (Some ''o1'') NoData])"
  using pause_resume_after_response
    [of "\<lparr>ro_rtpObserverId = ''o1'', ro_routerId = ''r1'', ro_closed = False, ro_paused = True\<rparr>"
        True "Error ''x''"
        "\<lparr>ro_rtpObserverId = ''o1'', ro_routerId = ''r1'', ro_closed = False, ro_paused = True\<rparr>"]
  by (simp add: pause_prefix_def resume_prefix_def)

end
